theory Spec2Isabelle
  imports Main
begin

section \<open>Identifiers, roles, errors\<close>

text \<open>
  An ObjectId is represented by the 24-digit hexadecimal string that \<open>toString()\<close>
  yields; a stored \<open>Date\<close> by its millisecond time stamp.
\<close>

type_synonym objectId = string
type_synonym date = nat

text \<open>\<open>type UserRole = 'collector' | 'supervisor' | 'admin' | 'manager' | 'user'\<close>\<close>

datatype role = Collector | Supervisor | Admin | Manager | User

fun roleName :: "role \<Rightarrow> string" where
  "roleName Collector = ''collector''"
| "roleName Supervisor = ''supervisor''"
| "roleName Admin = ''admin''"
| "roleName Manager = ''manager''"
| "roleName User = ''user''"

text \<open>
  What a request can fail with. \<open>AppError message statusCode\<close> is the application's
  error class; \<open>ValidationResponse\<close> is the 400 answer that \<open>validateParams\<close> sends by
  itself; \<open>Thrown\<close> is any other exception (a \<open>TypeError\<close>, a duplicate-key error of
  the store) that reaches the error handler.
\<close>

datatype error = AppError string nat | ValidationResponse string | Thrown string

text \<open>\<open>errorHandler\<close>: the status code of the response.\<close>

fun statusCode :: "error \<Rightarrow> nat" where
  "statusCode (AppError m c) = c"
| "statusCode (ValidationResponse m) = 400"
| "statusCode (Thrown m) = 500"

section \<open>Documents\<close>

text \<open>
  The fields every schema of the repository declares alike: the identifier, the
  soft-delete markers and the time stamps of \<open>timestamps: true\<close>.
\<close>

record document =
  x_id :: objectId
  isActive :: bool
  isDeleted :: bool
  deletedAt :: "date option"
  deletedBy :: "objectId option"
  createdAt :: date
  updatedAt :: date

text \<open>\<open>IUser\<close>, with the fields the access rules read.\<close>

record user = document +
  role :: "role option"
  organization :: "objectId option"
  clients :: "objectId list option"

datatype status = pending | collected | in_transit | washing | packing | delivered | cancelled

record item =
  description :: string
  quantity :: int
  category :: "string option"

record uploadedDocument =
  fileName :: string
  filePath :: string
  uploadedBy :: objectId
  uploadedAt :: date

text \<open>\<open>ICollection\<close>\<close>

record collection = document +
  collectionCode :: string
  organizationId :: objectId
  clientId :: objectId
  dateTime :: date
  collectedBy :: objectId
  status :: "status option"
  notes' :: "string option"
  items :: "item list"
  uploadedDocuments :: "uploadedDocument list"

text \<open>
  The nested address of an organization and the billing address of a client have the
  same five optional paths.
\<close>

record address =
  street :: "string option"
  city :: "string option"
  state :: "string option"
  country :: "string option"
  zipCode :: "string option"

datatype orgSize = startup | small | medium | large | enterprise

text \<open>\<open>IOrganization\<close>\<close>

record organization = document +
  name :: string
  description :: "string option"
  email :: string
  phone :: "string option"
  website :: "string option"
  address :: address
  industry :: "string option"
  size' :: "orgSize option"
  logo :: "string option"
  createdBy :: objectId

datatype clientType = individual | business | hotel | restaurant | hospital | other

record clientAddress = address +
  landmark :: "string option"

record contactPerson =
  contact_name :: "string option"
  contact_designation :: "string option"
  contact_phone :: "string option"
  contact_email :: "string option"

record taxInfo =
  gstNumber :: "string option"
  panNumber :: "string option"

text \<open>\<open>IClient\<close>\<close>

record client = document +
  name :: string
  aliasName :: "string option"
  clientCode :: "string option"
  email :: string
  phone :: string
  alternatePhone :: "string option"
  address :: clientAddress
  clientType :: clientType
  contactPerson :: "contactPerson option"
  billingAddress :: "address option"
  taxInfo :: "taxInfo option"
  paymentTerms :: "string option"
  creditLimit :: "int option"
  client_notes :: "string option"
  preferredPickupTime :: "string option"
  preferredDeliveryTime :: "string option"
  organizationId :: objectId
  createdBy :: objectId

section \<open>Store queries\<close>

text \<open>
  A Mongo collection is a list of documents. \<open>findOne\<close> returns a document that
  satisfies the filter, \<open>updateOne\<close> rewrites the first such document.
\<close>

definition findOne :: "('a \<Rightarrow> bool) \<Rightarrow> 'a list \<Rightarrow> 'a option" where
  "findOne p xs = List.find p xs"

fun updateOne :: "('a \<Rightarrow> bool) \<Rightarrow> ('a \<Rightarrow> 'a) \<Rightarrow> 'a list \<Rightarrow> 'a list" where
  "updateOne p f [] = []"
| "updateOne p f (x # xs) = (if p x then f x # xs else x # updateOne p f xs)"

definition findById :: "'a document_scheme list \<Rightarrow> objectId \<Rightarrow> 'a document_scheme option" where
  "findById xs i = findOne (\<lambda>d. x_id d = i) xs"

text \<open>
  \<open>Types.ObjectId.isValid\<close> of the database driver is the parameter \<open>isValid\<close> of
  the definitions that depend on it. \<open>new Types.ObjectId(s)\<close> throws for a string that
  is not valid, and a query by \<open>_id\<close> throws a cast error for it. The message of an
  error of the library is abbreviated.
\<close>

definition invalidObjectId :: error where
  "invalidObjectId = AppError ''input must be a 24 character hex string, 12 byte Uint8Array, or an integer'' 500"

section \<open>Role middleware (middleware/roleAuth.ts)\<close>

fun joinWith :: "string \<Rightarrow> string list \<Rightarrow> string" where
  "joinWith sep [] = []"
| "joinWith sep [x] = x"
| "joinWith sep (x # y # ys) = x @ sep @ joinWith sep (y # ys)"

text \<open>
  \<open>requireRole(allowedRoles)\<close>: a request user without an id is refused; the user is
  looked up in the user store, where an id that is no ObjectId makes \<open>findById\<close> throw,
  which the \<open>catch\<close> block answers with the 500 error; the stored role decides. On
  success the role is written into the request's user.
\<close>

definition requireRole ::
  "(string \<Rightarrow> bool) \<Rightarrow> role list \<Rightarrow> user list \<Rightarrow> user option \<Rightarrow> error + user" where
  "requireRole isValid rolesArray users req_user =
     (case req_user of
        None \<Rightarrow> Inl (AppError ''Authentication required'' 401)
      | Some ru \<Rightarrow>
          if x_id ru = [] then Inl (AppError ''Invalid user data'' 401)
          else if \<not> isValid (x_id ru) then Inl (AppError ''Failed to verify user role'' 500)
          else
            (case findById users (x_id ru) of
               None \<Rightarrow> Inl (AppError ''User not found'' 404)
             | Some u \<Rightarrow>
                 (case role u of
                    None \<Rightarrow> Inl (AppError ''User role not assigned'' 403)
                  | Some userRole \<Rightarrow>
                      if userRole \<notin> set rolesArray
                      then Inl (AppError (''Access denied. Required role(s): ''
                                  @ joinWith '', '' (map roleName rolesArray)
                                  @ ''. Your role: '' @ roleName userRole) 403)
                      else Inr (ru\<lparr>role := Some userRole\<rparr>))))"

definition requireAdmin :: "(string \<Rightarrow> bool) \<Rightarrow> user list \<Rightarrow> user option \<Rightarrow> error + user" where
  "requireAdmin isValid = requireRole isValid [Admin]"

definition requireManagerOrAdmin ::
  "(string \<Rightarrow> bool) \<Rightarrow> user list \<Rightarrow> user option \<Rightarrow> error + user" where
  "requireManagerOrAdmin isValid = requireRole isValid [Manager, Admin]"

definition requireSupervisorOrAbove ::
  "(string \<Rightarrow> bool) \<Rightarrow> user list \<Rightarrow> user option \<Rightarrow> error + user" where
  "requireSupervisorOrAbove isValid = requireRole isValid [Supervisor, Admin, Manager]"

definition requireCollectorOrAbove ::
  "(string \<Rightarrow> bool) \<Rightarrow> user list \<Rightarrow> user option \<Rightarrow> error + user" where
  "requireCollectorOrAbove isValid = requireRole isValid [Collector, Supervisor, Admin, Manager]"

section \<open>Collection service (services/collectionService.ts)\<close>

text \<open>
  A collection document after \<open>populate\<close>: the paths \<open>clientId\<close> and \<open>collectedBy\<close>
  no longer hold the ids but the documents of the client store and of the user store
  that have these ids, or \<open>null\<close> when the store has none. The other populated paths
  (\<open>organizationId\<close>, \<open>uploadedDocuments.uploadedBy\<close>, \<open>deletedBy\<close>) are read by no
  caller and stay as they are stored.
\<close>

record populatedCollection =
  stored :: collection
  populated_clientId :: "client option"
  populated_collectedBy :: "user option"

definition populate :: "user list \<Rightarrow> client list \<Rightarrow> collection \<Rightarrow> populatedCollection" where
  "populate users clients' c =
     \<lparr> stored = c,
       populated_clientId = findById clients' (clientId c),
       populated_collectedBy = findById users (collectedBy c) \<rparr>"

text \<open>
  \<open>toString()\<close> of a populated path is \<open>Document.prototype.toString\<close>: the document as
  \<open>util.inspect\<close> prints it, an object literal in braces, of which the fields after the
  id are left out here. It is not the 24 hexadecimal digits that \<open>toString()\<close> of an
  ObjectId gives.
\<close>

definition Document_toString :: "'a document_scheme \<Rightarrow> string" where
  "Document_toString d = ''{ _id: new ObjectId('' @ x_id d @ '') }''"

text \<open>\<open>getCollectionById(id, organizationId)\<close>, which populates what it finds.\<close>

definition getCollectionById ::
  "user list \<Rightarrow> client list \<Rightarrow> collection list \<Rightarrow> objectId \<Rightarrow> objectId
     \<Rightarrow> error + populatedCollection" where
  "getCollectionById users clients' db i org =
     (case findOne (\<lambda>c. x_id c = i \<and> collection.organizationId c = org \<and> \<not> isDeleted c) db of
        None \<Rightarrow> Inl (AppError ''Collection not found'' 404)
      | Some c \<Rightarrow> Inr (populate users clients' c))"

text \<open>
  \<open>checkCollectionAccess(collection, userId, userRole?, userClients?)\<close>, called with the
  populated document: \<open>collection.collectedBy.toString()\<close> and
  \<open>collection.clientId.toString()\<close> are read from the populated paths and throw a
  \<open>TypeError\<close> when the path is \<open>null\<close>. \<open>userClients\<close> is the array of the user
  document, whose \<open>includes\<close> compares the string with each id.
\<close>

definition nullPath :: error where
  "nullPath = Thrown ''TypeError: Cannot read properties of null (reading toString)''"

definition checkCollectionAccess ::
  "populatedCollection \<Rightarrow> objectId \<Rightarrow> role option \<Rightarrow> objectId list option \<Rightarrow> error + bool" where
  "checkCollectionAccess c userId userRole userClients =
     (if (case userRole of None \<Rightarrow> False | Some r \<Rightarrow> r \<in> set [Admin, Manager]) then Inr True
      else
        (case populated_collectedBy c of
           None \<Rightarrow> Inl nullPath
         | Some collector \<Rightarrow>
             (let isCollector = (Document_toString collector = userId) in
              case userClients of
                None \<Rightarrow> Inr isCollector
              | Some cs \<Rightarrow>
                  (case populated_clientId c of
                     None \<Rightarrow> Inl nullPath
                   | Some cl \<Rightarrow> Inr (isCollector \<or> Document_toString cl \<in> set cs)))))"

text \<open>\<open>validateClientAccess(userClients, clientId)\<close>\<close>

definition validateClientAccess :: "string list \<Rightarrow> string \<Rightarrow> bool" where
  "validateClientAccess userClients cid = (cid \<in> set userClients)"

text \<open>\<open>canDeleteCollection(collection, userId, userRole?)\<close>, called with the populated document.\<close>

definition canDeleteCollection :: "populatedCollection \<Rightarrow> objectId \<Rightarrow> role option \<Rightarrow> error + bool" where
  "canDeleteCollection c userId userRole =
     (if (case userRole of None \<Rightarrow> False | Some r \<Rightarrow> r \<in> set [Admin, Manager]) then Inr True
      else
        (case populated_collectedBy c of
           None \<Rightarrow> Inl nullPath
         | Some collector \<Rightarrow> Inr (Document_toString collector = userId)))"

text \<open>\<open>IUpdateCollection\<close>: an absent field is \<open>undefined\<close>.\<close>

record IUpdateCollection =
  upd_status :: "status option"
  upd_notes :: "string option"
  upd_items :: "item list option"

text \<open>
  The three assignments of \<open>updateCollection\<close>: a field of \<open>updateData\<close> that is not
  \<open>undefined\<close> replaces the document's field.
\<close>

definition assignUpdate :: "IUpdateCollection \<Rightarrow> collection \<Rightarrow> collection" where
  "assignUpdate updateData c =
     (let c1 = (case upd_status updateData of None \<Rightarrow> c | Some s \<Rightarrow> c\<lparr>status := Some s\<rparr>);
          c2 = (case upd_notes updateData of None \<Rightarrow> c1 | Some n \<Rightarrow> c1\<lparr>notes' := Some n\<rparr>);
          c3 = (case upd_items updateData of None \<Rightarrow> c2 | Some its \<Rightarrow> c2\<lparr>items := its\<rparr>)
      in c3)"

text \<open>
  \<open>updateCollection(id, organizationId, updateData)\<close>: the document is found, assigned
  and saved (the save hook does nothing for a document that is not new; saving sets
  \<open>updatedAt\<close>).
\<close>

definition updateCollection ::
  "collection list \<Rightarrow> date \<Rightarrow> objectId \<Rightarrow> objectId \<Rightarrow> IUpdateCollection
     \<Rightarrow> (error + collection) \<times> collection list" where
  "updateCollection db now i org updateData =
     (let q = (\<lambda>c. x_id c = i \<and> collection.organizationId c = org \<and> \<not> isDeleted c) in
      case findOne q db of
        None \<Rightarrow> (Inl (AppError ''Collection not found'' 404), db)
      | Some c \<Rightarrow>
          (let c' = (assignUpdate updateData c)\<lparr>updatedAt := now\<rparr>
           in (Inr c', updateOne q (\<lambda>_. c') db)))"

text \<open>
  The instance methods \<open>softDelete(deletedBy)\<close> and \<open>restore()\<close>, which the Client and
  the Collection schema define with the same body, followed by their \<open>save()\<close>.
\<close>

definition softDelete :: "date \<Rightarrow> objectId \<Rightarrow> 'a document_scheme \<Rightarrow> 'a document_scheme" where
  "softDelete now by d =
     d\<lparr>isDeleted := True, isActive := False, deletedAt := Some now, deletedBy := Some by,
       updatedAt := now\<rparr>"

definition restore :: "date \<Rightarrow> 'a document_scheme \<Rightarrow> 'a document_scheme" where
  "restore now d =
     d\<lparr>isDeleted := False, isActive := True, deletedAt := None, deletedBy := None,
       updatedAt := now\<rparr>"

text \<open>\<open>deleteCollection(id, organizationId, deletedBy)\<close>\<close>

definition deleteCollection ::
  "collection list \<Rightarrow> date \<Rightarrow> objectId \<Rightarrow> objectId \<Rightarrow> objectId
     \<Rightarrow> (error + unit) \<times> collection list" where
  "deleteCollection db now i org by =
     (let q = (\<lambda>c. x_id c = i \<and> collection.organizationId c = org \<and> \<not> isDeleted c) in
      case findOne q db of
        None \<Rightarrow> (Inl (AppError ''Collection not found'' 404), db)
      | Some c \<Rightarrow> (Inr (), updateOne q (softDelete now by) db))"

section \<open>Collection codes (the save hook of models/Collection.ts)\<close>

text \<open>The clock: what \<open>new Date()\<close> answers to the getters the code calls.\<close>

record jsDate =
  getTime :: date
  getFullYear :: nat
  getMonth :: nat
  getDate :: nat

text \<open>A JavaScript number as far as the hook can produce one: an integer or \<open>NaN\<close>.\<close>

datatype number = NaN | Num int

definition digitChar :: "nat \<Rightarrow> char" where
  "digitChar n = ''0123456789'' ! n"

text \<open>\<open>String(n)\<close> for a natural number: its decimal digits.\<close>

fun String_nat :: "nat \<Rightarrow> string" where
  "String_nat n = (if n < 10 then [digitChar n] else String_nat (n div 10) @ [digitChar (n mod 10)])"

declare String_nat.simps [simp del]

fun String_number :: "number \<Rightarrow> string" where
  "String_number NaN = ''NaN''"
| "String_number (Num i) = (if i < 0 then CHR ''-'' # String_nat (nat (- i)) else String_nat (nat i))"

text \<open>\<open>s.padStart(n, c)\<close>, \<open>s.slice(-n)\<close> and \<open>s.startsWith(p)\<close> (the anchored regex of the hook
  holds only letters and digits, so it is a prefix test).\<close>

definition padStart :: "nat \<Rightarrow> char \<Rightarrow> string \<Rightarrow> string" where
  "padStart n c s = replicate (n - length s) c @ s"

definition sliceLast :: "nat \<Rightarrow> string \<Rightarrow> string" where
  "sliceLast n s = drop (length s - n) s"

definition startsWith :: "string \<Rightarrow> string \<Rightarrow> bool" where
  "startsWith p s = (take (length p) s = p)"

text \<open>\<open>parseInt(s)\<close> with no radix: white space is skipped, a sign is read, \<open>0x\<close> selects
  radix 16, and the longest run of digits of the radix is the value; no digit gives \<open>NaN\<close>.\<close>

definition isSpace :: "char \<Rightarrow> bool" where
  "isSpace c = (c \<in> set [CHR '' '', CHR 0x09, CHR 0x0A, CHR 0x0B, CHR 0x0C, CHR 0x0D, CHR 0xA0])"

definition digitVal :: "char \<Rightarrow> nat option" where
  "digitVal c =
     (let k = (of_char c :: nat) in
      if 48 \<le> k \<and> k \<le> 57 then Some (k - 48)
      else if 97 \<le> k \<and> k \<le> 122 then Some (k - 87)
      else if 65 \<le> k \<and> k \<le> 90 then Some (k - 55)
      else None)"

definition isDigitOf :: "nat \<Rightarrow> char \<Rightarrow> bool" where
  "isDigitOf radix c = (case digitVal c of None \<Rightarrow> False | Some v \<Rightarrow> v < radix)"

definition digitsValue :: "nat \<Rightarrow> string \<Rightarrow> nat" where
  "digitsValue radix ds = foldl (\<lambda>a c. a * radix + (case digitVal c of None \<Rightarrow> 0 | Some v \<Rightarrow> v)) 0 ds"

definition parseInt :: "string \<Rightarrow> number" where
  "parseInt s =
     (let s1 = dropWhile isSpace s;
          neg = (case s1 of [] \<Rightarrow> False | c # r \<Rightarrow> c = CHR ''-'');
          s2 = (case s1 of [] \<Rightarrow> [] | c # r \<Rightarrow> if c = CHR ''-'' \<or> c = CHR ''+'' then r else s1);
          hex = (take 2 s2 = ''0x'' \<or> take 2 s2 = ''0X'');
          radix = (if hex then 16 else 10);
          s3 = (if hex then drop 2 s2 else s2);
          ds = takeWhile (isDigitOf radix) s3
      in if ds = [] then NaN
         else Num ((if neg then - 1 else 1) * int (digitsValue radix ds)))"

fun plus1 :: "number \<Rightarrow> number" where
  "plus1 NaN = NaN"
| "plus1 (Num i) = Num (i + 1)"

text \<open>The order of \<open>sort({ collectionCode: -1 })\<close>: strings compare by their code units.\<close>

fun str_less :: "string \<Rightarrow> string \<Rightarrow> bool" where
  "str_less [] [] = False"
| "str_less [] (y # ys) = True"
| "str_less (x # xs) [] = False"
| "str_less (x # xs) (y # ys) =
     ((of_char x :: nat) < of_char y \<or> (x = y \<and> str_less xs ys))"

text \<open>The first document of a descending sort by \<open>collectionCode\<close>.\<close>

fun greatestCode :: "collection list \<Rightarrow> collection option" where
  "greatestCode [] = None"
| "greatestCode (c # cs) =
     (case greatestCode cs of
        None \<Rightarrow> Some c
      | Some m \<Rightarrow> if str_less (collectionCode c) (collectionCode m) then Some m else Some c)"

text \<open>
  The setters of the schema paths, \<open>trim\<close>, \<open>uppercase\<close> and \<open>lowercase\<close>; the path
  \<open>collectionCode\<close> has \<open>trim: true, uppercase: true\<close>.
\<close>

definition toUpperCase :: "string \<Rightarrow> string" where
  "toUpperCase s =
     map (\<lambda>c. let k = (of_char c :: nat) in if 97 \<le> k \<and> k \<le> 122 then char_of (k - 32) else c) s"

definition toLowerCase :: "string \<Rightarrow> string" where
  "toLowerCase s =
     map (\<lambda>c. let k = (of_char c :: nat) in if 65 \<le> k \<and> k \<le> 90 then char_of (k + 32) else c) s"

definition trim :: "string \<Rightarrow> string" where
  "trim s = rev (dropWhile isSpace (rev (dropWhile isSpace s)))"

text \<open>
  \<open>CollectionSchema.pre('save')\<close> for a new document: a code that is given (not empty)
  stays; otherwise the code is made from the date and the last code of the day in the
  organization.
\<close>

definition codePrefix :: "jsDate \<Rightarrow> string" where
  "codePrefix date =
     (let year = String_nat (getFullYear date);
          month = padStart 2 (CHR ''0'') (String_nat (getMonth date + 1));
          day = padStart 2 (CHR ''0'') (String_nat (getDate date))
      in ''COL'' @ year @ month @ day)"

definition preSave :: "collection list \<Rightarrow> jsDate \<Rightarrow> objectId \<Rightarrow> string \<Rightarrow> string" where
  "preSave db date org code =
     (if code = [] then
        (let lastCollection =
               greatestCode (filter (\<lambda>c. collection.organizationId c = org
                                          \<and> startsWith (codePrefix date) (collectionCode c)) db);
             sequence =
               (case lastCollection of
                  None \<Rightarrow> Num 1
                | Some l \<Rightarrow> plus1 (parseInt (sliceLast 4 (collectionCode l))))
         in toUpperCase (trim (codePrefix date @ padStart 4 (CHR ''0'') (String_number sequence))))
      else code)"

text \<open>
  The validators of the collection schema, which \<open>save()\<close> runs before the save hooks
  that the schema registers with \<open>pre('save')\<close>: \<open>collectionCode\<close> is required (a
  required string is not empty) and has at most 20 characters, the notes have at most
  500, and each item has a description of at most 200 characters, a quantity of at
  least 1 and a category of at most 50 characters.
\<close>

definition Item_valid :: "item \<Rightarrow> bool" where
  "Item_valid it =
     (item.description it \<noteq> [] \<and> length (item.description it) \<le> 200
      \<and> 1 \<le> quantity it
      \<and> (case category it of None \<Rightarrow> True | Some g \<Rightarrow> length g \<le> 50))"

definition Collection_valid :: "collection \<Rightarrow> bool" where
  "Collection_valid c =
     (collectionCode c \<noteq> [] \<and> length (collectionCode c) \<le> 20
      \<and> (case notes' c of None \<Rightarrow> True | Some n \<Rightarrow> length n \<le> 500)
      \<and> list_all Item_valid (items c))"

text \<open>\<open>ICreateCollection\<close>: it has no field for the code.\<close>

record ICreateCollection =
  new_organizationId :: objectId
  new_clientId :: string
  new_collectedBy :: objectId
  new_dateTime :: "date option"
  new_status :: "status option"
  new_notes :: "string option"
  new_items :: "item list option"

text \<open>
  \<open>createCollection(collectionData)\<close>: \<open>Collection.create\<close> builds the document with the
  schema defaults and saves it. Saving validates the document, then runs the save hook,
  then inserts; the unique index on \<open>(collectionCode, organizationId)\<close> rejects a second
  document with the same pair. The document is built from \<open>collectionData\<close>, so its
  \<open>collectionCode\<close> is absent when it is validated.
\<close>

definition createCollection ::
  "collection list \<Rightarrow> jsDate \<Rightarrow> objectId \<Rightarrow> ICreateCollection
     \<Rightarrow> (error + collection) \<times> collection list" where
  "createCollection db now newId collectionData =
     (let org = new_organizationId collectionData;
          c = \<lparr> x_id = newId, isActive = True, isDeleted = False, deletedAt = None,
                deletedBy = None, createdAt = getTime now, updatedAt = getTime now,
                collectionCode = [],
                collection.organizationId = org,
                clientId = new_clientId collectionData,
                dateTime = (case new_dateTime collectionData of None \<Rightarrow> getTime now | Some d \<Rightarrow> d),
                collectedBy = new_collectedBy collectionData,
                status = (case new_status collectionData of None \<Rightarrow> Some pending | Some s \<Rightarrow> Some s),
                notes' = new_notes collectionData,
                items = (case new_items collectionData of None \<Rightarrow> [] | Some its \<Rightarrow> its),
                uploadedDocuments = [] \<rparr>
      in if \<not> Collection_valid c
         then (Inl (Thrown ''ValidationError: Collection validation failed''), db)
         else
           (let c' = c\<lparr>collectionCode := preSave db now org (collectionCode c)\<rparr>
            in if \<exists>d \<in> set db. collectionCode d = collectionCode c'
                                \<and> collection.organizationId d = collection.organizationId c'
               then (Inl (Thrown ''E11000 duplicate key error''), db)
               else (Inr c', db @ [c'])))"

section \<open>Collection controller (controllers/collectionController.ts)\<close>

text \<open>\<open>getOrganizationId(user)\<close>: reading \<open>_id\<close> of an absent organization throws.\<close>

definition getOrganizationId :: "user \<Rightarrow> error + objectId" where
  "getOrganizationId u =
     (case organization u of
        None \<Rightarrow> Inl (Thrown ''TypeError'')
      | Some org \<Rightarrow> Inr org)"

text \<open>
  The controller methods. The request's user is the user document that \<open>authenticate\<close>
  has loaded; a method starts with \<open>if (!req.user?.id) throw new AppError(..., 401)\<close>,
  and an exception that a service or a check throws is passed to the error handler.
\<close>

definition authenticated :: "user option \<Rightarrow> error + user" where
  "authenticated req_user =
     (case req_user of
        None \<Rightarrow> Inl (AppError ''User not authenticated'' 401)
      | Some u \<Rightarrow> if x_id u = [] then Inl (AppError ''User not authenticated'' 401) else Inr u)"

definition CollectionController_getCollectionById ::
  "user list \<Rightarrow> client list \<Rightarrow> collection list \<Rightarrow> user option \<Rightarrow> objectId
     \<Rightarrow> error + populatedCollection" where
  "CollectionController_getCollectionById users clients' db req_user i =
     (case authenticated req_user of
        Inl e \<Rightarrow> Inl e
      | Inr u \<Rightarrow>
          (case getOrganizationId u of
             Inl e \<Rightarrow> Inl e
           | Inr org \<Rightarrow>
               (case getCollectionById users clients' db i org of
                  Inl e \<Rightarrow> Inl e
                | Inr c \<Rightarrow>
                    (case checkCollectionAccess c (x_id u) (role u) (clients u) of
                       Inl e \<Rightarrow> Inl e
                     | Inr allowed \<Rightarrow>
                         if \<not> allowed
                         then Inl (AppError ''You are not authorized to view this collection'' 403)
                         else Inr c))))"

definition CollectionController_updateCollection ::
  "user list \<Rightarrow> client list \<Rightarrow> collection list \<Rightarrow> date \<Rightarrow> user option \<Rightarrow> objectId
     \<Rightarrow> IUpdateCollection \<Rightarrow> (error + collection) \<times> collection list" where
  "CollectionController_updateCollection users clients' db now req_user i body =
     (case authenticated req_user of
        Inl e \<Rightarrow> (Inl e, db)
      | Inr u \<Rightarrow>
          (case getOrganizationId u of
             Inl e \<Rightarrow> (Inl e, db)
           | Inr org \<Rightarrow>
               (case getCollectionById users clients' db i org of
                  Inl e \<Rightarrow> (Inl e, db)
                | Inr existingCollection \<Rightarrow>
                    (case checkCollectionAccess existingCollection (x_id u) (role u) (clients u) of
                       Inl e \<Rightarrow> (Inl e, db)
                     | Inr allowed \<Rightarrow>
                         if \<not> allowed
                         then (Inl (AppError ''You are not authorized to update this collection'' 403), db)
                         else updateCollection db now i org body))))"

text \<open>\<open>CreateCollectionRequest\<close>: the request body.\<close>

record CreateCollectionRequest =
  req_clientId :: string
  req_dateTime :: "date option"
  req_status :: "status option"
  req_notes :: "string option"
  req_items :: "item list option"

text \<open>\<open>(req.user.clients || []).map(id => id.toString())\<close>\<close>

definition clientIdsOf :: "user \<Rightarrow> string list" where
  "clientIdsOf u = (case clients u of None \<Rightarrow> [] | Some cs \<Rightarrow> cs)"

definition CollectionController_createCollection ::
  "collection list \<Rightarrow> jsDate \<Rightarrow> objectId \<Rightarrow> user option \<Rightarrow> CreateCollectionRequest
     \<Rightarrow> (error + collection) \<times> collection list" where
  "CollectionController_createCollection db now newId req_user body =
     (case authenticated req_user of
        Inl e \<Rightarrow> (Inl e, db)
      | Inr u \<Rightarrow>
          if \<not> validateClientAccess (clientIdsOf u) (req_clientId body)
          then (Inl (AppError ''You are not authorized to create collections for this client'' 403), db)
          else
            (case getOrganizationId u of
               Inl e \<Rightarrow> (Inl e, db)
             | Inr org \<Rightarrow>
                 createCollection db now newId
                   \<lparr> new_organizationId = org,
                     new_clientId = req_clientId body,
                     new_collectedBy = x_id u,
                     new_dateTime = Some (case req_dateTime body of None \<Rightarrow> getTime now | Some d \<Rightarrow> d),
                     new_status = Some (case req_status body of None \<Rightarrow> pending | Some s \<Rightarrow> s),
                     new_notes = req_notes body,
                     new_items = req_items body \<rparr>))"

text \<open>
  \<open>deleteCollection\<close> of the controller passes the collection id of the path, \<open>id\<close>, to
  \<open>validateClientAccess\<close> as the client id.
\<close>

definition CollectionController_deleteCollection ::
  "user list \<Rightarrow> client list \<Rightarrow> collection list \<Rightarrow> date \<Rightarrow> user option \<Rightarrow> string
     \<Rightarrow> (error + unit) \<times> collection list" where
  "CollectionController_deleteCollection users clients' db now req_user i =
     (case authenticated req_user of
        Inl e \<Rightarrow> (Inl e, db)
      | Inr u \<Rightarrow>
          if \<not> validateClientAccess (clientIdsOf u) i
          then (Inl (AppError ''You are not authorized to view collections for this client'' 403), db)
          else
            (case getOrganizationId u of
               Inl e \<Rightarrow> (Inl e, db)
             | Inr org \<Rightarrow>
                 (case getCollectionById users clients' db i org of
                    Inl e \<Rightarrow> (Inl e, db)
                  | Inr c \<Rightarrow>
                      (case canDeleteCollection c (x_id u) (role u) of
                         Inl e \<Rightarrow> (Inl e, db)
                       | Inr allowed \<Rightarrow>
                           if \<not> allowed
                           then (Inl (AppError ''You are not authorized to delete this collection'' 403), db)
                           else deleteCollection db now i org (x_id u)))))"

section \<open>Collection routes (routes/collection.ts)\<close>

text \<open>\<open>validateParams(collectionIdParamSchema)\<close>: the id matches \<open>/^[0-9a-fA-F]{24}$/\<close>.\<close>

definition isHexDigit :: "char \<Rightarrow> bool" where
  "isHexDigit c = (c \<in> set ''0123456789abcdefABCDEF'')"

definition objectIdPattern :: "string \<Rightarrow> bool" where
  "objectIdPattern s = (length s = 24 \<and> list_all isHexDigit s)"

definition validateParams_collectionId :: "string \<Rightarrow> error + string" where
  "validateParams_collectionId i =
     (if objectIdPattern i then Inr i
      else Inl (ValidationResponse ''Collection ID must be a valid MongoDB ObjectId''))"

text \<open>
  \<open>router.post('/', requireCollectorOrAbove, validate(createCollectionSchema), createCollection)\<close>.
  The body is the typed request that the schema validation lets through.
\<close>

definition route_post_collections ::
  "(string \<Rightarrow> bool) \<Rightarrow> user list \<Rightarrow> collection list \<Rightarrow> jsDate \<Rightarrow> objectId \<Rightarrow> user option
     \<Rightarrow> CreateCollectionRequest \<Rightarrow> (error + collection) \<times> collection list" where
  "route_post_collections isValid users db now newId req_user body =
     (case requireCollectorOrAbove isValid users req_user of
        Inl e \<Rightarrow> (Inl e, db)
      | Inr u \<Rightarrow> CollectionController_createCollection db now newId (Some u) body)"

text \<open>
  \<open>router.delete('/:id', requireManagerOrAdmin, validateParams(collectionIdParamSchema),
  deleteCollection)\<close>
\<close>

definition route_delete_collections_id ::
  "(string \<Rightarrow> bool) \<Rightarrow> user list \<Rightarrow> client list \<Rightarrow> collection list \<Rightarrow> date \<Rightarrow> user option
     \<Rightarrow> string \<Rightarrow> (error + unit) \<times> collection list" where
  "route_delete_collections_id isValid users clients' db now req_user i =
     (case requireManagerOrAdmin isValid users req_user of
        Inl e \<Rightarrow> (Inl e, db)
      | Inr u \<Rightarrow>
          (case validateParams_collectionId i of
             Inl e \<Rightarrow> (Inl e, db)
           | Inr i' \<Rightarrow> CollectionController_deleteCollection users clients' db now (Some u) i'))"

section \<open>Schema validators and setters\<close>

text \<open>
  The regular expressions of the validators. \<open>/^[^\s@]+@[^\s@]+\.[^\s@]+$/\<close>: no white space,
  one \<open>@\<close> with something before it, and after it a dot with something on both sides.
  \<open>/^[\+]?[1-9][\d]{0,15}$/\<close>: an optional plus sign, a digit from 1 to 9, and at most
  fifteen digits.
\<close>

definition isDigit :: "char \<Rightarrow> bool" where
  "isDigit c = (c \<in> set ''0123456789'')"

definition emailRegex :: "string \<Rightarrow> bool" where
  "emailRegex s =
     (let local = takeWhile (\<lambda>c. c \<noteq> CHR ''@'') s;
          rest = dropWhile (\<lambda>c. c \<noteq> CHR ''@'') s
      in local \<noteq> [] \<and> rest \<noteq> [] \<and> list_all (\<lambda>c. \<not> isSpace c) s
         \<and> CHR ''@'' \<notin> set (tl rest)
         \<and> CHR ''.'' \<in> set (butlast (tl (tl rest))))"

definition phoneRegex :: "string \<Rightarrow> bool" where
  "phoneRegex s =
     (case (case s of [] \<Rightarrow> [] | c # r \<Rightarrow> if c = CHR ''+'' then r else s) of
        [] \<Rightarrow> False
      | c # r \<Rightarrow> c \<in> set ''123456789'' \<and> length r \<le> 15 \<and> list_all isDigit r)"

text \<open>
  A path that is absent passes every validator but \<open>required\<close>; a required string is
  present and not empty; the validators \<open>!v || regex.test(v)\<close> pass the empty string.
\<close>

definition maxlength :: "nat \<Rightarrow> string option \<Rightarrow> bool" where
  "maxlength n s = (case s of None \<Rightarrow> True | Some v \<Rightarrow> length v \<le> n)"

definition required :: "string option \<Rightarrow> bool" where
  "required s = (case s of None \<Rightarrow> False | Some v \<Rightarrow> v \<noteq> [])"

definition emptyOr :: "(string \<Rightarrow> bool) \<Rightarrow> string option \<Rightarrow> bool" where
  "emptyOr test s = (case s of None \<Rightarrow> True | Some v \<Rightarrow> v = [] \<or> test v)"

definition Address_valid :: "'a address_scheme \<Rightarrow> bool" where
  "Address_valid a =
     (maxlength 200 (street a) \<and> maxlength 100 (city a) \<and> maxlength 100 (state a)
      \<and> maxlength 100 (country a) \<and> maxlength 20 (zipCode a))"

text \<open>The setter \<open>trim\<close> on the paths of an address.\<close>

definition Address_trim :: "'a address_scheme \<Rightarrow> 'a address_scheme" where
  "Address_trim a =
     a\<lparr>street := map_option trim (street a), city := map_option trim (city a),
       state := map_option trim (state a), country := map_option trim (country a),
       zipCode := map_option trim (zipCode a)\<rparr>"

section \<open>Organizations (models/Organization.ts, services/organizationService.ts)\<close>

text \<open>\<open>ICreateOrganization\<close> and \<open>IUpdateOrganization\<close>\<close>

record ICreateOrganization =
  newOrg_name :: string
  newOrg_description :: "string option"
  newOrg_email :: string
  newOrg_phone :: "string option"
  newOrg_website :: "string option"
  newOrg_address :: "address option"
  newOrg_industry :: "string option"
  newOrg_size :: "orgSize option"
  newOrg_logo :: "string option"
  newOrg_createdBy :: string

record IUpdateOrganization =
  updOrg_name :: "string option"
  updOrg_description :: "string option"
  updOrg_email :: "string option"
  updOrg_phone :: "string option"
  updOrg_website :: "string option"
  updOrg_address :: "address option"
  updOrg_industry :: "string option"
  updOrg_size :: "orgSize option"
  updOrg_logo :: "string option"
  updOrg_isActive :: "bool option"

text \<open>
  The schema declares \<open>email\<close> with \<open>unique: true\<close>: a write that would leave two
  organizations with one email is rejected by the store with a duplicate-key error.
\<close>

definition Organization_duplicateKey :: "organization list \<Rightarrow> organization \<Rightarrow> bool" where
  "Organization_duplicateKey db c =
     (\<exists>d \<in> set db. x_id d \<noteq> x_id c \<and> organization.email d = organization.email c)"

text \<open>\<open>{ $set: updateData }\<close>: every path that is given replaces the stored one.\<close>

definition setPath :: "'v option \<Rightarrow> ('v \<Rightarrow> 'r \<Rightarrow> 'r) \<Rightarrow> 'r \<Rightarrow> 'r" where
  "setPath given assign r = (case given of None \<Rightarrow> r | Some v \<Rightarrow> assign v r)"

definition Organization_set :: "IUpdateOrganization \<Rightarrow> organization \<Rightarrow> organization" where
  "Organization_set updateData c =
     (setPath (updOrg_isActive updateData) (\<lambda>v d. d\<lparr>isActive := v\<rparr>)
     (setPath (updOrg_logo updateData) (\<lambda>v d. d\<lparr>logo := Some v\<rparr>)
     (setPath (updOrg_size updateData) (\<lambda>v d. d\<lparr>size' := Some v\<rparr>)
     (setPath (updOrg_industry updateData) (\<lambda>v d. d\<lparr>industry := Some v\<rparr>)
     (setPath (updOrg_address updateData) (\<lambda>v d. d\<lparr>organization.address := v\<rparr>)
     (setPath (updOrg_website updateData) (\<lambda>v d. d\<lparr>website := Some v\<rparr>)
     (setPath (updOrg_phone updateData) (\<lambda>v d. d\<lparr>organization.phone := Some v\<rparr>)
     (setPath (updOrg_email updateData) (\<lambda>v d. d\<lparr>organization.email := v\<rparr>)
     (setPath (updOrg_description updateData) (\<lambda>v d. d\<lparr>organization.description := Some v\<rparr>)
     (setPath (updOrg_name updateData) (\<lambda>v d. d\<lparr>organization.name := v\<rparr>)
       c))))))))))"

text \<open>
  In the organization and client services an exception that is not an \<open>AppError\<close> is
  wrapped as \<open>AppError(error.message, 500)\<close>.
\<close>

text \<open>The validators and the setters of the organization schema.\<close>

definition Organization_valid :: "organization \<Rightarrow> bool" where
  "Organization_valid c =
     (organization.name c \<noteq> [] \<and> 2 \<le> length (organization.name c)
      \<and> length (organization.name c) \<le> 100
      \<and> maxlength 500 (organization.description c)
      \<and> organization.email c \<noteq> []
      \<and> Address_valid (organization.address c)
      \<and> maxlength 100 (industry c))"

definition Organization_setters :: "organization \<Rightarrow> organization" where
  "Organization_setters c =
     c\<lparr>organization.name := trim (organization.name c),
       organization.description := map_option trim (organization.description c),
       organization.email := toLowerCase (trim (organization.email c)),
       organization.phone := map_option trim (organization.phone c),
       website := map_option trim (website c),
       organization.address := Address_trim (organization.address c),
       industry := map_option trim (industry c),
       logo := map_option trim (logo c)\<rparr>"

text \<open>
  \<open>createOrganization(organizationData)\<close>. The query is cast with the schema (the email
  is trimmed and lower-cased); the document is built with the setters, and \<open>save()\<close>
  validates it and inserts it.
\<close>

definition createOrganization ::
  "(string \<Rightarrow> bool) \<Rightarrow> organization list \<Rightarrow> date \<Rightarrow> objectId \<Rightarrow> ICreateOrganization
     \<Rightarrow> (error + organization) \<times> organization list" where
  "createOrganization isValid db now newId organizationData =
     (case findOne (\<lambda>d. organization.email d = toLowerCase (trim (newOrg_email organizationData))
                        \<and> \<not> isDeleted d) db of
        Some existingOrganization \<Rightarrow>
          (Inl (AppError ''Organization with this email already exists'' 400), db)
      | None \<Rightarrow>
          (let c = Organization_setters
                   \<lparr> x_id = newId, isActive = True, isDeleted = False, deletedAt = None,
                     deletedBy = None, createdAt = now, updatedAt = now,
                     organization.name = newOrg_name organizationData,
                     organization.description = newOrg_description organizationData,
                     organization.email = newOrg_email organizationData,
                     organization.phone = newOrg_phone organizationData,
                     website = newOrg_website organizationData,
                     organization.address =
                       (case newOrg_address organizationData of
                          None \<Rightarrow> \<lparr> street = None, city = None, state = None, country = None,
                                     zipCode = None \<rparr>
                        | Some a \<Rightarrow> a),
                     industry = newOrg_industry organizationData,
                     size' = (case newOrg_size organizationData of None \<Rightarrow> Some small | Some s \<Rightarrow> Some s),
                     logo = newOrg_logo organizationData,
                     organization.createdBy = newOrg_createdBy organizationData \<rparr>
           in if \<not> isValid (newOrg_createdBy organizationData) then (Inl invalidObjectId, db)
              else if \<not> Organization_valid c
              then (Inl (AppError ''Organization validation failed'' 500), db)
              else if Organization_duplicateKey db c
              then (Inl (AppError ''E11000 duplicate key error'' 500), db)
              else (Inr c, db @ [c])))"

definition getOrganizationById ::
  "(string \<Rightarrow> bool) \<Rightarrow> organization list \<Rightarrow> string \<Rightarrow> error + organization" where
  "getOrganizationById isValid db i =
     (if \<not> isValid i then Inl (AppError ''Invalid organization ID'' 400)
      else
        (case findOne (\<lambda>d. x_id d = i \<and> \<not> isDeleted d) db of
           None \<Rightarrow> Inl (AppError ''Organization not found'' 404)
         | Some c \<Rightarrow> Inr c))"

definition updateOrganization ::
  "(string \<Rightarrow> bool) \<Rightarrow> organization list \<Rightarrow> date \<Rightarrow> string \<Rightarrow> IUpdateOrganization
     \<Rightarrow> (error + organization) \<times> organization list" where
  "updateOrganization isValid db now i updateData =
     (if \<not> isValid i then (Inl (AppError ''Invalid organization ID'' 400), db)
      else if (case updOrg_email updateData of
                 None \<Rightarrow> False
               | Some e \<Rightarrow> e \<noteq> [] \<and>
                   findOne (\<lambda>d. organization.email d = e \<and> x_id d \<noteq> i \<and> \<not> isDeleted d) db \<noteq> None)
      then (Inl (AppError ''Organization with this email already exists'' 400), db)
      else
        (case findOne (\<lambda>d. x_id d = i \<and> \<not> isDeleted d) db of
           None \<Rightarrow> (Inl (AppError ''Organization not found'' 404), db)
         | Some c \<Rightarrow>
             (let c' = (Organization_set updateData c)\<lparr>updatedAt := now\<rparr>
              in if Organization_duplicateKey db c'
                 then (Inl (AppError ''E11000 duplicate key error'' 500), db)
                 else (Inr c', updateOne (\<lambda>d. x_id d = i \<and> \<not> isDeleted d) (\<lambda>_. c') db))))"

definition deleteOrganization ::
  "(string \<Rightarrow> bool) \<Rightarrow> organization list \<Rightarrow> date \<Rightarrow> string \<Rightarrow> string
     \<Rightarrow> (error + unit) \<times> organization list" where
  "deleteOrganization isValid db now i by =
     (if \<not> isValid i then (Inl (AppError ''Invalid organization ID'' 400), db)
      else
        (case findOne (\<lambda>d. x_id d = i \<and> \<not> isDeleted d) db of
           None \<Rightarrow> (Inl (AppError ''Organization not found'' 404), db)
         | Some c \<Rightarrow>
             if \<not> isValid by then (Inl invalidObjectId, db)
             else
             (Inr (),
              updateOne (\<lambda>d. x_id d = i)
                (\<lambda>d. d\<lparr>isDeleted := True, isActive := False, deletedAt := Some now,
                        deletedBy := Some by, updatedAt := now\<rparr>) db)))"

definition restoreOrganization ::
  "(string \<Rightarrow> bool) \<Rightarrow> organization list \<Rightarrow> date \<Rightarrow> string
     \<Rightarrow> (error + organization) \<times> organization list" where
  "restoreOrganization isValid db now i =
     (if \<not> isValid i then (Inl (AppError ''Invalid organization ID'' 400), db)
      else
        (case findOne (\<lambda>d. x_id d = i \<and> isDeleted d) db of
           None \<Rightarrow> (Inl (AppError ''Organization not found or not deleted'' 404), db)
         | Some c \<Rightarrow>
             (let c' = c\<lparr>isDeleted := False, isActive := True, deletedAt := None,
                          deletedBy := None, updatedAt := now\<rparr>
              in (Inr c', updateOne (\<lambda>d. x_id d = i \<and> isDeleted d) (\<lambda>_. c') db))))"

section \<open>Clients (models/Client.ts, services/clientService.ts)\<close>

text \<open>\<open>ICreateClient\<close> and \<open>IUpdateClient\<close>\<close>

record ICreateClient =
  newCl_name :: string
  newCl_aliasName :: "string option"
  newCl_clientCode :: "string option"
  newCl_email :: string
  newCl_phone :: string
  newCl_alternatePhone :: "string option"
  newCl_address :: clientAddress
  newCl_clientType :: clientType
  newCl_contactPerson :: "contactPerson option"
  newCl_billingAddress :: "address option"
  newCl_taxInfo :: "taxInfo option"
  newCl_paymentTerms :: "string option"
  newCl_creditLimit :: "int option"
  newCl_notes :: "string option"
  newCl_preferredPickupTime :: "string option"
  newCl_preferredDeliveryTime :: "string option"
  newCl_organizationId :: string
  newCl_createdBy :: string

record IUpdateClient =
  updCl_name :: "string option"
  updCl_aliasName :: "string option"
  updCl_clientCode :: "string option"
  updCl_email :: "string option"
  updCl_phone :: "string option"
  updCl_alternatePhone :: "string option"
  updCl_address :: "clientAddress option"
  updCl_clientType :: "clientType option"
  updCl_contactPerson :: "contactPerson option"
  updCl_billingAddress :: "address option"
  updCl_taxInfo :: "taxInfo option"
  updCl_paymentTerms :: "string option"
  updCl_creditLimit :: "int option"
  updCl_notes :: "string option"
  updCl_preferredPickupTime :: "string option"
  updCl_preferredDeliveryTime :: "string option"
  updCl_isActive :: "bool option"

text \<open>
  The two unique indexes of the schema, \<open>{ email, organizationId, isDeleted }\<close> and
  \<open>{ clientCode, organizationId, isDeleted }\<close> (sparse). A compound sparse index
  holds every document that has one of its keys, and \<open>organizationId\<close> is required, so
  an absent \<open>clientCode\<close> takes part as the null value.
\<close>

definition Client_duplicateKey :: "client list \<Rightarrow> client \<Rightarrow> bool" where
  "Client_duplicateKey db c =
     (\<exists>d \<in> set db. x_id d \<noteq> x_id c
        \<and> client.organizationId d = client.organizationId c \<and> isDeleted d = isDeleted c
        \<and> (client.email d = client.email c \<or> clientCode d = clientCode c))"

definition Client_set :: "IUpdateClient \<Rightarrow> client \<Rightarrow> client" where
  "Client_set updateData c =
     (setPath (updCl_isActive updateData) (\<lambda>v d. d\<lparr>isActive := v\<rparr>)
     (setPath (updCl_preferredDeliveryTime updateData) (\<lambda>v d. d\<lparr>preferredDeliveryTime := Some v\<rparr>)
     (setPath (updCl_preferredPickupTime updateData) (\<lambda>v d. d\<lparr>preferredPickupTime := Some v\<rparr>)
     (setPath (updCl_notes updateData) (\<lambda>v d. d\<lparr>client_notes := Some v\<rparr>)
     (setPath (updCl_creditLimit updateData) (\<lambda>v d. d\<lparr>creditLimit := Some v\<rparr>)
     (setPath (updCl_paymentTerms updateData) (\<lambda>v d. d\<lparr>paymentTerms := Some v\<rparr>)
     (setPath (updCl_taxInfo updateData) (\<lambda>v d. d\<lparr>taxInfo := Some v\<rparr>)
     (setPath (updCl_billingAddress updateData) (\<lambda>v d. d\<lparr>billingAddress := Some v\<rparr>)
     (setPath (updCl_contactPerson updateData) (\<lambda>v d. d\<lparr>contactPerson := Some v\<rparr>)
     (setPath (updCl_clientType updateData) (\<lambda>v d. d\<lparr>clientType := v\<rparr>)
     (setPath (updCl_address updateData) (\<lambda>v d. d\<lparr>client.address := v\<rparr>)
     (setPath (updCl_alternatePhone updateData) (\<lambda>v d. d\<lparr>alternatePhone := Some v\<rparr>)
     (setPath (updCl_phone updateData) (\<lambda>v d. d\<lparr>client.phone := v\<rparr>)
     (setPath (updCl_email updateData) (\<lambda>v d. d\<lparr>client.email := v\<rparr>)
     (setPath (updCl_clientCode updateData) (\<lambda>v d. d\<lparr>clientCode := Some v\<rparr>)
     (setPath (updCl_aliasName updateData) (\<lambda>v d. d\<lparr>aliasName := Some v\<rparr>)
     (setPath (updCl_name updateData) (\<lambda>v d. d\<lparr>client.name := v\<rparr>)
       c)))))))))))))))))"

text \<open>The validators of the client schema.\<close>

definition Client_valid :: "client \<Rightarrow> bool" where
  "Client_valid c =
     (client.name c \<noteq> [] \<and> 2 \<le> length (client.name c) \<and> length (client.name c) \<le> 100
      \<and> maxlength 50 (aliasName c)
      \<and> maxlength 20 (clientCode c)
      \<and> client.email c \<noteq> [] \<and> emailRegex (client.email c)
      \<and> client.phone c \<noteq> [] \<and> phoneRegex (client.phone c)
      \<and> emptyOr phoneRegex (alternatePhone c)
      \<and> required (street (client.address c)) \<and> required (city (client.address c))
      \<and> required (state (client.address c)) \<and> required (country (client.address c))
      \<and> required (zipCode (client.address c))
      \<and> Address_valid (client.address c) \<and> maxlength 100 (landmark (client.address c))
      \<and> (case contactPerson c of
            None \<Rightarrow> True
          | Some p \<Rightarrow> maxlength 100 (contact_name p) \<and> maxlength 50 (contact_designation p)
                      \<and> emptyOr phoneRegex (contact_phone p) \<and> emptyOr emailRegex (contact_email p))
      \<and> (case billingAddress c of None \<Rightarrow> True | Some a \<Rightarrow> Address_valid a)
      \<and> (case taxInfo c of
            None \<Rightarrow> True
          | Some x \<Rightarrow> maxlength 15 (gstNumber x) \<and> maxlength 10 (panNumber x))
      \<and> maxlength 100 (paymentTerms c)
      \<and> (case creditLimit c of None \<Rightarrow> True | Some l \<Rightarrow> 0 \<le> l)
      \<and> maxlength 500 (client_notes c)
      \<and> maxlength 50 (preferredPickupTime c)
      \<and> maxlength 50 (preferredDeliveryTime c))"

text \<open>The setters of the client schema, applied when a document is built from data.\<close>

definition Client_setters :: "client \<Rightarrow> client" where
  "Client_setters c =
     c\<lparr>client.name := trim (client.name c),
       aliasName := map_option trim (aliasName c),
       clientCode := map_option (\<lambda>s. toUpperCase (trim s)) (clientCode c),
       client.email := toLowerCase (trim (client.email c)),
       client.phone := trim (client.phone c),
       alternatePhone := map_option trim (alternatePhone c),
       client.address :=
         (Address_trim (client.address c))
           \<lparr>landmark := map_option trim (landmark (client.address c))\<rparr>,
       contactPerson :=
         map_option (\<lambda>p. \<lparr> contact_name = map_option trim (contact_name p),
                              contact_designation = map_option trim (contact_designation p),
                              contact_phone = map_option trim (contact_phone p),
                              contact_email = map_option (\<lambda>s. toLowerCase (trim s)) (contact_email p) \<rparr>)
           (contactPerson c),
       billingAddress := map_option Address_trim (billingAddress c),
       taxInfo :=
         map_option (\<lambda>x. \<lparr> gstNumber = map_option (\<lambda>s. toUpperCase (trim s)) (gstNumber x),
                              panNumber = map_option (\<lambda>s. toUpperCase (trim s)) (panNumber x) \<rparr>)
           (taxInfo c),
       paymentTerms := map_option trim (paymentTerms c),
       client_notes := map_option trim (client_notes c),
       preferredPickupTime := map_option trim (preferredPickupTime c),
       preferredDeliveryTime := map_option trim (preferredDeliveryTime c)\<rparr>"

text \<open>
  \<open>createClient(clientData)\<close>. The query is cast with the schema: the email is trimmed
  and lower-cased, and an \<open>organizationId\<close> that is no ObjectId is a cast error. The
  document is built with the setters; \<open>save()\<close> validates it and inserts it, where a
  unique index can reject it.
\<close>

definition createClient ::
  "(string \<Rightarrow> bool) \<Rightarrow> client list \<Rightarrow> date \<Rightarrow> objectId \<Rightarrow> ICreateClient
     \<Rightarrow> (error + client) \<times> client list" where
  "createClient isValid db now newId clientData =
     (if \<not> isValid (newCl_organizationId clientData)
      then (Inl (AppError ''Cast to ObjectId failed'' 500), db)
      else
      case findOne (\<lambda>d. client.email d = toLowerCase (trim (newCl_email clientData))
                        \<and> client.organizationId d = newCl_organizationId clientData
                        \<and> \<not> isDeleted d) db of
        Some existingClient \<Rightarrow>
          (Inl (AppError ''Client with this email already exists in the organization'' 400), db)
      | None \<Rightarrow>
          (let c = Client_setters
                   \<lparr> x_id = newId, isActive = True, isDeleted = False, deletedAt = None,
                     deletedBy = None, createdAt = now, updatedAt = now,
                     client.name = newCl_name clientData,
                     aliasName = newCl_aliasName clientData,
                     clientCode = newCl_clientCode clientData,
                     client.email = newCl_email clientData,
                     client.phone = newCl_phone clientData,
                     alternatePhone = newCl_alternatePhone clientData,
                     client.address = newCl_address clientData,
                     clientType = newCl_clientType clientData,
                     contactPerson = newCl_contactPerson clientData,
                     billingAddress = newCl_billingAddress clientData,
                     taxInfo = newCl_taxInfo clientData,
                     paymentTerms = newCl_paymentTerms clientData,
                     creditLimit = newCl_creditLimit clientData,
                     client_notes = newCl_notes clientData,
                     preferredPickupTime = newCl_preferredPickupTime clientData,
                     preferredDeliveryTime = newCl_preferredDeliveryTime clientData,
                     client.organizationId = newCl_organizationId clientData,
                     client.createdBy = newCl_createdBy clientData \<rparr>
           in if \<not> isValid (newCl_createdBy clientData) then (Inl invalidObjectId, db)
              else if \<not> Client_valid c
              then (Inl (AppError ''Client validation failed'' 500), db)
              else if Client_duplicateKey db c
              then (Inl (AppError ''E11000 duplicate key error'' 500), db)
              else (Inr c, db @ [c])))"

text \<open>
  The query of the services: the id, the deletion flag and, when an organization is
  given, the organization; building the query throws when the organization is not a
  valid ObjectId.
\<close>

definition invalidOrganization :: "(string \<Rightarrow> bool) \<Rightarrow> string option \<Rightarrow> bool" where
  "invalidOrganization isValid organizationId' =
     (case organizationId' of None \<Rightarrow> False | Some org \<Rightarrow> org \<noteq> [] \<and> \<not> isValid org)"

definition clientQuery :: "string \<Rightarrow> bool \<Rightarrow> string option \<Rightarrow> client \<Rightarrow> bool" where
  "clientQuery i deleted organizationId' d =
     (x_id d = i \<and> isDeleted d = deleted
      \<and> (case organizationId' of
            None \<Rightarrow> True
          | Some org \<Rightarrow> if org = [] then True else client.organizationId d = org))"

definition getClientById ::
  "(string \<Rightarrow> bool) \<Rightarrow> client list \<Rightarrow> string \<Rightarrow> string option \<Rightarrow> error + client" where
  "getClientById isValid db i organizationId' =
     (if \<not> isValid i then Inl (AppError ''Invalid client ID'' 400)
      else if invalidOrganization isValid organizationId' then Inl invalidObjectId
      else
        (case findOne (clientQuery i False organizationId') db of
           None \<Rightarrow> Inl (AppError ''Client not found'' 404)
         | Some c \<Rightarrow> Inr c))"

definition updateClient ::
  "(string \<Rightarrow> bool) \<Rightarrow> client list \<Rightarrow> date \<Rightarrow> string \<Rightarrow> IUpdateClient \<Rightarrow> string option
     \<Rightarrow> (error + client) \<times> client list" where
  "updateClient isValid db now i updateData organizationId' =
     (if \<not> isValid i then (Inl (AppError ''Invalid client ID'' 400), db)
      else if invalidOrganization isValid organizationId' then (Inl invalidObjectId, db)
      else if (case (updCl_email updateData, organizationId') of
                 (Some e, Some org) \<Rightarrow> e \<noteq> [] \<and> org \<noteq> [] \<and>
                   findOne (\<lambda>d. client.email d = e \<and> client.organizationId d = org
                                 \<and> x_id d \<noteq> i \<and> \<not> isDeleted d) db \<noteq> None
               | _ \<Rightarrow> False)
      then (Inl (AppError ''Client with this email already exists in the organization'' 400), db)
      else
        (case findOne (clientQuery i False organizationId') db of
           None \<Rightarrow> (Inl (AppError ''Client not found'' 404), db)
         | Some c \<Rightarrow>
             (let c' = (Client_set updateData c)\<lparr>updatedAt := now\<rparr>
              in if Client_duplicateKey db c'
                 then (Inl (AppError ''E11000 duplicate key error'' 500), db)
                 else (Inr c', updateOne (clientQuery i False organizationId') (\<lambda>_. c') db))))"

definition deleteClient ::
  "(string \<Rightarrow> bool) \<Rightarrow> client list \<Rightarrow> date \<Rightarrow> string \<Rightarrow> string \<Rightarrow> string option
     \<Rightarrow> (error + unit) \<times> client list" where
  "deleteClient isValid db now i by organizationId' =
     (if \<not> isValid i then (Inl (AppError ''Invalid client ID'' 400), db)
      else if invalidOrganization isValid organizationId' then (Inl invalidObjectId, db)
      else
        (case findOne (clientQuery i False organizationId') db of
           None \<Rightarrow> (Inl (AppError ''Client not found'' 404), db)
         | Some c \<Rightarrow>
             if \<not> isValid by then (Inl invalidObjectId, db)
             else
             (case findOne (\<lambda>d. x_id d = i) db of
                None \<Rightarrow> (Inr (), db)
              | Some t \<Rightarrow>
                  (let t' = t\<lparr>isDeleted := True, isActive := False, deletedAt := Some now,
                               deletedBy := Some by, updatedAt := now\<rparr>
                   in if Client_duplicateKey db t'
                      then (Inl (AppError ''E11000 duplicate key error'' 500), db)
                      else (Inr (), updateOne (\<lambda>d. x_id d = i) (\<lambda>_. t') db)))))"

definition restoreClient ::
  "(string \<Rightarrow> bool) \<Rightarrow> client list \<Rightarrow> date \<Rightarrow> string \<Rightarrow> string option
     \<Rightarrow> (error + client) \<times> client list" where
  "restoreClient isValid db now i organizationId' =
     (if \<not> isValid i then (Inl (AppError ''Invalid client ID'' 400), db)
      else if invalidOrganization isValid organizationId' then (Inl invalidObjectId, db)
      else
        (case findOne (clientQuery i True organizationId') db of
           None \<Rightarrow> (Inl (AppError ''Client not found or not deleted'' 404), db)
         | Some c \<Rightarrow>
             (let c' = c\<lparr>isDeleted := False, isActive := True, deletedAt := None,
                          deletedBy := None, updatedAt := now\<rparr>
              in if Client_duplicateKey db c'
                 then (Inl (AppError ''E11000 duplicate key error'' 500), db)
                 else (Inr c', updateOne (clientQuery i True organizationId') (\<lambda>_. c') db))))"

section \<open>Listings and statistics\<close>

text \<open>
  \<open>find(filter).sort({ key: -1 }).skip(skip).limit(limit)\<close>: the matching documents,
  latest first; a limit of zero is no limit, and a negative skip is an error of the
  store.
\<close>

definition sortDesc :: "('a \<Rightarrow> date) \<Rightarrow> 'a list \<Rightarrow> 'a list" where
  "sortDesc key xs = sort_key (\<lambda>d. - int (key d)) xs"

definition limitTo :: "nat \<Rightarrow> 'a list \<Rightarrow> 'a list" where
  "limitTo n xs = (if n = 0 then xs else take n xs)"

definition paginate :: "nat \<Rightarrow> nat \<Rightarrow> 'a list \<Rightarrow> error + 'a list" where
  "paginate page limit xs =
     (if page = 0 \<and> limit \<noteq> 0 then Inl (Thrown ''Skip value must be non-negative'')
      else Inr (limitTo limit (drop ((page - 1) * limit) xs)))"

text \<open>\<open>Math.ceil(total / limit)\<close>; a division by zero is not a number of pages.\<close>

definition totalPages :: "nat \<Rightarrow> nat \<Rightarrow> nat option" where
  "totalPages n limit = (if limit = 0 then None else Some ((n + limit - 1) div limit))"

text \<open>\<open>ICollectionFilters\<close>. A string filter applies when it is not empty.\<close>

record ICollectionFilters =
  flt_organizationId :: objectId
  flt_status :: "status option"
  flt_clientId :: "string option"
  flt_collectedBy :: "string option"
  flt_dateFrom :: "date option"
  flt_dateTo :: "date option"
  flt_search :: "string option"
  flt_userRole :: "role option"
  flt_userId :: "objectId option"
  flt_userClients :: "string list option"

definition givenString :: "string option \<Rightarrow> bool" where
  "givenString s = (case s of None \<Rightarrow> False | Some v \<Rightarrow> v \<noteq> [])"

text \<open>The filter object that \<open>getCollections\<close> builds, as a predicate on documents.\<close>

definition collectionsFilter :: "ICollectionFilters \<Rightarrow> collection \<Rightarrow> bool" where
  "collectionsFilter filters c =
     (collection.organizationId c = flt_organizationId filters
      \<and> \<not> isDeleted c
      \<and> (case flt_status filters of None \<Rightarrow> True | Some s \<Rightarrow> status c = Some s)
      \<and> (if givenString (flt_clientId filters) then Some (clientId c) = flt_clientId filters else True)
      \<and> (if givenString (flt_collectedBy filters) then Some (collectedBy c) = flt_collectedBy filters
          else True)
      \<and> (case flt_dateFrom filters of None \<Rightarrow> True | Some t \<Rightarrow> t \<le> dateTime c)
      \<and> (case flt_dateTo filters of None \<Rightarrow> True | Some t \<Rightarrow> dateTime c \<le> t)
      \<and> (case flt_userRole filters of
            None \<Rightarrow> True
          | Some r \<Rightarrow>
              if r \<notin> set [Admin, Manager]
              then (Some (collectedBy c) = flt_userId filters
                    \<or> clientId c \<in> set (case flt_userClients filters of None \<Rightarrow> [] | Some cs \<Rightarrow> cs))
              else True))"

definition getCollections ::
  "collection list \<Rightarrow> ICollectionFilters \<Rightarrow> nat \<Rightarrow> nat \<Rightarrow> error + (collection list \<times> nat)" where
  "getCollections db filters page limit =
     (case paginate page limit (sortDesc dateTime (filter (collectionsFilter filters) db)) of
        Inl e \<Rightarrow> Inl e
      | Inr collections \<Rightarrow> Inr (collections, length (filter (collectionsFilter filters) db)))"

text \<open>The filters of \<open>getCollectionStats\<close>.\<close>

record statsFilters =
  st_dateFrom :: "date option"
  st_dateTo :: "date option"
  st_clientId :: "string option"
  st_collectedBy :: "string option"

definition baseFilter :: "objectId \<Rightarrow> statsFilters option \<Rightarrow> collection \<Rightarrow> bool" where
  "baseFilter org filters c =
     (collection.organizationId c = org
      \<and> \<not> isDeleted c
      \<and> (case filters of
            None \<Rightarrow> True
          | Some f \<Rightarrow>
              (case st_dateFrom f of None \<Rightarrow> True | Some t \<Rightarrow> t \<le> dateTime c)
              \<and> (case st_dateTo f of None \<Rightarrow> True | Some t \<Rightarrow> dateTime c \<le> t)
              \<and> (if givenString (st_clientId f) then Some (clientId c) = st_clientId f else True)
              \<and> (if givenString (st_collectedBy f) then Some (collectedBy c) = st_collectedBy f
                  else True)))"

text \<open>
  \<open>countDocuments(baseFilter)\<close> and \<open>find(baseFilter)\<close> cast the filter with the schema,
  so the strings \<open>clientId\<close> and \<open>collectedBy\<close> of the filters are compared as ObjectIds:
  this is \<open>baseFilter\<close> above. The \<open>$match\<close> stage of \<open>aggregate\<close> is sent as it is
  written: there a string is compared with the stored ObjectId, which it never equals.
\<close>

definition stringEqualsObjectId :: "string \<Rightarrow> objectId \<Rightarrow> bool" where
  "stringEqualsObjectId s i = False"

definition aggregateMatch :: "objectId \<Rightarrow> statsFilters option \<Rightarrow> collection \<Rightarrow> bool" where
  "aggregateMatch org filters c =
     (collection.organizationId c = org
      \<and> \<not> isDeleted c
      \<and> (case filters of
            None \<Rightarrow> True
          | Some f \<Rightarrow>
              (case st_dateFrom f of None \<Rightarrow> True | Some t \<Rightarrow> t \<le> dateTime c)
              \<and> (case st_dateTo f of None \<Rightarrow> True | Some t \<Rightarrow> dateTime c \<le> t)
              \<and> (if givenString (st_clientId f)
                  then stringEqualsObjectId (the (st_clientId f)) (clientId c) else True)
              \<and> (if givenString (st_collectedBy f)
                  then stringEqualsObjectId (the (st_collectedBy f)) (collectedBy c) else True)))"

text \<open>
  \<open>aggregate([{ $match }, { $group: { _id: '$status', count: { $sum: 1 } } }])\<close>: one
  group for each status value that occurs, with the number of its documents.
\<close>

definition groupByStatus :: "collection list \<Rightarrow> (status option \<times> nat) list" where
  "groupByStatus cs =
     map (\<lambda>k. (k, length (filter (\<lambda>c. status c = k) cs))) (remdups (map status cs))"

record collectionStats =
  totalCollections :: nat
  statusCounts :: "status option \<rightharpoonup> nat"
  recentCollections :: "collection list"

definition getCollectionStats :: "collection list \<Rightarrow> objectId \<Rightarrow> statsFilters option \<Rightarrow> collectionStats" where
  "getCollectionStats db org filters =
     (let totalCollections' = length (filter (baseFilter org filters) db);
          statusAggregation = groupByStatus (filter (aggregateMatch org filters) db);
          recentCollections' = take 10 (sortDesc dateTime (filter (baseFilter org filters) db))
      in \<lparr> totalCollections = totalCollections',
           statusCounts = foldl (\<lambda>m item. m(fst item \<mapsto> snd item)) Map.empty statusAggregation,
           recentCollections = recentCollections' \<rparr>)"

text \<open>
  \<open>getAllClients(organizationId, page, limit, filters)\<close>. The case-insensitive regular
  expression match of the store is the parameter \<open>rx pattern subject\<close>.
\<close>

record clientFilters =
  cf_name :: "string option"
  cf_email :: "string option"
  cf_phone :: "string option"
  cf_clientType :: "clientType option"
  cf_isActive :: "bool option"
  cf_city :: "string option"
  cf_state :: "string option"

definition regexFilter :: "(string \<Rightarrow> string \<Rightarrow> bool) \<Rightarrow> string option \<Rightarrow> string option \<Rightarrow> bool" where
  "regexFilter rx pat subject =
     (if givenString pat
      then (case (pat, subject) of (Some p, Some s) \<Rightarrow> rx p s | _ \<Rightarrow> False)
      else True)"

definition clientsQuery ::
  "(string \<Rightarrow> string \<Rightarrow> bool) \<Rightarrow> objectId \<Rightarrow> clientFilters \<Rightarrow> client \<Rightarrow> bool" where
  "clientsQuery rx org filters d =
     (client.organizationId d = org
      \<and> \<not> isDeleted d
      \<and> regexFilter rx (cf_name filters) (Some (client.name d))
      \<and> regexFilter rx (cf_email filters) (Some (client.email d))
      \<and> regexFilter rx (cf_phone filters) (Some (client.phone d))
      \<and> (case cf_clientType filters of None \<Rightarrow> True | Some t \<Rightarrow> clientType d = t)
      \<and> (case cf_isActive filters of None \<Rightarrow> True | Some a \<Rightarrow> isActive d = a)
      \<and> regexFilter rx (cf_city filters) (city (client.address d))
      \<and> regexFilter rx (cf_state filters) (state (client.address d)))"

record clientPage =
  page_clients :: "client list"
  page_total :: nat
  page_page :: nat
  page_limit :: nat
  page_totalPages :: "nat option"

definition getAllClients ::
  "(string \<Rightarrow> bool) \<Rightarrow> (string \<Rightarrow> string \<Rightarrow> bool) \<Rightarrow> client list \<Rightarrow> string \<Rightarrow> nat \<Rightarrow> nat
     \<Rightarrow> clientFilters \<Rightarrow> error + clientPage" where
  "getAllClients isValid rx db org page limit filters =
     (if \<not> isValid org then Inl invalidObjectId
      else
        (case paginate page limit (sortDesc createdAt (filter (clientsQuery rx org filters) db)) of
           Inl e \<Rightarrow> Inl (AppError ''Skip value must be non-negative'' 500)
         | Inr cs \<Rightarrow>
             Inr \<lparr> page_clients = cs,
                   page_total = length (filter (clientsQuery rx org filters) db),
                   page_page = page, page_limit = limit,
                   page_totalPages = totalPages (length (filter (clientsQuery rx org filters) db)) limit \<rparr>))"

section \<open>Organization scope and the client routes (middleware/roleAuth.ts, routes/client.ts)\<close>

text \<open>
  \<open>checkOrganizationAccess\<close> reads \<open>user.organizationId\<close> of the user document it
  looks up. The user schema declares the path \<open>organization\<close> and no path
  \<open>organizationId\<close>, so the value read is \<open>undefined\<close>.
\<close>

definition user_organizationId :: "user \<Rightarrow> objectId option" where
  "user_organizationId u = None"

definition checkOrganizationAccess ::
  "(string \<Rightarrow> bool) \<Rightarrow> user list \<Rightarrow> user option \<Rightarrow> string option \<Rightarrow> error + unit" where
  "checkOrganizationAccess isValid users req_user organizationId' =
     (case req_user of
        None \<Rightarrow> Inl (AppError ''Authentication required'' 401)
      | Some ru \<Rightarrow>
          if \<not> givenString organizationId' then Inr ()
          else if x_id ru \<noteq> [] \<and> \<not> isValid (x_id ru)
          then Inl (AppError ''Failed to verify organization access'' 500)
          else
            (case findById users (x_id ru) of
               None \<Rightarrow> Inl (AppError ''User not found'' 404)
             | Some u \<Rightarrow>
                 if role u = Some Admin then Inr ()
                 else if (case user_organizationId u of
                            None \<Rightarrow> True
                          | Some org \<Rightarrow> org = [] \<or> Some org \<noteq> organizationId')
                 then Inl (AppError
                        ''Access denied. You can only access resources from your organization'' 403)
                 else Inr ()))"

text \<open>The controller methods pass the path parameters to the service.\<close>

definition ClientController_getClientById ::
  "(string \<Rightarrow> bool) \<Rightarrow> client list \<Rightarrow> string \<Rightarrow> string \<Rightarrow> error + client" where
  "ClientController_getClientById isValid db i organizationId' =
     getClientById isValid db i (Some organizationId')"

text \<open>\<open>parseInt(req.query.page) || 1\<close> and \<open>parseInt(req.query.limit) || 100\<close>\<close>

definition orDefault :: "nat option \<Rightarrow> nat \<Rightarrow> nat" where
  "orDefault q d = (case q of None \<Rightarrow> d | Some n \<Rightarrow> if n = 0 then d else n)"

definition ClientController_getAllClients ::
  "(string \<Rightarrow> bool) \<Rightarrow> (string \<Rightarrow> string \<Rightarrow> bool) \<Rightarrow> client list \<Rightarrow> string \<Rightarrow> nat option
     \<Rightarrow> nat option \<Rightarrow> clientFilters \<Rightarrow> error + clientPage" where
  "ClientController_getAllClients isValid rx db organizationId' page limit filters =
     getAllClients isValid rx db organizationId' (orDefault page 1) (orDefault limit 100) filters"

text \<open>
  \<open>router.get('/organizations/:organizationId/clients/:id', authenticate,
  checkOrganizationAccess, requireSupervisorOrAbove, clientController.getClientById)\<close>
  and the listing route with the same middleware.
\<close>

definition route_get_client ::
  "(string \<Rightarrow> bool) \<Rightarrow> user list \<Rightarrow> client list \<Rightarrow> user option \<Rightarrow> string \<Rightarrow> string
     \<Rightarrow> error + client" where
  "route_get_client isValid users db req_user organizationId' i =
     (case req_user of
        None \<Rightarrow> Inl (AppError ''Unauthorized: Invalid token'' 401)
      | Some ru \<Rightarrow>
          (case checkOrganizationAccess isValid users (Some ru) (Some organizationId') of
             Inl e \<Rightarrow> Inl e
           | Inr _ \<Rightarrow>
               (case requireSupervisorOrAbove isValid users (Some ru) of
                  Inl e \<Rightarrow> Inl e
                | Inr u \<Rightarrow> ClientController_getClientById isValid db i organizationId')))"

definition route_get_clients ::
  "(string \<Rightarrow> bool) \<Rightarrow> (string \<Rightarrow> string \<Rightarrow> bool) \<Rightarrow> user list \<Rightarrow> client list \<Rightarrow> user option
     \<Rightarrow> string \<Rightarrow> nat option \<Rightarrow> nat option \<Rightarrow> clientFilters \<Rightarrow> error + clientPage" where
  "route_get_clients isValid rx users db req_user organizationId' page limit filters =
     (case req_user of
        None \<Rightarrow> Inl (AppError ''Unauthorized: Invalid token'' 401)
      | Some ru \<Rightarrow>
          (case checkOrganizationAccess isValid users (Some ru) (Some organizationId') of
             Inl e \<Rightarrow> Inl e
           | Inr _ \<Rightarrow>
               (case requireSupervisorOrAbove isValid users (Some ru) of
                  Inl e \<Rightarrow> Inl e
                | Inr u \<Rightarrow>
                    ClientController_getAllClients isValid rx db organizationId' page limit filters)))"

text \<open>
  \<open>getAllCollections\<close> of the collection controller: the organization of the listing
  is the actor's, and the actor's role, id and clients narrow it.
\<close>

record collectionsQuery =
  q_page :: nat
  q_limit :: nat
  q_status :: "status option"
  q_clientId :: "string option"
  q_collectedBy :: "string option"
  q_dateFrom :: "date option"
  q_dateTo :: "date option"
  q_search :: "string option"

definition CollectionController_getAllCollections ::
  "collection list \<Rightarrow> user option \<Rightarrow> collectionsQuery \<Rightarrow> error + (collection list \<times> nat)" where
  "CollectionController_getAllCollections db req_user q =
     (case authenticated req_user of
        Inl e \<Rightarrow> Inl e
      | Inr u \<Rightarrow>
          (case getOrganizationId u of
             Inl e \<Rightarrow> Inl e
           | Inr org \<Rightarrow>
               getCollections db
                 \<lparr> flt_organizationId = org,
                   flt_status = q_status q,
                   flt_clientId = q_clientId q,
                   flt_collectedBy = q_collectedBy q,
                   flt_dateFrom = q_dateFrom q,
                   flt_dateTo = q_dateTo q,
                   flt_search = q_search q,
                   flt_userRole = role u,
                   flt_userId = Some (x_id u),
                   flt_userClients = Some (clientIdsOf u) \<rparr>
                 (q_page q) (q_limit q)))"

text \<open>\<open>getAllOrganizations(page, limit, filters)\<close>\<close>

record organizationFilters =
  of_name :: "string option"
  of_industry :: "string option"
  of_size :: "orgSize option"
  of_isActive :: "bool option"

definition organizationsQuery ::
  "(string \<Rightarrow> string \<Rightarrow> bool) \<Rightarrow> organizationFilters \<Rightarrow> organization \<Rightarrow> bool" where
  "organizationsQuery rx filters d =
     (\<not> isDeleted d
      \<and> regexFilter rx (of_name filters) (Some (organization.name d))
      \<and> regexFilter rx (of_industry filters) (industry d)
      \<and> (case of_size filters of None \<Rightarrow> True | Some s \<Rightarrow> size' d = Some s)
      \<and> (case of_isActive filters of None \<Rightarrow> True | Some a \<Rightarrow> isActive d = a))"

record organizationPage =
  page_organizations :: "organization list"
  orgPage_total :: nat
  orgPage_page :: nat
  orgPage_limit :: nat
  orgPage_totalPages :: "nat option"

definition getAllOrganizations ::
  "(string \<Rightarrow> string \<Rightarrow> bool) \<Rightarrow> organization list \<Rightarrow> nat \<Rightarrow> nat \<Rightarrow> organizationFilters
     \<Rightarrow> error + organizationPage" where
  "getAllOrganizations rx db page limit filters =
     (case paginate page limit (sortDesc createdAt (filter (organizationsQuery rx filters) db)) of
        Inl e \<Rightarrow> Inl (AppError ''Skip value must be non-negative'' 500)
      | Inr cs \<Rightarrow>
          Inr \<lparr> page_organizations = cs,
                orgPage_total = length (filter (organizationsQuery rx filters) db),
                orgPage_page = page, orgPage_limit = limit,
                orgPage_totalPages = totalPages (length (filter (organizationsQuery rx filters) db)) limit \<rparr>)"

section \<open>The stores and the lifecycle operations on them\<close>

record database =
  db_organizations :: "organization list"
  db_clients :: "client list"
  db_collections :: "collection list"

definition emptyDatabase :: database where
  "emptyDatabase = \<lparr> db_organizations = [], db_clients = [], db_collections = [] \<rparr>"

text \<open>One call of a lifecycle operation of a service, with its arguments.\<close>

datatype operation =
    CreateOrganization date objectId ICreateOrganization
  | UpdateOrganization date string IUpdateOrganization
  | DeleteOrganization date string string
  | RestoreOrganization date string
  | CreateClient date objectId ICreateClient
  | UpdateClient date string IUpdateClient "string option"
  | DeleteClient date string string "string option"
  | RestoreClient date string "string option"
  | CreateCollection jsDate objectId ICreateCollection
  | UpdateCollection date objectId objectId IUpdateCollection
  | DeleteCollection date objectId objectId objectId

text \<open>The store after the call; a call that fails leaves the store as it was.\<close>

fun perform :: "(string \<Rightarrow> bool) \<Rightarrow> database \<Rightarrow> operation \<Rightarrow> database" where
  "perform isValid s (CreateOrganization now newId d) =
     s\<lparr>db_organizations := snd (createOrganization isValid (db_organizations s) now newId d)\<rparr>"
| "perform isValid s (UpdateOrganization now i d) =
     s\<lparr>db_organizations := snd (updateOrganization isValid (db_organizations s) now i d)\<rparr>"
| "perform isValid s (DeleteOrganization now i by) =
     s\<lparr>db_organizations := snd (deleteOrganization isValid (db_organizations s) now i by)\<rparr>"
| "perform isValid s (RestoreOrganization now i) =
     s\<lparr>db_organizations := snd (restoreOrganization isValid (db_organizations s) now i)\<rparr>"
| "perform isValid s (CreateClient now newId d) =
     s\<lparr>db_clients := snd (createClient isValid (db_clients s) now newId d)\<rparr>"
| "perform isValid s (UpdateClient now i d org) =
     s\<lparr>db_clients := snd (updateClient isValid (db_clients s) now i d org)\<rparr>"
| "perform isValid s (DeleteClient now i by org) =
     s\<lparr>db_clients := snd (deleteClient isValid (db_clients s) now i by org)\<rparr>"
| "perform isValid s (RestoreClient now i org) =
     s\<lparr>db_clients := snd (restoreClient isValid (db_clients s) now i org)\<rparr>"
| "perform isValid s (CreateCollection now newId d) =
     s\<lparr>db_collections := snd (createCollection (db_collections s) now newId d)\<rparr>"
| "perform isValid s (UpdateCollection now i org d) =
     s\<lparr>db_collections := snd (updateCollection (db_collections s) now i org d)\<rparr>"
| "perform isValid s (DeleteCollection now i org by) =
     s\<lparr>db_collections := snd (deleteCollection (db_collections s) now i org by)\<rparr>"

definition performAll :: "(string \<Rightarrow> bool) \<Rightarrow> database \<Rightarrow> operation list \<Rightarrow> database" where
  "performAll isValid s ops = foldl (perform isValid) s ops"

section \<open>The rules in the specification's words, and example data\<close>

text \<open>
  View and update, as the specification states them: the role is admin or manager, or
  the actor is the recorded \<open>collectedBy\<close>, or the collection's client is assigned to
  the actor.
\<close>

definition viewUpdatePermitted_spec :: "user \<Rightarrow> collection \<Rightarrow> bool" where
  "viewUpdatePermitted_spec u c =
     (role u = Some Admin \<or> role u = Some Manager \<or> collectedBy c = x_id u
      \<or> (\<exists>cs. clients u = Some cs \<and> clientId c \<in> set cs))"

definition exampleUser :: "objectId \<Rightarrow> role \<Rightarrow> objectId \<Rightarrow> objectId list \<Rightarrow> user" where
  "exampleUser i r org cs =
     \<lparr> x_id = i, isActive = True, isDeleted = False, deletedAt = None, deletedBy = None,
       createdAt = 0, updatedAt = 0, role = Some r, organization = Some org, clients = Some cs \<rparr>"

definition exampleCollection :: "objectId \<Rightarrow> string \<Rightarrow> objectId \<Rightarrow> objectId \<Rightarrow> objectId \<Rightarrow> collection" where
  "exampleCollection i code org cl by =
     \<lparr> x_id = i, isActive = True, isDeleted = False, deletedAt = None, deletedBy = None,
       createdAt = 0, updatedAt = 0, collectionCode = code, collection.organizationId = org,
       clientId = cl, dateTime = 0, collectedBy = by, status = Some pending, notes' = None,
       items = [], uploadedDocuments = [] \<rparr>"

definition exampleClock :: jsDate where
  "exampleClock = \<lparr> getTime = 1704614400000, getFullYear = 2024, getMonth = 0, getDate = 7 \<rparr>"

definition exampleRequest :: "string \<Rightarrow> CreateCollectionRequest" where
  "exampleRequest cl =
     \<lparr> req_clientId = cl, req_dateTime = None, req_status = None, req_notes = None,
       req_items = None \<rparr>"

definition oidA :: objectId where
  "oidA = ''aaaaaaaaaaaaaaaaaaaaaaa1''"

definition oidB :: objectId where
  "oidB = ''bbbbbbbbbbbbbbbbbbbbbbb2''"

definition oidC :: objectId where
  "oidC = ''ccccccccccccccccccccccc3''"

definition oidD :: objectId where
  "oidD = ''ddddddddddddddddddddddd4''"

definition oidE :: objectId where
  "oidE = ''eeeeeeeeeeeeeeeeeeeeeee5''"

definition exampleClient :: "objectId \<Rightarrow> string \<Rightarrow> string option \<Rightarrow> objectId \<Rightarrow> client" where
  "exampleClient i mail code org =
     \<lparr> x_id = i, isActive = True, isDeleted = False, deletedAt = None, deletedBy = None,
       createdAt = 0, updatedAt = 0,
       client.name = ''Hotel Azur'', aliasName = None, clientCode = code, client.email = mail,
       client.phone = ''5550100'', alternatePhone = None,
       client.address = \<lparr> street = Some ''1 Quay'', city = Some ''Nice'', state = Some ''PACA'',
                          country = Some ''FR'', zipCode = Some ''06000'', landmark = None \<rparr>,
       clientType = hotel, contactPerson = None, billingAddress = None, taxInfo = None,
       paymentTerms = None, creditLimit = None, client_notes = None,
       preferredPickupTime = None, preferredDeliveryTime = None,
       client.organizationId = org, client.createdBy = oidC \<rparr>"

definition exampleOrganization :: "objectId \<Rightarrow> string \<Rightarrow> organization" where
  "exampleOrganization i mail =
     \<lparr> x_id = i, isActive = True, isDeleted = False, deletedAt = None, deletedBy = None,
       createdAt = 0, updatedAt = 0,
       organization.name = ''Clean Co'', organization.description = None,
       organization.email = mail, organization.phone = None, website = None,
       organization.address = \<lparr> street = None, city = None, state = None, country = None,
                                zipCode = None \<rparr>,
       industry = None, size' = Some small, logo = None, organization.createdBy = oidC \<rparr>"

text \<open>The default listings: no optional filter is given.\<close>

definition noClientFilters :: clientFilters where
  "noClientFilters =
     \<lparr> cf_name = None, cf_email = None, cf_phone = None, cf_clientType = None,
       cf_isActive = None, cf_city = None, cf_state = None \<rparr>"

definition noOrganizationFilters :: organizationFilters where
  "noOrganizationFilters =
     \<lparr> of_name = None, of_industry = None, of_size = None, of_isActive = None \<rparr>"

definition exampleNewClient :: "string \<Rightarrow> string option \<Rightarrow> string \<Rightarrow> ICreateClient" where
  "exampleNewClient mail code org =
     \<lparr> newCl_name = ''Hotel Azur'', newCl_aliasName = None, newCl_clientCode = code,
       newCl_email = mail, newCl_phone = ''5550100'', newCl_alternatePhone = None,
       newCl_address = \<lparr> street = Some ''1 Quay'', city = Some ''Nice'', state = Some ''PACA'',
                         country = Some ''FR'', zipCode = Some ''06000'', landmark = None \<rparr>,
       newCl_clientType = hotel, newCl_contactPerson = None, newCl_billingAddress = None,
       newCl_taxInfo = None, newCl_paymentTerms = None, newCl_creditLimit = None,
       newCl_notes = None, newCl_preferredPickupTime = None, newCl_preferredDeliveryTime = None,
       newCl_organizationId = org, newCl_createdBy = oidC \<rparr>"

text \<open>The invariant of the flags: a deleted document is not active.\<close>

definition flagsConsistent :: "'a document_scheme \<Rightarrow> bool" where
  "flagsConsistent d = (isDeleted d \<longrightarrow> \<not> isActive d)"

definition storeInvariant :: "database \<Rightarrow> bool" where
  "storeInvariant s =
     ((\<forall>d \<in> set (db_organizations s). flagsConsistent d)
      \<and> (\<forall>d \<in> set (db_clients s). flagsConsistent d)
      \<and> (\<forall>d \<in> set (db_collections s). flagsConsistent d))"

section \<open>Properties\<close>

subsection \<open>Store lemmas\<close>

lemma findOne_unique:
  assumes "c \<in> set db" and "p c" and "\<And>d. d \<in> set db \<Longrightarrow> p d \<Longrightarrow> d = c"
  shows "findOne p db = Some c"
proof -
  have "\<exists>x. List.find p db = Some x"
    using assms(1,2) by (cases "List.find p db") (auto simp: find_None_iff)
  then obtain x where x: "List.find p db = Some x" by blast
  then have "x \<in> set db" and "p x"
    by (auto simp: find_Some_iff)
  then have "x = c" by (rule assms(3))
  with x show ?thesis by (simp add: findOne_def)
qed

lemma distinct_ids_eq:
  assumes "distinct (map x_id db)" and "c \<in> set db" and "d \<in> set db" and "x_id d = x_id c"
  shows "d = c"
proof -
  have i: "inj_on x_id (set db)" using assms(1) by (simp add: distinct_map)
  show ?thesis by (rule inj_onD[OF i assms(4) assms(3) assms(2)])
qed

lemma findOne_by_id:
  assumes "distinct (map x_id db)" and "c \<in> set db" and "p c" and "\<And>d. p d \<Longrightarrow> x_id d = x_id c"
  shows "findOne p db = Some c"
proof (rule findOne_unique)
  show "c \<in> set db" by (rule assms(2))
  show "p c" by (rule assms(3))
  fix d assume d: "d \<in> set db" and "p d"
  then have "x_id d = x_id c" using assms(4) by simp
  with assms(1,2) d show "d = c" by (rule distinct_ids_eq)
qed

lemma map_replace_absent:
  assumes "\<And>d. d \<in> set db \<Longrightarrow> x_id d \<noteq> i"
  shows "map (\<lambda>d. if x_id d = i then f d else d) db = db"
  using assms by (induction db) simp_all

lemma updateOne_by_id:
  assumes "distinct (map x_id db)" and "c \<in> set db" and "p c" and "\<And>d. p d \<Longrightarrow> x_id d = x_id c"
  shows "updateOne p f db = map (\<lambda>d. if x_id d = x_id c then f d else d) db"
  using assms(1,2)
proof (induction db)
  case Nil
  then show ?case by simp
next
  case (Cons a db)
  show ?case
  proof (cases "a = c")
    case True
    have "x_id c \<notin> x_id ` set db" using Cons.prems(1) True by simp
    then have "\<And>d. d \<in> set db \<Longrightarrow> x_id d \<noteq> x_id c" by (metis imageI)
    then have "map (\<lambda>d. if x_id d = x_id c then f d else d) db = db"
      by (rule map_replace_absent)
    with True assms(3) show ?thesis by simp
  next
    case False
    then have m: "c \<in> set db" using Cons.prems(2) by simp
    have "x_id a \<notin> x_id ` set db" using Cons.prems(1) by simp
    with m have n: "x_id a \<noteq> x_id c" by (metis imageI)
    then have "\<not> p a" using assms(4) by blast
    moreover have "distinct (map x_id db)" using Cons.prems(1) by simp
    ultimately show ?thesis using Cons.IH m n by simp
  qed
qed

subsection \<open>Example identifiers\<close>

lemma oid_valid:
  "objectIdPattern oidA" "objectIdPattern oidB" "objectIdPattern oidC" "objectIdPattern oidD"
  "objectIdPattern oidE"
  by (simp_all add: objectIdPattern_def isHexDigit_def oidA_def oidB_def oidC_def oidD_def oidE_def)

lemma oid_distinct: "oidA \<noteq> oidB" "oidA \<noteq> oidC" "oidB \<noteq> oidC" "oidB \<noteq> oidA" "oidC \<noteq> oidA" "oidC \<noteq> oidB"
  "oidA \<noteq> []" "oidB \<noteq> []" "oidC \<noteq> []" "oidD \<noteq> []" "oidE \<noteq> []"
  "oidD \<noteq> oidA" "oidD \<noteq> oidB" "oidD \<noteq> oidC" "oidA \<noteq> oidD" "oidB \<noteq> oidD" "oidC \<noteq> oidD"
  "oidE \<noteq> oidA" "oidE \<noteq> oidB" "oidE \<noteq> oidC" "oidE \<noteq> oidD"
  "oidA \<noteq> oidE" "oidB \<noteq> oidE" "oidC \<noteq> oidE" "oidD \<noteq> oidE"
  by (simp_all add: oidA_def oidB_def oidC_def oidD_def oidE_def)

subsection \<open>Viewing and updating a collection\<close>

text \<open>The text of a populated document is not an ObjectId string.\<close>

lemma Document_toString_no_id:
  assumes "objectIdPattern s"
  shows "Document_toString d \<noteq> s"
proof
  assume e: "Document_toString d = s"
  from assms obtain c r where s: "s = c # r" and h: "isHexDigit c"
    by (cases s) (auto simp: objectIdPattern_def)
  from e s have "c = CHR ''{''" by (simp add: Document_toString_def)
  with h show False by (simp add: isHexDigit_def)
qed

text \<open>
  With populated paths that are documents, and ids that are ObjectIds, only the role
  lets \<open>checkCollectionAccess\<close> and \<open>canDeleteCollection\<close> answer true.
\<close>

lemma checkCollectionAccess_populated:
  assumes "populated_collectedBy c = Some w" and "populated_clientId c = Some k"
    and "objectIdPattern userId" and "list_all objectIdPattern cs"
  shows "checkCollectionAccess c userId (Some r) (Some cs) = Inr (r = Admin \<or> r = Manager)"
proof -
  have a: "Document_toString w \<noteq> userId"
    using assms(3) by (rule Document_toString_no_id)
  have b: "Document_toString k \<notin> set cs"
  proof
    assume "Document_toString k \<in> set cs"
    with assms(4) have "objectIdPattern (Document_toString k)" by (simp add: list_all_iff)
    then show False using Document_toString_no_id[of "Document_toString k" k] by simp
  qed
  show ?thesis
    using a b by (simp add: checkCollectionAccess_def assms(1,2))
qed

lemma canDeleteCollection_populated:
  assumes "populated_collectedBy c = Some w" and "objectIdPattern userId"
  shows "canDeleteCollection c userId (Some r) = Inr (r = Admin \<or> r = Manager)"
  using Document_toString_no_id[OF assms(2), of w]
  by (simp add: canDeleteCollection_def assms(1))

text \<open>
  Claim C3, at a collector who recorded the collection and to whom its client is
  assigned. The rule of the claim permits the view and the update; the controller
  answers both with the 403 error, because the access check compares the actor's id
  and the assigned client ids with the text of the populated documents. The store is
  unchanged.
\<close>

theorem C3_author_with_assigned_client_refused:
  "viewUpdatePermitted_spec (exampleUser oidC Collector oidB [oidD])
      (exampleCollection oidA ''COL202401070001'' oidB oidD oidC)
   \<and> collectedBy (exampleCollection oidA ''COL202401070001'' oidB oidD oidC)
       = x_id (exampleUser oidC Collector oidB [oidD])
   \<and> clients (exampleUser oidC Collector oidB [oidD])
       = Some [clientId (exampleCollection oidA ''COL202401070001'' oidB oidD oidC)]
   \<and> organization (exampleUser oidC Collector oidB [oidD])
       = Some (collection.organizationId (exampleCollection oidA ''COL202401070001'' oidB oidD oidC))
   \<and> CollectionController_getCollectionById
        [exampleUser oidC Collector oidB [oidD]] [exampleClient oidD ''a@x.io'' None oidB]
        [exampleCollection oidA ''COL202401070001'' oidB oidD oidC]
        (Some (exampleUser oidC Collector oidB [oidD])) oidA
       = Inl (AppError ''You are not authorized to view this collection'' 403)
   \<and> CollectionController_updateCollection
        [exampleUser oidC Collector oidB [oidD]] [exampleClient oidD ''a@x.io'' None oidB]
        [exampleCollection oidA ''COL202401070001'' oidB oidD oidC] 9
        (Some (exampleUser oidC Collector oidB [oidD])) oidA
        \<lparr> upd_status = Some collected, upd_notes = None, upd_items = None \<rparr>
       = (Inl (AppError ''You are not authorized to update this collection'' 403),
          [exampleCollection oidA ''COL202401070001'' oidB oidD oidC])"
proof -
  let ?u = "exampleUser oidC Collector oidB [oidD]"
  let ?k = "exampleClient oidD ''a@x.io'' None oidB"
  let ?c = "exampleCollection oidA ''COL202401070001'' oidB oidD oidC"
  have p: "viewUpdatePermitted_spec ?u ?c"
    by (simp add: viewUpdatePermitted_spec_def exampleUser_def exampleCollection_def)
  have f: "collectedBy ?c = x_id ?u" "clients ?u = Some [clientId ?c]"
    "organization ?u = Some (collection.organizationId ?c)"
    by (simp_all add: exampleUser_def exampleCollection_def)
  have a: "authenticated (Some ?u) = Inr ?u"
    by (simp add: authenticated_def exampleUser_def oid_distinct)
  have o: "getOrganizationId ?u = Inr oidB"
    by (simp add: getOrganizationId_def exampleUser_def)
  have g: "getCollectionById [?u] [?k] [?c] oidA oidB = Inr (populate [?u] [?k] ?c)"
    by (simp add: getCollectionById_def findOne_def exampleCollection_def)
  have pc: "populated_collectedBy (populate [?u] [?k] ?c) = Some ?u"
    "populated_clientId (populate [?u] [?k] ?c) = Some ?k"
    by (simp_all add: populate_def findById_def findOne_def exampleCollection_def exampleUser_def
          exampleClient_def)
  have x: "checkCollectionAccess (populate [?u] [?k] ?c) (x_id ?u) (role ?u) (clients ?u) = Inr False"
    using checkCollectionAccess_populated[OF pc, of oidC "[oidD]" Collector]
    by (simp add: exampleUser_def oid_valid)
  have v: "CollectionController_getCollectionById [?u] [?k] [?c] (Some ?u) oidA
       = Inl (AppError ''You are not authorized to view this collection'' 403)"
    by (simp add: CollectionController_getCollectionById_def a o g x)
  have w: "CollectionController_updateCollection [?u] [?k] [?c] 9 (Some ?u) oidA
        \<lparr> upd_status = Some collected, upd_notes = None, upd_items = None \<rparr>
       = (Inl (AppError ''You are not authorized to update this collection'' 403), [?c])"
    by (simp add: CollectionController_updateCollection_def a o g x)
  from p f v w show ?thesis by simp
qed

subsection \<open>Deleting and creating a collection\<close>

lemma requireRole_stored:
  assumes "findById users (x_id u) = Some u" and "isValid (x_id u)" and "x_id u \<noteq> []"
  shows "requireRole isValid rs users (Some u) =
     (case role u of
        None \<Rightarrow> Inl (AppError ''User role not assigned'' 403)
      | Some r \<Rightarrow>
          if r \<in> set rs then Inr u
          else Inl (AppError (''Access denied. Required role(s): '' @ joinWith '', '' (map roleName rs)
                      @ ''. Your role: '' @ roleName r) 403))"
  using assms by (simp add: requireRole_def split: option.splits)

text \<open>
  Claim C1, at an admin and at the collector who recorded the collection. The claim
  lets both delete it. The route answers the collector with the 403 error of its role
  middleware, and the controller answers the admin with the 403 error of
  \<open>validateClientAccess\<close>, to which it passes the id of the collection in the place of a
  client id: the admin's assigned clients hold the client of the collection, not the
  collection. The store is unchanged in both cases.
\<close>

theorem C1_admin_and_author_refused:
  "role (exampleUser oidE Admin oidB [oidD]) = Some Admin
   \<and> organization (exampleUser oidE Admin oidB [oidD])
       = Some (collection.organizationId (exampleCollection oidA ''COL202401070001'' oidB oidD oidC))
   \<and> route_delete_collections_id objectIdPattern
        [exampleUser oidE Admin oidB [oidD], exampleUser oidC Collector oidB [oidD]]
        [exampleClient oidD ''a@x.io'' None oidB]
        [exampleCollection oidA ''COL202401070001'' oidB oidD oidC] 9
        (Some (exampleUser oidE Admin oidB [oidD])) oidA
       = (Inl (AppError ''You are not authorized to view collections for this client'' 403),
          [exampleCollection oidA ''COL202401070001'' oidB oidD oidC])
   \<and> collectedBy (exampleCollection oidA ''COL202401070001'' oidB oidD oidC)
       = x_id (exampleUser oidC Collector oidB [oidD])
   \<and> route_delete_collections_id objectIdPattern
        [exampleUser oidE Admin oidB [oidD], exampleUser oidC Collector oidB [oidD]]
        [exampleClient oidD ''a@x.io'' None oidB]
        [exampleCollection oidA ''COL202401070001'' oidB oidD oidC] 9
        (Some (exampleUser oidC Collector oidB [oidD])) oidA
       = (Inl (AppError ''Access denied. Required role(s): manager, admin. Your role: collector'' 403),
          [exampleCollection oidA ''COL202401070001'' oidB oidD oidC])"
proof -
  let ?a = "exampleUser oidE Admin oidB [oidD]"
  let ?u = "exampleUser oidC Collector oidB [oidD]"
  let ?k = "exampleClient oidD ''a@x.io'' None oidB"
  let ?c = "exampleCollection oidA ''COL202401070001'' oidB oidD oidC"
  have f: "role ?a = Some Admin" "organization ?a = Some (collection.organizationId ?c)"
    "collectedBy ?c = x_id ?u"
    by (simp_all add: exampleUser_def exampleCollection_def)
  have sa: "findById [?a, ?u] (x_id ?a) = Some ?a"
    by (simp add: findById_def findOne_def exampleUser_def)
  have su: "findById [?a, ?u] (x_id ?u) = Some ?u"
    by (simp add: findById_def findOne_def exampleUser_def oid_distinct)
  have ia: "x_id ?a = oidE" and iu: "x_id ?u = oidC" by (simp_all add: exampleUser_def)
  have ra: "requireManagerOrAdmin objectIdPattern [?a, ?u] (Some ?a) = Inr ?a"
    unfolding requireManagerOrAdmin_def
    by (simp add: requireRole_stored[OF sa] ia oid_valid oid_distinct f(1))
  have ru: "requireManagerOrAdmin objectIdPattern [?a, ?u] (Some ?u)
      = Inl (AppError ''Access denied. Required role(s): manager, admin. Your role: collector'' 403)"
    unfolding requireManagerOrAdmin_def
    by (simp add: requireRole_stored[OF su] iu oid_valid oid_distinct, simp add: exampleUser_def)
  have v: "validateParams_collectionId oidA = Inr oidA"
    by (simp add: validateParams_collectionId_def oid_valid)
  have au: "authenticated (Some ?a) = Inr ?a"
    by (simp add: authenticated_def ia oid_distinct)
  have n: "\<not> validateClientAccess (clientIdsOf ?a) oidA"
    by (simp add: validateClientAccess_def clientIdsOf_def exampleUser_def oid_distinct)
  have d: "CollectionController_deleteCollection [?a, ?u] [?k] [?c] 9 (Some ?a) oidA
      = (Inl (AppError ''You are not authorized to view collections for this client'' 403), [?c])"
    by (simp add: CollectionController_deleteCollection_def au n)
  have A: "route_delete_collections_id objectIdPattern [?a, ?u] [?k] [?c] 9 (Some ?a) oidA
       = (Inl (AppError ''You are not authorized to view collections for this client'' 403), [?c])"
    by (simp add: route_delete_collections_id_def ra v d)
  have B: "route_delete_collections_id objectIdPattern [?a, ?u] [?k] [?c] 9 (Some ?u) oidA
       = (Inl (AppError ''Access denied. Required role(s): manager, admin. Your role: collector'' 403),
          [?c])"
    by (simp add: route_delete_collections_id_def ru)
  from f A B show ?thesis by simp
qed

text \<open>
  No create request stores a collection: the document that \<open>createCollection\<close> builds
  has no code when it is validated, and the code is required.
\<close>

lemma createCollection_fails:
  "createCollection db now newId collectionData
     = (Inl (Thrown ''ValidationError: Collection validation failed''), db)"
  by (simp add: createCollection_def Collection_valid_def Let_def)

text \<open>
  Claim C2. A create request that succeeds comes from an actor whose role is collector,
  supervisor, manager or admin and names a \<open>clientId\<close> that is, as a string, a member
  of the actor's assigned clients. An actor with another role is answered with the 403
  error of the role middleware; a request whose \<open>clientId\<close> is not a member is answered with
  a 403 error whatever the role; nothing is stored in either case. The actor is a stored
  user whose id is an ObjectId.
\<close>

theorem C2_create_access:
  assumes "findById users (x_id u) = Some u" and "isValid (x_id u)" and "x_id u \<noteq> []"
  shows "(\<forall>c db'. route_post_collections isValid users db now newId (Some u) body = (Inr c, db') \<longrightarrow>
            (role u = Some Collector \<or> role u = Some Supervisor \<or> role u = Some Manager
               \<or> role u = Some Admin)
            \<and> req_clientId body \<in> set (clientIdsOf u))
       \<and> (role u \<noteq> Some Collector \<and> role u \<noteq> Some Supervisor \<and> role u \<noteq> Some Manager
            \<and> role u \<noteq> Some Admin \<longrightarrow>
            (\<exists>m. route_post_collections isValid users db now newId (Some u) body
                   = (Inl (AppError m 403), db)))
       \<and> (req_clientId body \<notin> set (clientIdsOf u) \<longrightarrow>
            (\<exists>m. route_post_collections isValid users db now newId (Some u) body
                   = (Inl (AppError m 403), db)))"
proof -
  note r = requireRole_stored[where isValid = isValid and rs = "[Collector, Supervisor, Admin, Manager]", OF assms]
  have b: "role u \<noteq> Some Collector \<and> role u \<noteq> Some Supervisor \<and> role u \<noteq> Some Manager
            \<and> role u \<noteq> Some Admin \<longrightarrow>
            (\<exists>m. route_post_collections isValid users db now newId (Some u) body
                   = (Inl (AppError m 403), db))"
    by (auto simp: route_post_collections_def requireCollectorOrAbove_def r split: option.splits)
  have c: "req_clientId body \<notin> set (clientIdsOf u) \<longrightarrow>
            (\<exists>m. route_post_collections isValid users db now newId (Some u) body
                   = (Inl (AppError m 403), db))"
    by (auto simp: route_post_collections_def requireCollectorOrAbove_def r
          CollectionController_createCollection_def authenticated_def assms(3)
          validateClientAccess_def split: option.splits)
  have a: "\<forall>c db'. route_post_collections isValid users db now newId (Some u) body = (Inr c, db') \<longrightarrow>
            (role u = Some Collector \<or> role u = Some Supervisor \<or> role u = Some Manager
               \<or> role u = Some Admin)
            \<and> req_clientId body \<in> set (clientIdsOf u)"
    using b c by auto
  from a b c show ?thesis by blast
qed

text \<open>
  A collector is refused for a client that is not assigned, and an actor with the role
  \<open>user\<close> is refused for a client that is.
\<close>

theorem C2_create_access_witness:
  "findById [exampleUser oidC Collector oidB [oidD], exampleUser oidE User oidB [oidD]]
       (x_id (exampleUser oidC Collector oidB [oidD]))
     = Some (exampleUser oidC Collector oidB [oidD])
   \<and> objectIdPattern (x_id (exampleUser oidC Collector oidB [oidD]))
   \<and> req_clientId (exampleRequest oidA) \<notin> set (clientIdsOf (exampleUser oidC Collector oidB [oidD]))
   \<and> (\<exists>m. route_post_collections objectIdPattern
          [exampleUser oidC Collector oidB [oidD], exampleUser oidE User oidB [oidD]] []
          exampleClock oidA (Some (exampleUser oidC Collector oidB [oidD])) (exampleRequest oidA)
        = (Inl (AppError m 403), []))
   \<and> role (exampleUser oidE User oidB [oidD]) = Some User
   \<and> req_clientId (exampleRequest oidD) \<in> set (clientIdsOf (exampleUser oidE User oidB [oidD]))
   \<and> (\<exists>m. route_post_collections objectIdPattern
          [exampleUser oidC Collector oidB [oidD], exampleUser oidE User oidB [oidD]] []
          exampleClock oidA (Some (exampleUser oidE User oidB [oidD])) (exampleRequest oidD)
        = (Inl (AppError m 403), []))"
proof -
  let ?u = "exampleUser oidC Collector oidB [oidD]"
  let ?v = "exampleUser oidE User oidB [oidD]"
  have iu: "x_id ?u = oidC" and iv: "x_id ?v = oidE" by (simp_all add: exampleUser_def)
  have su: "findById [?u, ?v] (x_id ?u) = Some ?u"
    by (simp add: findById_def findOne_def exampleUser_def)
  have sv: "findById [?u, ?v] (x_id ?v) = Some ?v"
    by (simp add: findById_def findOne_def exampleUser_def oid_distinct)
  have vu: "objectIdPattern (x_id ?u)" "x_id ?u \<noteq> []" by (simp_all add: iu oid_valid oid_distinct)
  have vv: "objectIdPattern (x_id ?v)" "x_id ?v \<noteq> []" by (simp_all add: iv oid_valid oid_distinct)
  have n: "req_clientId (exampleRequest oidA) \<notin> set (clientIdsOf ?u)"
    by (simp add: exampleRequest_def clientIdsOf_def exampleUser_def oid_distinct)
  have m: "req_clientId (exampleRequest oidD) \<in> set (clientIdsOf ?v)"
    by (simp add: exampleRequest_def clientIdsOf_def exampleUser_def)
  have k: "role ?v = Some User" by (simp add: exampleUser_def)
  note t1 = C2_create_access[where isValid = objectIdPattern and db = "[]" and now = exampleClock
      and newId = oidA and body = "exampleRequest oidA", OF su vu]
  note t2 = C2_create_access[where isValid = objectIdPattern and db = "[]" and now = exampleClock
      and newId = oidA and body = "exampleRequest oidD", OF sv vv]
  from t1 n have a: "\<exists>m. route_post_collections objectIdPattern [?u, ?v] [] exampleClock oidA
      (Some ?u) (exampleRequest oidA) = (Inl (AppError m 403), [])" by blast
  from t2 k have b: "\<exists>m. route_post_collections objectIdPattern [?u, ?v] [] exampleClock oidA
      (Some ?v) (exampleRequest oidD) = (Inl (AppError m 403), [])" by simp
  from su vu(1) n a k m b show ?thesis by blast
qed

subsection \<open>Collection codes\<close>

text \<open>The save hook on the first collection of 7 January 2024.\<close>

lemma codePrefix_exampleClock: "codePrefix exampleClock = ''COL20240107''"
  by (simp add: codePrefix_def exampleClock_def padStart_def String_nat.simps digitChar_def Let_def)

lemma preSave_first_of_day: "preSave [] exampleClock org [] = ''COL202401070001''"
  by (simp add: preSave_def codePrefix_exampleClock padStart_def String_nat.simps digitChar_def
        trim_def isSpace_def toUpperCase_def Let_def numeral_3_eq_3)

text \<open>
  Claim C4, at the first collection of a day. A collector creates a collection for an
  assigned client in an empty store; the claim gives the new collection the code of
  the day with the sequence 0001, which is what the save hook computes for this store.
  The request ends in the validation error (status 500) and nothing is stored:
  \<open>collectionCode\<close> is required, and the hook that would generate it runs after the
  validation.
\<close>

theorem C4_create_fails_validation:
  "preSave [] exampleClock oidB [] = ''COL202401070001''
   \<and> req_clientId (exampleRequest oidD) \<in> set (clientIdsOf (exampleUser oidC Collector oidB [oidD]))
   \<and> route_post_collections objectIdPattern [exampleUser oidC Collector oidB [oidD]] []
        exampleClock oidA (Some (exampleUser oidC Collector oidB [oidD])) (exampleRequest oidD)
       = (Inl (Thrown ''ValidationError: Collection validation failed''), [])
   \<and> statusCode (Thrown ''ValidationError: Collection validation failed'') = 500"
proof -
  let ?u = "exampleUser oidC Collector oidB [oidD]"
  have iu: "x_id ?u = oidC" by (simp add: exampleUser_def)
  have su: "findById [?u] (x_id ?u) = Some ?u"
    by (simp add: findById_def findOne_def)
  have m: "req_clientId (exampleRequest oidD) \<in> set (clientIdsOf ?u)"
    by (simp add: exampleRequest_def clientIdsOf_def exampleUser_def)
  have r: "requireCollectorOrAbove objectIdPattern [?u] (Some ?u) = Inr ?u"
    unfolding requireCollectorOrAbove_def
    by (simp add: requireRole_stored[OF su] iu oid_valid oid_distinct, simp add: exampleUser_def)
  have a: "authenticated (Some ?u) = Inr ?u"
    by (simp add: authenticated_def iu oid_distinct)
  have o: "getOrganizationId ?u = Inr oidB"
    by (simp add: getOrganizationId_def exampleUser_def)
  have "route_post_collections objectIdPattern [?u] [] exampleClock oidA (Some ?u) (exampleRequest oidD)
       = (Inl (Thrown ''ValidationError: Collection validation failed''), [])"
    using m by (simp add: route_post_collections_def r CollectionController_createCollection_def a
          validateClientAccess_def o createCollection_fails)
  with m preSave_first_of_day[of oidB] show ?thesis by simp
qed

subsection \<open>Deleting what is already deleted\<close>

lemma findOne_none:
  assumes "\<And>d. d \<in> set db \<Longrightarrow> \<not> p d"
  shows "findOne p db = None"
  using assms by (simp add: findOne_def find_None_iff)

lemma findOne_none_by_id:
  assumes "distinct (map x_id db)" and "c \<in> set db" and "\<not> p c" and "\<And>d. p d \<Longrightarrow> x_id d = x_id c"
  shows "findOne p db = None"
proof (rule findOne_none)
  fix d assume d: "d \<in> set db"
  show "\<not> p d"
  proof
    assume "p d"
    then have "x_id d = x_id c" by (rule assms(4))
    with assms(1,2) d have "d = c" by (rule distinct_ids_eq)
    with \<open>p d\<close> assms(3) show False by simp
  qed
qed

text \<open>
  Claim C5. Deleting a collection, a client or an organization that is already
  soft-deleted fails with the 404 error of its service, and the store is unchanged.
  The ids are ObjectIds, which the driver's validity check accepts.
\<close>

theorem C5_second_delete_not_found:
  assumes "c \<in> set collections" and "isDeleted c" and "distinct (map x_id collections)"
    and "k \<in> set clients'" and "isDeleted k" and "distinct (map x_id clients')"
    and "isValid (x_id k)" and "\<not> invalidOrganization isValid scope"
    and "g \<in> set organizations" and "isDeleted g" and "distinct (map x_id organizations)"
    and "isValid (x_id g)"
  shows "deleteCollection collections now (x_id c) org by
           = (Inl (AppError ''Collection not found'' 404), collections)
       \<and> deleteClient isValid clients' now (x_id k) by scope
           = (Inl (AppError ''Client not found'' 404), clients')
       \<and> deleteOrganization isValid organizations now (x_id g) by
           = (Inl (AppError ''Organization not found'' 404), organizations)"
proof -
  have a: "findOne (\<lambda>d. x_id d = x_id c \<and> collection.organizationId d = org \<and> \<not> isDeleted d) collections = None"
    using assms(3,1) by (rule findOne_none_by_id) (simp_all add: assms(2))
  have b: "findOne (clientQuery (x_id k) False scope) clients' = None"
    using assms(6,4) by (rule findOne_none_by_id) (simp_all add: assms(5) clientQuery_def)
  have c: "findOne (\<lambda>d. x_id d = x_id g \<and> \<not> isDeleted d) organizations = None"
    using assms(11,9) by (rule findOne_none_by_id) (simp_all add: assms(10))
  have "deleteCollection collections now (x_id c) org by
           = (Inl (AppError ''Collection not found'' 404), collections)"
    by (simp add: deleteCollection_def a)
  moreover have "deleteClient isValid clients' now (x_id k) by scope
           = (Inl (AppError ''Client not found'' 404), clients')"
    by (simp add: deleteClient_def b assms(7,8))
  moreover have "deleteOrganization isValid organizations now (x_id g) by
           = (Inl (AppError ''Organization not found'' 404), organizations)"
    by (simp add: deleteOrganization_def c assms(12))
  ultimately show ?thesis by simp
qed

text \<open>A deleted collection, client and organization, each deleted a second time.\<close>

theorem C5_second_delete_not_found_witness:
  "softDelete 5 oidC (exampleCollection oidA ''COL202401070001'' oidB ''cl1'' oidC)
      \<in> set [softDelete 5 oidC (exampleCollection oidA ''COL202401070001'' oidB ''cl1'' oidC)]
   \<and> isDeleted (softDelete 5 oidC (exampleCollection oidA ''COL202401070001'' oidB ''cl1'' oidC))
   \<and> isDeleted (softDelete 5 oidC (exampleClient oidA ''a@x.io'' None oidB))
   \<and> isDeleted (softDelete 5 oidC (exampleOrganization oidB ''o@x.io''))
   \<and> objectIdPattern oidA \<and> objectIdPattern oidB
   \<and> deleteCollection [softDelete 5 oidC (exampleCollection oidA ''COL202401070001'' oidB ''cl1'' oidC)]
        9 oidA oidB oidC
       = (Inl (AppError ''Collection not found'' 404),
          [softDelete 5 oidC (exampleCollection oidA ''COL202401070001'' oidB ''cl1'' oidC)])
   \<and> deleteClient objectIdPattern [softDelete 5 oidC (exampleClient oidA ''a@x.io'' None oidB)]
        9 oidA oidC (Some oidB)
       = (Inl (AppError ''Client not found'' 404),
          [softDelete 5 oidC (exampleClient oidA ''a@x.io'' None oidB)])
   \<and> deleteOrganization objectIdPattern [softDelete 5 oidC (exampleOrganization oidB ''o@x.io'')]
        9 oidB oidC
       = (Inl (AppError ''Organization not found'' 404),
          [softDelete 5 oidC (exampleOrganization oidB ''o@x.io'')])"
proof -
  let ?c = "softDelete 5 oidC (exampleCollection oidA ''COL202401070001'' oidB ''cl1'' oidC)"
  let ?k = "softDelete 5 oidC (exampleClient oidA ''a@x.io'' None oidB)"
  let ?g = "softDelete 5 oidC (exampleOrganization oidB ''o@x.io'')"
  have ic: "x_id ?c = oidA" by (simp add: softDelete_def exampleCollection_def)
  have ik: "x_id ?k = oidA" by (simp add: softDelete_def exampleClient_def)
  have ig: "x_id ?g = oidB" by (simp add: softDelete_def exampleOrganization_def)
  have dc: "isDeleted ?c" by (simp add: softDelete_def)
  have dk: "isDeleted ?k" by (simp add: softDelete_def)
  have dg: "isDeleted ?g" by (simp add: softDelete_def)
  have s: "\<not> invalidOrganization objectIdPattern (Some oidB)"
    by (simp add: invalidOrganization_def oid_valid)
  have vk: "objectIdPattern (x_id ?k)" by (simp add: ik oid_valid)
  have vg: "objectIdPattern (x_id ?g)" by (simp add: ig oid_valid)
  have "?c \<in> set [?c]" "distinct (map x_id [?c])" "?k \<in> set [?k]" "distinct (map x_id [?k])"
    "?g \<in> set [?g]" "distinct (map x_id [?g])"
    by simp_all
  from C5_second_delete_not_found[OF this(1) dc this(2) this(3) dk this(4) vk s this(5) dg this(6) vg,
      of 9 oidB oidC]
  show ?thesis
    using dc dk dg oid_valid by (simp add: ic ik ig)
qed

subsection \<open>Setters and validators of the schemas\<close>

lemma Client_setters_document:
  "isDeleted (Client_setters c) = isDeleted c" "isActive (Client_setters c) = isActive c"
  "x_id (Client_setters c) = x_id c"
  "client.organizationId (Client_setters c) = client.organizationId c"
  "client.email (Client_setters c) = toLowerCase (trim (client.email c))"
  "clientCode (Client_setters c) = map_option (\<lambda>s. toUpperCase (trim s)) (clientCode c)"
  by (simp_all add: Client_setters_def)

lemma Organization_setters_document:
  "isDeleted (Organization_setters c) = isDeleted c" "isActive (Organization_setters c) = isActive c"
  "x_id (Organization_setters c) = x_id c"
  by (simp_all add: Organization_setters_def)

lemma example_strings:
  "trim ''Hotel Azur'' = ''Hotel Azur''" "trim ''5550100'' = ''5550100''"
  "trim ''1 Quay'' = ''1 Quay''" "trim ''Nice'' = ''Nice''" "trim ''PACA'' = ''PACA''"
  "trim ''FR'' = ''FR''" "trim ''06000'' = ''06000''"
  "toLowerCase (trim ''a@x.io'') = ''a@x.io''" "toLowerCase (trim ''b@x.io'') = ''b@x.io''"
  by (simp_all add: trim_def toLowerCase_def isSpace_def)

lemma example_regex:
  "emailRegex ''a@x.io''" "emailRegex ''b@x.io''" "phoneRegex ''5550100''"
  by (simp_all add: emailRegex_def phoneRegex_def isSpace_def isDigit_def)

lemma exampleClient_setters:
  "mail \<in> {''a@x.io'', ''b@x.io''} \<Longrightarrow>
     Client_setters (exampleClient i mail None org) = exampleClient i mail None org"
  by (auto simp: Client_setters_def exampleClient_def Address_trim_def example_strings)

lemma exampleClient_valid:
  "mail \<in> {''a@x.io'', ''b@x.io''} \<Longrightarrow> Client_valid (exampleClient i mail None org)"
  by (auto simp: Client_valid_def exampleClient_def Address_valid_def maxlength_def required_def
      emptyOr_def example_regex)

subsection \<open>Restoring what was deleted\<close>

lemma map_replace_ids:
  "map x_id (map (\<lambda>d. if x_id d = i then f d else d) db) = map x_id db"
  if "\<And>d. x_id (f d) = x_id d"
  using that by (induction db) simp_all

lemma map_replace_member:
  assumes "c \<in> set db"
  shows "f c \<in> set (map (\<lambda>d. if x_id d = x_id c then f d else d) db)"
  using assms by (induction db) auto

lemma map_replace_other:
  assumes "d \<in> set (map (\<lambda>d. if x_id d = i then c' else d) db)" and "x_id d \<noteq> x_id c'"
    and "x_id c' = i"
  shows "d \<in> set db \<and> x_id d \<noteq> i"
  using assms by (induction db) (auto split: if_splits)

lemma map_replace_twice:
  assumes "x_id c1 = i"
  shows "map (\<lambda>d. if x_id d = i then c2 else d) (map (\<lambda>d. if x_id d = i then c1 else d) db)
         = map (\<lambda>d. if x_id d = i then c2 else d) db"
  using assms by (induction db) simp_all


lemma findOne_SomeD:
  assumes "findOne p xs = Some x"
  shows "x \<in> set xs \<and> p x"
  using assms by (auto simp: findOne_def find_Some_iff)

lemma findOne_some:
  assumes "d \<in> set db" and "p d"
  shows "\<exists>x. findOne p db = Some x"
  using assms by (cases "List.find p db") (auto simp: findOne_def find_None_iff)

text \<open>What a successful delete and a successful restore of a client have done.\<close>

lemma deleteClient_success:
  assumes "deleteClient isValid db now i by scope = (Inr (), db1)"
    and "e \<in> set db" and "x_id e = i" and "distinct (map x_id db)"
  shows "isValid i \<and> \<not> invalidOrganization isValid scope \<and> isValid by
     \<and> clientQuery i False scope e
     \<and> db1 = map (\<lambda>d. if x_id d = i
                        then e\<lparr>isDeleted := True, isActive := False, deletedAt := Some now,
                                deletedBy := Some by, updatedAt := now\<rparr>
                        else d) db"
proof -
  let ?t = "e\<lparr>isDeleted := True, isActive := False, deletedAt := Some now,
               deletedBy := Some by, updatedAt := now\<rparr>"
  from assms(1) have v: "isValid i" and s: "\<not> invalidOrganization isValid scope"
    by (auto simp: deleteClient_def split: if_splits)
  from assms(1) v s obtain c where c: "findOne (clientQuery i False scope) db = Some c"
    by (cases "findOne (clientQuery i False scope) db") (auto simp: deleteClient_def)
  have "c \<in> set db" and q: "clientQuery i False scope c"
    using findOne_SomeD[OF c] by simp_all
  then have "x_id c = x_id e" using assms(3) by (simp add: clientQuery_def)
  with assms(4,2) \<open>c \<in> set db\<close> have ce: "c = e" by (rule distinct_ids_eq)
  from assms(1) v s c have w: "isValid by"
    by (auto simp: deleteClient_def split: if_splits)
  have f2: "findOne (\<lambda>d. x_id d = i) db = Some e"
    using assms(4,2) by (rule findOne_by_id) (simp_all add: assms(3))
  have u: "updateOne (\<lambda>d. x_id d = i) (\<lambda>_. ?t) db
             = map (\<lambda>d. if x_id d = x_id e then ?t else d) db"
    using assms(4,2) by (rule updateOne_by_id) (simp_all add: assms(3))
  from assms(1) have "db1 = map (\<lambda>d. if x_id d = i then ?t else d) db"
    by (simp add: deleteClient_def v s c w f2 u assms(3) Let_def split: if_splits)
  with v s w q ce show ?thesis by simp
qed

lemma restoreClient_success:
  assumes "restoreClient isValid db now i scope = (Inr e', db2)"
    and "k \<in> set db" and "x_id k = i" and "distinct (map x_id db)"
  shows "isDeleted k
     \<and> e' = k\<lparr>isDeleted := False, isActive := True, deletedAt := None, deletedBy := None,
               updatedAt := now\<rparr>
     \<and> db2 = map (\<lambda>d. if x_id d = i then e' else d) db"
proof -
  let ?t = "k\<lparr>isDeleted := False, isActive := True, deletedAt := None, deletedBy := None,
               updatedAt := now\<rparr>"
  from assms(1) have v: "isValid i" and s: "\<not> invalidOrganization isValid scope"
    by (auto simp: restoreClient_def split: if_splits)
  from assms(1) v s obtain c where c: "findOne (clientQuery i True scope) db = Some c"
    by (cases "findOne (clientQuery i True scope) db") (auto simp: restoreClient_def)
  have "c \<in> set db" and q: "clientQuery i True scope c"
    using findOne_SomeD[OF c] by simp_all
  then have "x_id c = x_id k" using assms(3) by (simp add: clientQuery_def)
  with assms(4,2) \<open>c \<in> set db\<close> have ck: "c = k" by (rule distinct_ids_eq)
  have d: "isDeleted k" using q ck by (simp add: clientQuery_def)
  have u: "updateOne (clientQuery i True scope) (\<lambda>_. ?t) db
             = map (\<lambda>d. if x_id d = x_id k then ?t else d) db"
    using assms(4,2) q[unfolded ck] by (rule updateOne_by_id) (simp add: clientQuery_def assms(3))
  from assms(1) have "e' = ?t \<and> db2 = map (\<lambda>d. if x_id d = i then ?t else d) db"
    by (simp add: restoreClient_def v s c ck u assms(3) Let_def split: if_splits)
  with d show ?thesis by simp
qed

lemma restoreClient_live:
  assumes "e \<in> set db" and "\<not> isDeleted e" and "distinct (map x_id db)" and "isValid (x_id e)"
    and "\<not> invalidOrganization isValid scope"
  shows "restoreClient isValid db now (x_id e) scope =
           (Inl (AppError ''Client not found or not deleted'' 404), db)"
proof -
  have "findOne (clientQuery (x_id e) True scope) db = None"
    using assms(3,1) by (rule findOne_none_by_id) (simp_all add: clientQuery_def assms(2))
  then show ?thesis by (simp add: restoreClient_def assms(4,5))
qed

text \<open>The same for an organization.\<close>

lemma deleteOrganization_success:
  assumes "deleteOrganization isValid db now i by = (Inr (), db1)"
    and "g \<in> set db" and "x_id g = i" and "distinct (map x_id db)"
  shows "isValid i \<and> isValid by
     \<and> db1 = map (\<lambda>d. if x_id d = i
                        then g\<lparr>isDeleted := True, isActive := False, deletedAt := Some now,
                                deletedBy := Some by, updatedAt := now\<rparr>
                        else d) db"
proof -
  let ?f = "\<lambda>d::organization. d\<lparr>isDeleted := True, isActive := False, deletedAt := Some now,
                      deletedBy := Some by, updatedAt := now\<rparr>"
  from assms(1) have v: "isValid i"
    by (auto simp: deleteOrganization_def split: if_splits)
  from assms(1) v obtain c where c: "findOne (\<lambda>d. x_id d = i \<and> \<not> isDeleted d) db = Some c"
    by (cases "findOne (\<lambda>d. x_id d = i \<and> \<not> isDeleted d) db") (auto simp: deleteOrganization_def)
  from assms(1) v c have w: "isValid by"
    by (auto simp: deleteOrganization_def split: if_splits)
  have u: "updateOne (\<lambda>d. x_id d = i) ?f db = map (\<lambda>d. if x_id d = x_id g then ?f d else d) db"
    using assms(4,2) by (rule updateOne_by_id) (simp_all add: assms(3))
  have "\<And>d. d \<in> set db \<Longrightarrow> x_id d = x_id g \<Longrightarrow> d = g"
    using assms(4,2) by (rule distinct_ids_eq)
  then have m: "map (\<lambda>d. if x_id d = x_id g then ?f d else d) db
          = map (\<lambda>d. if x_id d = x_id g then ?f g else d) db"
    by (intro map_cong) auto
  have um: "updateOne (\<lambda>d. x_id d = i) ?f db = map (\<lambda>d. if x_id d = i then ?f g else d) db"
    using u m by (simp add: assms(3))
  from assms(1) have "db1 = map (\<lambda>d. if x_id d = i then ?f g else d) db"
    by (simp add: deleteOrganization_def v c w um)
  with v w show ?thesis by simp
qed

lemma restoreOrganization_success:
  assumes "restoreOrganization isValid db now i = (Inr g', db2)"
    and "k \<in> set db" and "x_id k = i" and "distinct (map x_id db)"
  shows "isDeleted k
     \<and> g' = k\<lparr>isDeleted := False, isActive := True, deletedAt := None, deletedBy := None,
               updatedAt := now\<rparr>
     \<and> db2 = map (\<lambda>d. if x_id d = i then g' else d) db"
proof -
  let ?t = "k\<lparr>isDeleted := False, isActive := True, deletedAt := None, deletedBy := None,
               updatedAt := now\<rparr>"
  from assms(1) have v: "isValid i"
    by (auto simp: restoreOrganization_def split: if_splits)
  from assms(1) v obtain c where c: "findOne (\<lambda>d. x_id d = i \<and> isDeleted d) db = Some c"
    by (cases "findOne (\<lambda>d. x_id d = i \<and> isDeleted d) db") (auto simp: restoreOrganization_def)
  have "c \<in> set db" and q: "x_id c = i \<and> isDeleted c"
    using findOne_SomeD[OF c] by simp_all
  then have "x_id c = x_id k" using assms(3) by simp
  with assms(4,2) \<open>c \<in> set db\<close> have ck: "c = k" by (rule distinct_ids_eq)
  have d: "isDeleted k" using q ck by simp
  have u: "updateOne (\<lambda>d. x_id d = i \<and> isDeleted d) (\<lambda>_. ?t) db
             = map (\<lambda>d. if x_id d = x_id k then ?t else d) db"
    using assms(4,2) by (rule updateOne_by_id) (simp_all add: assms(3) d)
  from assms(1) have "g' = ?t \<and> db2 = map (\<lambda>d. if x_id d = i then ?t else d) db"
    by (simp add: restoreOrganization_def v c ck u assms(3) Let_def split: if_splits)
  with d show ?thesis by simp
qed

lemma restoreOrganization_live:
  assumes "g \<in> set db" and "\<not> isDeleted g" and "distinct (map x_id db)" and "isValid (x_id g)"
  shows "restoreOrganization isValid db now (x_id g) =
           (Inl (AppError ''Organization not found or not deleted'' 404), db)"
proof -
  have "findOne (\<lambda>d. x_id d = x_id g \<and> isDeleted d) db = None"
    using assms(3,1) by (rule findOne_none_by_id) (simp_all add: assms(2))
  then show ?thesis by (simp add: restoreOrganization_def assms(4))
qed

lemma set_sortDesc: "set (sortDesc key xs) = set xs"
  by (simp add: sortDesc_def)

lemma paginate_all: "paginate (Suc 0) 0 xs = Inr xs"
  by (simp add: paginate_def limitTo_def)

lemma regexFilter_None: "regexFilter rx None s"
  by (simp add: regexFilter_def givenString_def)

lemma getAllClients_default_member:
  assumes "c \<in> set db" and "\<not> isDeleted c" and "isValid (client.organizationId c)"
  shows "\<exists>p. getAllClients isValid rx db (client.organizationId c) 1 0 noClientFilters = Inr p
            \<and> c \<in> set (page_clients p)"
proof -
  have "clientsQuery rx (client.organizationId c) noClientFilters c"
    using assms(2) by (simp add: clientsQuery_def noClientFilters_def regexFilter_None)
  with assms(1) have "c \<in> set (sortDesc createdAt
      (filter (clientsQuery rx (client.organizationId c) noClientFilters) db))"
    by (simp add: set_sortDesc)
  then show ?thesis
    by (simp add: getAllClients_def assms(3) paginate_all)
qed

lemma getAllOrganizations_default_member:
  assumes "c \<in> set db" and "\<not> isDeleted c"
  shows "\<exists>p. getAllOrganizations rx db 1 0 noOrganizationFilters = Inr p
            \<and> c \<in> set (page_organizations p)"
proof -
  have "organizationsQuery rx noOrganizationFilters c"
    using assms(2) by (simp add: organizationsQuery_def noOrganizationFilters_def regexFilter_None)
  with assms(1) have "c \<in> set (sortDesc createdAt
      (filter (organizationsQuery rx noOrganizationFilters) db))"
    by (simp add: set_sortDesc)
  then show ?thesis
    by (simp add: getAllOrganizations_def paginate_all)
qed

lemma undelete_live:
  fixes e :: "'a document_scheme"
  assumes "\<not> isDeleted e"
  shows "e\<lparr>isDeleted := True, isActive := False, deletedAt := Some ta, deletedBy := Some who,
           updatedAt := ta\<rparr>\<lparr>isDeleted := False, isActive := True, deletedAt := None,
           deletedBy := None, updatedAt := tb\<rparr>
         = e\<lparr>isActive := True, deletedAt := None, deletedBy := None, updatedAt := tb\<rparr>"
proof -
  have "e\<lparr>isDeleted := False\<rparr> = e" using assms by simp
  then have "e\<lparr>isDeleted := False\<rparr>\<lparr>isActive := True, deletedAt := None, deletedBy := None, updatedAt := tb\<rparr>
      = e\<lparr>isActive := True, deletedAt := None, deletedBy := None, updatedAt := tb\<rparr>" by simp
  then show ?thesis by simp
qed

text \<open>
  When the two writes succeed. The soft delete of a client that is not deleted
  succeeds when the ids are ObjectIds, the scope is the client's organization or none,
  and the unique indexes admit the write: no deleted client of the organization has the
  email or the client code (an absent code counts as a code). The restore of a deleted
  client succeeds under the same conditions, with the clients that are not deleted in
  the place of the deleted ones.
\<close>

lemma deleteClient_live:
  assumes "e \<in> set db" and "\<not> isDeleted e" and "distinct (map x_id db)" and "isValid (x_id e)"
    and "scope = None \<or> scope = Some (client.organizationId e)"
    and "\<not> invalidOrganization isValid scope"
    and "\<And>d. d \<in> set db \<Longrightarrow> isDeleted d \<Longrightarrow> client.organizationId d = client.organizationId e
           \<Longrightarrow> client.email d \<noteq> client.email e \<and> clientCode d \<noteq> clientCode e"
    and "isValid by"
  shows "deleteClient isValid db now (x_id e) by scope =
           (Inr (), map (\<lambda>d. if x_id d = x_id e
                             then e\<lparr>isDeleted := True, isActive := False, deletedAt := Some now,
                                     deletedBy := Some by, updatedAt := now\<rparr>
                             else d) db)"
proof -
  let ?t = "e\<lparr>isDeleted := True, isActive := False, deletedAt := Some now,
               deletedBy := Some by, updatedAt := now\<rparr>"
  have q: "clientQuery (x_id e) False scope e"
    using assms(2,5) by (auto simp: clientQuery_def)
  have f1: "findOne (clientQuery (x_id e) False scope) db = Some e"
    using assms(3,1) q by (rule findOne_by_id) (simp add: clientQuery_def)
  have f2: "findOne (\<lambda>d. x_id d = x_id e) db = Some e"
    using assms(3,1) by (rule findOne_by_id) simp_all
  have nd: "\<not> Client_duplicateKey db ?t"
    using assms(7) by (auto simp: Client_duplicateKey_def)
  have u: "updateOne (\<lambda>d. x_id d = x_id e) (\<lambda>_. ?t) db
             = map (\<lambda>d. if x_id d = x_id e then ?t else d) db"
    using assms(3,1) by (rule updateOne_by_id) simp_all
  show ?thesis
    by (simp add: deleteClient_def assms(4,6,8) f1 f2 nd u Let_def)
qed

lemma restoreClient_deleted:
  assumes "k \<in> set db" and "isDeleted k" and "distinct (map x_id db)" and "isValid (x_id k)"
    and "scope = None \<or> scope = Some (client.organizationId k)"
    and "\<not> invalidOrganization isValid scope"
    and "\<And>d. d \<in> set db \<Longrightarrow> \<not> isDeleted d \<Longrightarrow> client.organizationId d = client.organizationId k
           \<Longrightarrow> client.email d \<noteq> client.email k \<and> clientCode d \<noteq> clientCode k"
  shows "restoreClient isValid db now (x_id k) scope =
           (Inr (k\<lparr>isDeleted := False, isActive := True, deletedAt := None, deletedBy := None,
                   updatedAt := now\<rparr>),
            map (\<lambda>d. if x_id d = x_id k
                      then k\<lparr>isDeleted := False, isActive := True, deletedAt := None,
                              deletedBy := None, updatedAt := now\<rparr>
                      else d) db)"
proof -
  let ?t = "k\<lparr>isDeleted := False, isActive := True, deletedAt := None, deletedBy := None,
               updatedAt := now\<rparr>"
  have q: "clientQuery (x_id k) True scope k"
    using assms(2,5) by (auto simp: clientQuery_def)
  have f1: "findOne (clientQuery (x_id k) True scope) db = Some k"
    using assms(3,1) q by (rule findOne_by_id) (simp add: clientQuery_def)
  have nd: "\<not> Client_duplicateKey db ?t"
    using assms(7) by (auto simp: Client_duplicateKey_def)
  have u: "updateOne (clientQuery (x_id k) True scope) (\<lambda>_. ?t) db
             = map (\<lambda>d. if x_id d = x_id k then ?t else d) db"
    using assms(3,1) q by (rule updateOne_by_id) (simp add: clientQuery_def)
  show ?thesis
    by (simp add: restoreClient_def assms(4,6) f1 nd u Let_def)
qed


text \<open>The writes of an organization do not change an indexed field.\<close>

lemma deleteOrganization_live:
  assumes "g \<in> set db" and "\<not> isDeleted g" and "distinct (map x_id db)" and "isValid (x_id g)"
    and "isValid by"
  shows "deleteOrganization isValid db now (x_id g) by =
           (Inr (), map (\<lambda>d. if x_id d = x_id g
                             then g\<lparr>isDeleted := True, isActive := False, deletedAt := Some now,
                                     deletedBy := Some by, updatedAt := now\<rparr>
                             else d) db)"
proof -
  have f1: "findOne (\<lambda>d. x_id d = x_id g \<and> \<not> isDeleted d) db = Some g"
    using assms(3,1) by (rule findOne_by_id) (simp_all add: assms(2))
  have u: "updateOne (\<lambda>d. x_id d = x_id g)
             (\<lambda>d. d\<lparr>isDeleted := True, isActive := False, deletedAt := Some now,
                     deletedBy := Some by, updatedAt := now\<rparr>) db
           = map (\<lambda>d. if x_id d = x_id g
                       then d\<lparr>isDeleted := True, isActive := False, deletedAt := Some now,
                               deletedBy := Some by, updatedAt := now\<rparr>
                       else d) db"
    using assms(3,1) by (rule updateOne_by_id) simp_all
  have "\<And>d. d \<in> set db \<Longrightarrow> x_id d = x_id g \<Longrightarrow> d = g"
    using assms(3,1) by (rule distinct_ids_eq)
  then have m: "map (\<lambda>d. if x_id d = x_id g
                       then d\<lparr>isDeleted := True, isActive := False, deletedAt := Some now,
                               deletedBy := Some by, updatedAt := now\<rparr>
                       else d) db
          = map (\<lambda>d. if x_id d = x_id g
                       then g\<lparr>isDeleted := True, isActive := False, deletedAt := Some now,
                               deletedBy := Some by, updatedAt := now\<rparr>
                       else d) db"
    by (intro map_cong) auto
  show ?thesis
    by (simp add: deleteOrganization_def assms(4,5) f1 u m)
qed

lemma restoreOrganization_deleted:
  assumes "k \<in> set db" and "isDeleted k" and "distinct (map x_id db)" and "isValid (x_id k)"
  shows "restoreOrganization isValid db now (x_id k) =
           (Inr (k\<lparr>isDeleted := False, isActive := True, deletedAt := None, deletedBy := None,
                   updatedAt := now\<rparr>),
            map (\<lambda>d. if x_id d = x_id k
                      then k\<lparr>isDeleted := False, isActive := True, deletedAt := None,
                              deletedBy := None, updatedAt := now\<rparr>
                      else d) db)"
proof -
  let ?t = "k\<lparr>isDeleted := False, isActive := True, deletedAt := None, deletedBy := None,
               updatedAt := now\<rparr>"
  have f1: "findOne (\<lambda>d. x_id d = x_id k \<and> isDeleted d) db = Some k"
    using assms(3,1) by (rule findOne_by_id) (simp_all add: assms(2))
  have u: "updateOne (\<lambda>d. x_id d = x_id k \<and> isDeleted d) (\<lambda>_. ?t) db
             = map (\<lambda>d. if x_id d = x_id k then ?t else d) db"
    using assms(3,1) by (rule updateOne_by_id) (simp_all add: assms(2))
  show ?thesis
    by (simp add: restoreOrganization_def assms(4) f1 u Let_def)
qed

text \<open>
  Claim C6, as amended. For an entity \<open>e\<close> that is not deleted, and a soft delete and a
  restore of it that both succeed, the restored entity is \<open>e\<close> with \<open>isActive\<close> set to
  true, \<open>deletedAt\<close> and \<open>deletedBy\<close> cleared and a new \<open>updatedAt\<close>; every other field,
  and every other document of the store, is as before, and the restored entity is in
  the default listing. This holds for the client and the organization services, and
  for the instance methods of a collection document. Restoring an entity that is not
  deleted fails with the 404 error and changes nothing.
\<close>

theorem C6_restore_inverts_softDelete:
  fixes c :: collection
  assumes "\<not> isDeleted c"
    and "e \<in> set clients'" and "\<not> isDeleted e" and "distinct (map x_id clients')"
    and "deleteClient isValid clients' t1 (x_id e) who scope = (Inr (), db1)"
    and "restoreClient isValid db1 t2 (x_id e) scope = (Inr e', db2)"
    and "isValid (client.organizationId e)"
    and "g \<in> set organizations" and "\<not> isDeleted g" and "distinct (map x_id organizations)"
    and "deleteOrganization isValid organizations t1 (x_id g) who = (Inr (), ob1)"
    and "restoreOrganization isValid ob1 t2 (x_id g) = (Inr g', ob2)"
  shows
    "restore t2 (softDelete t1 who c)
       = c\<lparr>isActive := True, deletedAt := None, deletedBy := None, updatedAt := t2\<rparr>
     \<and> e' = e\<lparr>isActive := True, deletedAt := None, deletedBy := None, updatedAt := t2\<rparr>
     \<and> db2 = map (\<lambda>d. if x_id d = x_id e then e' else d) clients'
     \<and> (\<exists>p. getAllClients isValid rx db2 (client.organizationId e) 1 0 noClientFilters = Inr p
            \<and> e' \<in> set (page_clients p))
     \<and> restoreClient isValid clients' t2 (x_id e) scope
         = (Inl (AppError ''Client not found or not deleted'' 404), clients')
     \<and> g' = g\<lparr>isActive := True, deletedAt := None, deletedBy := None, updatedAt := t2\<rparr>
     \<and> ob2 = map (\<lambda>d. if x_id d = x_id g then g' else d) organizations
     \<and> (\<exists>p. getAllOrganizations rx ob2 1 0 noOrganizationFilters = Inr p
            \<and> g' \<in> set (page_organizations p))
     \<and> restoreOrganization isValid organizations t2 (x_id g)
         = (Inl (AppError ''Organization not found or not deleted'' 404), organizations)"
proof -
  let ?del = "\<lambda>d. d\<lparr>isDeleted := True, isActive := False, deletedAt := Some t1,
                      deletedBy := Some who, updatedAt := t1\<rparr>"
  let ?res = "\<lambda>d. d\<lparr>isActive := True, deletedAt := None, deletedBy := None, updatedAt := t2\<rparr>"
  \<comment> \<open>the document methods\<close>
  have A: "restore t2 (softDelete t1 who c) = ?res c"
    using undelete_live[OF assms(1), where ta=t1 and tb=t2 and who=who]
    by (simp add: restore_def softDelete_def)
  \<comment> \<open>clients\<close>
  let ?db1 = "map (\<lambda>d. if x_id d = x_id e then ?del e else d) clients'"
  let ?db2 = "map (\<lambda>d. if x_id d = x_id e then ?res e else d) clients'"
  note d = deleteClient_success[OF assms(5,2) refl assms(4)]
  from d have v: "isValid (x_id e)" and sc: "\<not> invalidOrganization isValid scope"
    and d1: "db1 = ?db1"
    by simp_all
  have m1: "?del e \<in> set ?db1"
    using map_replace_member[OF assms(2), of "\<lambda>_. ?del e"] by simp
  have i1: "distinct (map x_id ?db1)"
    using assms(4) by (simp add: o_def if_distrib cong: if_cong)
  have r0: "restoreClient isValid ?db1 t2 (x_id e) scope = (Inr e', db2)"
    using assms(6) by (simp add: d1)
  have ie: "x_id (?del e) = x_id e" by simp
  note r = restoreClient_success[OF r0 m1 ie i1]
  have u: "(?del e)\<lparr>isDeleted := False, isActive := True, deletedAt := None, deletedBy := None,
                   updatedAt := t2\<rparr> = ?res e"
    by (rule undelete_live[OF assms(3)])
  have B1: "e' = ?res e" using r u by simp
  have tw: "map (\<lambda>d. if x_id d = x_id e then ?res e else d) ?db1 = ?db2"
    by (rule map_replace_twice) simp
  have B2: "db2 = ?db2" using r B1 tw by simp
  have m2: "?res e \<in> set ?db2"
    using map_replace_member[OF assms(2), of "\<lambda>_. ?res e"] by simp
  have l1: "\<exists>p. getAllClients isValid rx ?db2 (client.organizationId e) 1 0 noClientFilters = Inr p
            \<and> ?res e \<in> set (page_clients p)"
    using getAllClients_default_member[OF m2, of isValid rx] assms(3,7) by simp
  have B3: "\<exists>p. getAllClients isValid rx db2 (client.organizationId e) 1 0 noClientFilters = Inr p
            \<and> e' \<in> set (page_clients p)"
    using l1 by (simp add: B1 B2)
  have B2': "db2 = map (\<lambda>d. if x_id d = x_id e then e' else d) clients'"
    using B2 by (simp add: B1)
  have C: "restoreClient isValid clients' t2 (x_id e) scope
         = (Inl (AppError ''Client not found or not deleted'' 404), clients')"
    using assms(2,3,4) v sc by (rule restoreClient_live)
  \<comment> \<open>organizations\<close>
  let ?ob1 = "map (\<lambda>d. if x_id d = x_id g then ?del g else d) organizations"
  let ?ob2 = "map (\<lambda>d. if x_id d = x_id g then ?res g else d) organizations"
  note o = deleteOrganization_success[OF assms(11,8) refl assms(10)]
  from o have w: "isValid (x_id g)" and o1: "ob1 = ?ob1" by simp_all
  have n1: "?del g \<in> set ?ob1"
    using map_replace_member[OF assms(8), of "\<lambda>_. ?del g"] by simp
  have j1: "distinct (map x_id ?ob1)"
    using assms(10) by (simp add: o_def if_distrib cong: if_cong)
  have s0: "restoreOrganization isValid ?ob1 t2 (x_id g) = (Inr g', ob2)"
    using assms(12) by (simp add: o1)
  have ig: "x_id (?del g) = x_id g" by simp
  note s = restoreOrganization_success[OF s0 n1 ig j1]
  have x: "(?del g)\<lparr>isDeleted := False, isActive := True, deletedAt := None, deletedBy := None,
                   updatedAt := t2\<rparr> = ?res g"
    by (rule undelete_live[OF assms(9)])
  have D1: "g' = ?res g" using s x by simp
  have tv: "map (\<lambda>d. if x_id d = x_id g then ?res g else d) ?ob1 = ?ob2"
    by (rule map_replace_twice) simp
  have D2: "ob2 = ?ob2" using s D1 tv by simp
  have n2: "?res g \<in> set ?ob2"
    using map_replace_member[OF assms(8), of "\<lambda>_. ?res g"] by simp
  have l2: "\<exists>p. getAllOrganizations rx ?ob2 1 0 noOrganizationFilters = Inr p
            \<and> ?res g \<in> set (page_organizations p)"
    using getAllOrganizations_default_member[OF n2, of rx] assms(9) by simp
  have D3: "\<exists>p. getAllOrganizations rx ob2 1 0 noOrganizationFilters = Inr p
            \<and> g' \<in> set (page_organizations p)"
    using l2 by (simp add: D1 D2)
  have D2': "ob2 = map (\<lambda>d. if x_id d = x_id g then g' else d) organizations"
    using D2 by (simp add: D1)
  have E: "restoreOrganization isValid organizations t2 (x_id g)
         = (Inl (AppError ''Organization not found or not deleted'' 404), organizations)"
    using assms(8,9,10) w by (rule restoreOrganization_live)
  show ?thesis
    using A B1 B2' B3 C D1 D2' D3 E by (intro conjI)
qed

text \<open>
  Claim C6 as stated fails: a client that is not deleted and was deactivated by an
  update (\<open>isActive\<close> false) comes back from soft delete and restore with \<open>isActive\<close>
  true, a field that the claim does not except.
\<close>

theorem C6_deactivated_client_counterexample:
  "\<not> isDeleted ((exampleClient oidA ''a@x.io'' None oidB)\<lparr>isActive := False\<rparr>)
   \<and> \<not> isActive ((exampleClient oidA ''a@x.io'' None oidB)\<lparr>isActive := False\<rparr>)
   \<and> deleteClient objectIdPattern [(exampleClient oidA ''a@x.io'' None oidB)\<lparr>isActive := False\<rparr>]
        5 oidA oidC (Some oidB)
       = (Inr (), [softDelete 5 oidC ((exampleClient oidA ''a@x.io'' None oidB)\<lparr>isActive := False\<rparr>)])
   \<and> restoreClient objectIdPattern
        [softDelete 5 oidC ((exampleClient oidA ''a@x.io'' None oidB)\<lparr>isActive := False\<rparr>)]
        9 oidA (Some oidB)
       = (Inr ((exampleClient oidA ''a@x.io'' None oidB)\<lparr>updatedAt := 9\<rparr>),
          [(exampleClient oidA ''a@x.io'' None oidB)\<lparr>updatedAt := 9\<rparr>])
   \<and> isActive ((exampleClient oidA ''a@x.io'' None oidB)\<lparr>updatedAt := 9\<rparr>)"
  by (simp add: deleteClient_def restoreClient_def softDelete_def exampleClient_def oid_valid
        oid_distinct findOne_def clientQuery_def invalidOrganization_def Client_duplicateKey_def
        Let_def)

text \<open>
  One collection document, one client and one organization, deleted and restored; and
  the restore of the client and of the organization while they are not deleted.
\<close>

theorem C6_restore_inverts_softDelete_witness:
  "\<not> isDeleted (exampleCollection oidA ''COL202401070001'' oidB oidD oidC)
   \<and> \<not> isDeleted (exampleClient oidA ''a@x.io'' None oidB)
   \<and> \<not> isDeleted (exampleOrganization oidB ''o@x.io'')
   \<and> objectIdPattern (client.organizationId (exampleClient oidA ''a@x.io'' None oidB))
   \<and> deleteClient objectIdPattern [exampleClient oidA ''a@x.io'' None oidB] 5 oidA oidC (Some oidB)
       = (Inr (), [softDelete 5 oidC (exampleClient oidA ''a@x.io'' None oidB)])
   \<and> restoreClient objectIdPattern [softDelete 5 oidC (exampleClient oidA ''a@x.io'' None oidB)]
        9 oidA (Some oidB)
       = (Inr ((exampleClient oidA ''a@x.io'' None oidB)\<lparr>updatedAt := 9\<rparr>),
          [(exampleClient oidA ''a@x.io'' None oidB)\<lparr>updatedAt := 9\<rparr>])
   \<and> deleteOrganization objectIdPattern [exampleOrganization oidB ''o@x.io''] 5 oidB oidC
       = (Inr (), [softDelete 5 oidC (exampleOrganization oidB ''o@x.io'')])
   \<and> restoreOrganization objectIdPattern [softDelete 5 oidC (exampleOrganization oidB ''o@x.io'')]
        9 oidB
       = (Inr ((exampleOrganization oidB ''o@x.io'')\<lparr>updatedAt := 9\<rparr>),
          [(exampleOrganization oidB ''o@x.io'')\<lparr>updatedAt := 9\<rparr>])
   \<and> restore 9 (softDelete 5 oidC (exampleCollection oidA ''COL202401070001'' oidB oidD oidC))
       = (exampleCollection oidA ''COL202401070001'' oidB oidD oidC)
           \<lparr>isActive := True, deletedAt := None, deletedBy := None, updatedAt := 9\<rparr>
   \<and> (exampleClient oidA ''a@x.io'' None oidB)\<lparr>updatedAt := 9\<rparr>
       = (exampleClient oidA ''a@x.io'' None oidB)
           \<lparr>isActive := True, deletedAt := None, deletedBy := None, updatedAt := 9\<rparr>
   \<and> restoreClient objectIdPattern [exampleClient oidA ''a@x.io'' None oidB] 9 oidA (Some oidB)
       = (Inl (AppError ''Client not found or not deleted'' 404),
          [exampleClient oidA ''a@x.io'' None oidB])
   \<and> restoreOrganization objectIdPattern [exampleOrganization oidB ''o@x.io''] 9 oidB
       = (Inl (AppError ''Organization not found or not deleted'' 404),
          [exampleOrganization oidB ''o@x.io''])"
proof -
  let ?c = "exampleCollection oidA ''COL202401070001'' oidB oidD oidC"
  let ?e = "exampleClient oidA ''a@x.io'' None oidB"
  let ?g = "exampleOrganization oidB ''o@x.io''"
  have ie: "x_id ?e = oidA" and oe: "client.organizationId ?e = oidB"
    by (simp_all add: exampleClient_def)
  have ig: "x_id ?g = oidB" by (simp add: exampleOrganization_def)
  have h1: "\<not> isDeleted ?c" by (simp add: exampleCollection_def)
  have h3: "\<not> isDeleted ?e" by (simp add: exampleClient_def)
  have h9: "\<not> isDeleted ?g" by (simp add: exampleOrganization_def)
  have h7: "objectIdPattern (client.organizationId ?e)" by (simp add: oe oid_valid)
  have k: "?e \<in> set [?e]" "distinct (map x_id [?e])" "?g \<in> set [?g]" "distinct (map x_id [?g])"
    by simp_all
  have d: "deleteClient objectIdPattern [?e] 5 oidA oidC (Some oidB)
      = (Inr (), [softDelete 5 oidC ?e])"
    by (simp add: deleteClient_def softDelete_def exampleClient_def oid_valid oid_distinct
          findOne_def clientQuery_def invalidOrganization_def Client_duplicateKey_def Let_def)
  have r: "restoreClient objectIdPattern [softDelete 5 oidC ?e] 9 oidA (Some oidB)
      = (Inr (?e\<lparr>updatedAt := 9\<rparr>), [?e\<lparr>updatedAt := 9\<rparr>])"
    by (simp add: restoreClient_def softDelete_def exampleClient_def oid_valid oid_distinct
          findOne_def clientQuery_def invalidOrganization_def Client_duplicateKey_def Let_def)
  have dg: "deleteOrganization objectIdPattern [?g] 5 oidB oidC = (Inr (), [softDelete 5 oidC ?g])"
    by (simp add: deleteOrganization_def softDelete_def exampleOrganization_def oid_valid
          findOne_def)
  have rg: "restoreOrganization objectIdPattern [softDelete 5 oidC ?g] 9 oidB
      = (Inr (?g\<lparr>updatedAt := 9\<rparr>), [?g\<lparr>updatedAt := 9\<rparr>])"
    by (simp add: restoreOrganization_def softDelete_def exampleOrganization_def oid_valid
          findOne_def Let_def)
  note t = C6_restore_inverts_softDelete[where isValid = objectIdPattern and rx = "\<lambda>p s. True"
      and c = ?c and e = ?e and g = ?g and ?t1.0 = 5 and ?t2.0 = 9 and who = oidC
      and scope = "Some oidB", unfolded ie ig, OF h1 k(1) h3 k(2) d r h7 k(3) h9 k(4) dg rg]
  from t have c1: "restore 9 (softDelete 5 oidC ?c)
       = ?c\<lparr>isActive := True, deletedAt := None, deletedBy := None, updatedAt := 9\<rparr>"
    by (rule conjunct1)
  from t have c2: "?e\<lparr>updatedAt := 9\<rparr>
       = ?e\<lparr>isActive := True, deletedAt := None, deletedBy := None, updatedAt := 9\<rparr>"
    by blast
  from t have c3: "restoreClient objectIdPattern [?e] 9 oidA (Some oidB)
       = (Inl (AppError ''Client not found or not deleted'' 404), [?e])"
    by blast
  from t have c4: "restoreOrganization objectIdPattern [?g] 9 oidB
       = (Inl (AppError ''Organization not found or not deleted'' 404), [?g])"
    by blast
  show ?thesis
    using h1 h3 h9 h7 d r dg rg c1 c2 c3 c4 by (intro conjI)
qed

subsection \<open>Client emails\<close>

text \<open>
  An email that a client of the organization holds who is not deleted is refused with
  the 400 error, and nothing is stored. The email of the request is compared as the
  schema casts it, trimmed and in lower case, which is how the store holds emails.
\<close>

lemma createClient_conflict:
  assumes "isValid (newCl_organizationId data)"
    and "d \<in> set db" and "client.email d = toLowerCase (trim (newCl_email data))"
    and "client.organizationId d = newCl_organizationId data" and "\<not> isDeleted d"
  shows "createClient isValid db now newId data
           = (Inl (AppError ''Client with this email already exists in the organization'' 400), db)"
proof -
  let ?q = "\<lambda>d. client.email d = toLowerCase (trim (newCl_email data))
              \<and> client.organizationId d = newCl_organizationId data \<and> \<not> isDeleted d"
  have "?q d" using assms(3-5) by simp
  with assms(2) obtain x where "findOne ?q db = Some x"
    using findOne_some[of d db ?q] by blast
  then show ?thesis
    by (simp add: createClient_def assms(1))
qed

text \<open>
  A client that is created is appended to the store, with its email trimmed and in
  lower case; its data have passed the validators and the unique indexes have admitted
  it, where a client without a code has the code \<open>null\<close>.
\<close>

lemma createClient_created:
  assumes "isValid (newCl_organizationId data)" and "isValid (newCl_createdBy data)"
    and "fst (createClient isValid db now newId data) = Inr c"
  shows "createClient isValid db now newId data = (Inr c, db @ [c])
     \<and> x_id c = newId \<and> client.email c = toLowerCase (trim (newCl_email data))
     \<and> client.organizationId c = newCl_organizationId data \<and> \<not> isDeleted c \<and> isActive c
     \<and> Client_valid c \<and> \<not> Client_duplicateKey db c"
  using assms(3)
  by (auto simp: createClient_def assms(1,2) Let_def Client_setters_document
        split: option.splits if_splits)

text \<open>
  Claim C7, at an email that is free in the organization of the new client. The email
  \<open>a@x.io\<close> belongs to a client of organization A; organization B has one client, with
  another email; neither client has a client code. Creating a client with the email
  \<open>a@x.io\<close> in organization B, without a client code and with valid data, succeeds by
  the claim. The store refuses it with a duplicate key of the unique index on
  \<open>(clientCode, organizationId, isDeleted)\<close>, and the service answers with status 500:
  the index is declared sparse, but a compound sparse index holds every document that
  has one of its fields, so the two clients without a code collide.
\<close>

theorem C7_second_client_without_code_refused:
  "client.email (exampleClient oidD ''b@x.io'' None oidB) \<noteq> ''a@x.io''
   \<and> client.organizationId (exampleClient oidC ''a@x.io'' None oidA)
       \<noteq> newCl_organizationId (exampleNewClient ''a@x.io'' None oidB)
   \<and> Client_valid (Client_setters (exampleClient oidE ''a@x.io'' None oidB))
   \<and> createClient objectIdPattern
        [exampleClient oidC ''a@x.io'' None oidA, exampleClient oidD ''b@x.io'' None oidB]
        9 oidE (exampleNewClient ''a@x.io'' None oidB)
       = (Inl (AppError ''E11000 duplicate key error'' 500),
          [exampleClient oidC ''a@x.io'' None oidA, exampleClient oidD ''b@x.io'' None oidB])"
proof -
  let ?k1 = "exampleClient oidC ''a@x.io'' None oidA"
  let ?k2 = "exampleClient oidD ''b@x.io'' None oidB"
  let ?n = "exampleNewClient ''a@x.io'' None oidB"
  have a: "client.email ?k2 \<noteq> ''a@x.io''" by (simp add: exampleClient_def)
  have b: "client.organizationId ?k1 \<noteq> newCl_organizationId ?n"
    by (simp add: exampleClient_def exampleNewClient_def oid_distinct)
  have v: "Client_valid (Client_setters (exampleClient oidE ''a@x.io'' None oidB))"
    by (simp add: exampleClient_setters exampleClient_valid)
  have c: "createClient objectIdPattern [?k1, ?k2] 9 oidE ?n
       = (Inl (AppError ''E11000 duplicate key error'' 500), [?k1, ?k2])"
    by (simp add: createClient_def exampleNewClient_def exampleClient_def oid_valid oid_distinct
          findOne_def Client_duplicateKey_def Let_def Client_setters_def Address_trim_def
          example_strings Client_valid_def Address_valid_def maxlength_def required_def
          emptyOr_def example_regex)
  from a b v c show ?thesis by simp
qed

subsection \<open>Organization scope\<close>

lemma paginate_subset:
  assumes "paginate page limit xs = Inr ys"
  shows "set ys \<subseteq> set xs"
proof -
  have "set (limitTo limit (drop ((page - 1) * limit) xs)) \<subseteq> set xs"
    by (auto simp: limitTo_def dest: in_set_takeD in_set_dropD)
  with assms show ?thesis by (auto simp: paginate_def split: if_splits)
qed

lemma getCollections_members:
  assumes "getCollections db filters page limit = Inr (cs, n)" and "c \<in> set cs"
  shows "c \<in> set db \<and> collectionsFilter filters c"
proof -
  from assms(1) have "paginate page limit (sortDesc dateTime (filter (collectionsFilter filters) db)) = Inr cs"
    by (auto simp: getCollections_def split: sum.splits)
  then have "set cs \<subseteq> set (sortDesc dateTime (filter (collectionsFilter filters) db))"
    by (rule paginate_subset)
  with assms(2) show ?thesis by (auto simp: set_sortDesc)
qed

lemma getAllClients_members:
  assumes "getAllClients isValid rx db org page limit filters = Inr p" and "c \<in> set (page_clients p)"
  shows "c \<in> set db \<and> clientsQuery rx org filters c"
proof -
  from assms(1) obtain cs where
    p: "paginate page limit (sortDesc createdAt (filter (clientsQuery rx org filters) db)) = Inr cs"
    and "page_clients p = cs"
    by (auto simp: getAllClients_def split: if_splits sum.splits)
  from p have "set cs \<subseteq> set (sortDesc createdAt (filter (clientsQuery rx org filters) db))"
    by (rule paginate_subset)
  with assms(2) \<open>page_clients p = cs\<close> show ?thesis by (auto simp: set_sortDesc)
qed


text \<open>
  The services keep to the organization they are given: a collection or a client of
  another organization is not found (404) and is in no listing.
\<close>

lemma getCollectionById_other_organization:
  assumes "c \<in> set db" and "distinct (map x_id db)" and "collection.organizationId c \<noteq> org"
  shows "getCollectionById users clients' db (x_id c) org = Inl (AppError ''Collection not found'' 404)"
proof -
  have "findOne (\<lambda>d. x_id d = x_id c \<and> collection.organizationId d = org \<and> \<not> isDeleted d) db = None"
    using assms(2,1) by (rule findOne_none_by_id) (simp_all add: assms(3))
  then show ?thesis by (simp add: getCollectionById_def)
qed

lemma getCollections_other_organization:
  assumes "getCollections db filters page limit = Inr (cs, n)"
    and "collection.organizationId c \<noteq> flt_organizationId filters"
  shows "c \<notin> set cs"
  using getCollections_members[OF assms(1), of c] assms(2) by (auto simp: collectionsFilter_def)

lemma getClientById_other_organization:
  assumes "k \<in> set db" and "distinct (map x_id db)" and "client.organizationId k \<noteq> org"
    and "org \<noteq> []" and "isValid (x_id k)" and "isValid org"
  shows "getClientById isValid db (x_id k) (Some org) = Inl (AppError ''Client not found'' 404)"
proof -
  have "findOne (clientQuery (x_id k) False (Some org)) db = None"
    using assms(2,1) by (rule findOne_none_by_id) (simp_all add: clientQuery_def assms(3,4))
  then show ?thesis
    by (simp add: getClientById_def assms(5,6) invalidOrganization_def)
qed

lemma getAllClients_other_organization:
  assumes "getAllClients isValid rx db org page limit filters = Inr p"
    and "client.organizationId k \<noteq> org"
  shows "k \<notin> set (page_clients p)"
  using getAllClients_members[OF assms(1), of k] assms(2) by (auto simp: clientsQuery_def)

text \<open>
  Claim C8, at a supervisor of organization A who fetches a client of organization B
  under the path of the own organization A. The claim answers 404, and so does the
  client service for this id and this organization. The route answers 403:
  \<open>checkOrganizationAccess\<close> reads \<open>user.organizationId\<close>, a path that the user schema
  does not have (the organization of a user is \<open>user.organization\<close>), and so refuses
  every actor who is not an admin, also under the path of the actor's own organization.
\<close>

theorem C8_own_organization_path_refused:
  "organization (exampleUser oidC Supervisor oidA []) = Some oidA
   \<and> role (exampleUser oidC Supervisor oidA []) = Some Supervisor
   \<and> client.organizationId (exampleClient oidD ''a@x.io'' None oidB) = oidB
   \<and> getClientById objectIdPattern [exampleClient oidD ''a@x.io'' None oidB] oidD (Some oidA)
       = Inl (AppError ''Client not found'' 404)
   \<and> route_get_client objectIdPattern [exampleUser oidC Supervisor oidA []]
        [exampleClient oidD ''a@x.io'' None oidB] (Some (exampleUser oidC Supervisor oidA []))
        oidA oidD
       = Inl (AppError ''Access denied. You can only access resources from your organization'' 403)
   \<and> route_get_clients objectIdPattern (\<lambda>p s. True) [exampleUser oidC Supervisor oidA []]
        [exampleClient oidD ''a@x.io'' None oidB] (Some (exampleUser oidC Supervisor oidA []))
        oidA None None noClientFilters
       = Inl (AppError ''Access denied. You can only access resources from your organization'' 403)"
proof -
  let ?u = "exampleUser oidC Supervisor oidA []"
  let ?k = "exampleClient oidD ''a@x.io'' None oidB"
  have f: "organization ?u = Some oidA" "role ?u = Some Supervisor"
    "client.organizationId ?k = oidB"
    by (simp_all add: exampleUser_def exampleClient_def)
  have ik: "x_id ?k = oidD" by (simp add: exampleClient_def)
  have g: "getClientById objectIdPattern [?k] oidD (Some oidA) = Inl (AppError ''Client not found'' 404)"
    using getClientById_other_organization[of ?k "[?k]" oidA objectIdPattern]
    by (simp add: ik f oid_valid oid_distinct)
  have e: "checkOrganizationAccess objectIdPattern [?u] (Some ?u) (Some oidA)
       = Inl (AppError ''Access denied. You can only access resources from your organization'' 403)"
    by (simp add: checkOrganizationAccess_def givenString_def findById_def findOne_def
          user_organizationId_def exampleUser_def oid_valid oid_distinct)
  have r: "route_get_client objectIdPattern [?u] [?k] (Some ?u) oidA oidD
       = Inl (AppError ''Access denied. You can only access resources from your organization'' 403)"
    by (simp add: route_get_client_def e)
  have l: "route_get_clients objectIdPattern (\<lambda>p s. True) [?u] [?k] (Some ?u) oidA None None
        noClientFilters
       = Inl (AppError ''Access denied. You can only access resources from your organization'' 403)"
    by (simp add: route_get_clients_def e)
  from f g r l show ?thesis by simp
qed

subsection \<open>Statistics\<close>

lemma foldl_upd_table:
  "foldl (\<lambda>m item. m(fst item \<mapsto> snd item)) m0 (map (\<lambda>k. (k, f k)) ks)
     = (\<lambda>k. if k \<in> set ks then Some (f k) else m0 k)"
proof (induction ks arbitrary: m0)
  case Nil
  then show ?case by simp
next
  case (Cons a ks)
  let ?F = "\<lambda>m item. m(fst item \<mapsto> snd item)"
  have "foldl ?F m0 (map (\<lambda>k. (k, f k)) (a # ks)) = foldl ?F (m0(a \<mapsto> f a)) (map (\<lambda>k. (k, f k)) ks)"
    by simp
  also have "\<dots> = (\<lambda>k. if k \<in> set ks then Some (f k) else (m0(a \<mapsto> f a)) k)"
    by (rule Cons.IH)
  also have "\<dots> = (\<lambda>k. if k \<in> set (a # ks) then Some (f k) else m0 k)"
    by (auto simp: fun_eq_iff)
  finally show ?case .
qed

lemma statusCounts_table:
  "foldl (\<lambda>m item. m(fst item \<mapsto> snd item)) Map.empty (groupByStatus cs)
     = (\<lambda>k. if k \<in> status ` set cs then Some (length (filter (\<lambda>c. status c = k) cs)) else None)"
  by (simp add: groupByStatus_def foldl_upd_table)

lemma sum_group_sizes:
  "(\<Sum>k \<in> f ` set xs. length (filter (\<lambda>c. f c = k) xs)) = length xs"
proof (induction xs)
  case Nil
  then show ?case by simp
next
  case (Cons a xs)
  let ?A = "f ` set xs"
  have fin: "finite ?A" by simp
  have split: "(\<Sum>k \<in> insert (f a) ?A. length (filter (\<lambda>c. f c = k) (a # xs)))
      = (\<Sum>k \<in> insert (f a) ?A. length (filter (\<lambda>c. f c = k) xs) + (if k = f a then 1 else 0))"
    by (intro sum.cong) auto
  also have "\<dots> = (\<Sum>k \<in> insert (f a) ?A. length (filter (\<lambda>c. f c = k) xs))
                  + (\<Sum>k \<in> insert (f a) ?A. if k = f a then 1 else 0)"
    by (simp add: sum.distrib)
  also have "(\<Sum>k \<in> insert (f a) ?A. if k = f a then 1 else 0) = (1::nat)"
    using fin by (simp add: sum.delta')
  also have "(\<Sum>k \<in> insert (f a) ?A. length (filter (\<lambda>c. f c = k) xs))
               = (\<Sum>k \<in> ?A. length (filter (\<lambda>c. f c = k) xs))"
  proof (cases "f a \<in> ?A")
    case True
    then show ?thesis by (simp add: insert_absorb)
  next
    case False
    have "\<forall>x \<in> set xs. f x \<noteq> f a"
    proof (intro ballI notI)
      fix x assume "x \<in> set xs" and "f x = f a"
      then have "f a \<in> f ` set xs" by (metis imageI)
      with False show False by simp
    qed
    then have "filter (\<lambda>c. f c = f a) xs = []"
      by (simp add: filter_empty_conv)
    with False fin show ?thesis by simp
  qed
  finally show ?case using Cons.IH by simp
qed

lemma sortDesc_sorted: "sorted (map (\<lambda>d. - int (key d)) (sortDesc key xs))"
  by (simp add: sortDesc_def)

lemma sortDesc_take_recent:
  assumes "r \<in> set (take n (sortDesc key xs))" and "c \<in> set xs"
    and "c \<notin> set (take n (sortDesc key xs))"
  shows "key c \<le> key r"
proof -
  let ?S = "sortDesc key xs"
  let ?g = "\<lambda>d. - int (key d)"
  have "c \<in> set ?S" using assms(2) by (simp add: set_sortDesc)
  then have "c \<in> set (take n ?S) \<union> set (drop n ?S)"
    by (metis append_take_drop_id set_append)
  with assms(3) have c: "c \<in> set (drop n ?S)" by simp
  have "sorted (map ?g (take n ?S) @ map ?g (drop n ?S))"
    using sortDesc_sorted[of key xs] by (metis append_take_drop_id map_append)
  then have "\<forall>x \<in> set (map ?g (take n ?S)). \<forall>y \<in> set (map ?g (drop n ?S)). x \<le> y"
    by (simp add: sorted_append)
  with assms(1) c have "?g r \<le> ?g c" by auto
  then show ?thesis by simp
qed


lemma aggregateMatch_baseFilter:
  assumes "case filters of None \<Rightarrow> True
           | Some f \<Rightarrow> \<not> givenString (st_clientId f) \<and> \<not> givenString (st_collectedBy f)"
  shows "aggregateMatch org filters = baseFilter org filters"
  using assms by (auto simp: aggregateMatch_def baseFilter_def fun_eq_iff split: option.splits)

lemma aggregateMatch_subset: "aggregateMatch org filters c \<Longrightarrow> baseFilter org filters c"
  by (auto simp: aggregateMatch_def baseFilter_def stringEqualsObjectId_def
        split: option.splits if_splits)

text \<open>
  Claim C9, as amended. The total is the number of collections that match the filter,
  and the recent collections are at most ten of them, latest first, none older than a
  matching collection that is left out. The mapping has no entry with the count zero:
  a status has an entry only when a collection of this status matches. When the
  filters name neither a client nor a collector, the mapping has an entry exactly for
  the status values that occur among the matching collections, each with the number
  of its collections, so its values sum to the total.
\<close>

theorem C9_stats_consistent:
  "(let s = getCollectionStats db org filters; matching = filter (baseFilter org filters) db in
      totalCollections s = length matching
      \<and> (\<forall>k n. statusCounts s k = Some n \<longrightarrow> 0 < n \<and> k \<in> status ` set matching)
      \<and> length (recentCollections s) = min 10 (length matching)
      \<and> set (recentCollections s) \<subseteq> set matching
      \<and> sorted (map (\<lambda>c. - int (dateTime c)) (recentCollections s))
      \<and> (\<forall>r \<in> set (recentCollections s). \<forall>c \<in> set matching.
            c \<notin> set (recentCollections s) \<longrightarrow> dateTime c \<le> dateTime r)
      \<and> ((case filters of
             None \<Rightarrow> True
           | Some f \<Rightarrow> \<not> givenString (st_clientId f) \<and> \<not> givenString (st_collectedBy f))
          \<longrightarrow> (\<forall>k. statusCounts s k =
                     (if k \<in> status ` set matching
                      then Some (length (filter (\<lambda>c. status c = k) matching)) else None))
              \<and> (\<Sum>k \<in> dom (statusCounts s). the (statusCounts s k)) = totalCollections s))"
proof -
  let ?M = "filter (baseFilter org filters) db"
  let ?A = "filter (aggregateMatch org filters) db"
  let ?s = "getCollectionStats db org filters"
  have t: "totalCollections ?s = length ?M"
    by (simp add: getCollectionStats_def Let_def)
  have sc: "statusCounts ?s = (\<lambda>k. if k \<in> status ` set ?A
                then Some (length (filter (\<lambda>c. status c = k) ?A)) else None)"
    by (simp add: getCollectionStats_def Let_def statusCounts_table)
  have rc: "recentCollections ?s = take 10 (sortDesc dateTime ?M)"
    by (simp add: getCollectionStats_def Let_def)
  have sub: "set ?A \<subseteq> set ?M"
    using aggregateMatch_subset by auto
  have pos: "\<forall>k n. statusCounts ?s k = Some n \<longrightarrow> 0 < n \<and> k \<in> status ` set ?M"
  proof (intro allI impI)
    fix k n assume "statusCounts ?s k = Some n"
    then have k: "k \<in> status ` set ?A" and n: "n = length (filter (\<lambda>c. status c = k) ?A)"
      by (auto simp: sc split: if_splits)
    from k obtain c where c: "c \<in> set ?A" "status c = k" by auto
    then have "filter (\<lambda>c. status c = k) ?A \<noteq> []"
      by (auto simp: filter_empty_conv)
    moreover from c sub have "k \<in> status ` set ?M" by blast
    ultimately show "0 < n \<and> k \<in> status ` set ?M" using n by simp
  qed
  have ln: "length (recentCollections ?s) = min 10 (length ?M)"
    by (simp add: rc sortDesc_def min.commute)
  have sb: "set (recentCollections ?s) \<subseteq> set ?M"
    unfolding rc using set_take_subset[of 10 "sortDesc dateTime ?M"] by (simp add: set_sortDesc)
  have so: "sorted (map (\<lambda>c. - int (dateTime c)) (recentCollections ?s))"
    unfolding rc using sortDesc_sorted[of dateTime ?M]
    by (simp add: take_map[symmetric] sorted_wrt_take)
  have rr: "\<forall>r \<in> set (recentCollections ?s). \<forall>c \<in> set ?M.
            c \<notin> set (recentCollections ?s) \<longrightarrow> dateTime c \<le> dateTime r"
    unfolding rc using sortDesc_take_recent[of _ 10 dateTime ?M] by blast
  have un: "(\<forall>k. statusCounts ?s k =
                     (if k \<in> status ` set ?M
                      then Some (length (filter (\<lambda>c. status c = k) ?M)) else None))
              \<and> (\<Sum>k \<in> dom (statusCounts ?s). the (statusCounts ?s k)) = totalCollections ?s"
    if h: "case filters of None \<Rightarrow> True
           | Some f \<Rightarrow> \<not> givenString (st_clientId f) \<and> \<not> givenString (st_collectedBy f)"
  proof -
    have e: "?A = ?M" using aggregateMatch_baseFilter[OF h] by simp
    have sc': "statusCounts ?s = (\<lambda>k. if k \<in> status ` set ?M
                then Some (length (filter (\<lambda>c. status c = k) ?M)) else None)"
      using sc by (simp only: e)
    have dm: "dom (statusCounts ?s) = status ` set ?M"
      by (auto simp: sc' dom_def split: if_splits)
    have "(\<Sum>k \<in> dom (statusCounts ?s). the (statusCounts ?s k))
          = (\<Sum>k \<in> status ` set ?M. length (filter (\<lambda>c. status c = k) ?M))"
      unfolding dm by (intro sum.cong) (simp_all add: sc')
    also have "\<dots> = length ?M" by (rule sum_group_sizes)
    finally have "(\<Sum>k \<in> dom (statusCounts ?s). the (statusCounts ?s k)) = totalCollections ?s"
      by (simp add: t)
    with sc' show ?thesis by simp
  qed
  have un': "(case filters of
             None \<Rightarrow> True
           | Some f \<Rightarrow> \<not> givenString (st_clientId f) \<and> \<not> givenString (st_collectedBy f))
          \<longrightarrow> (\<forall>k. statusCounts ?s k =
                     (if k \<in> status ` set ?M
                      then Some (length (filter (\<lambda>c. status c = k) ?M)) else None))
              \<and> (\<Sum>k \<in> dom (statusCounts ?s). the (statusCounts ?s k)) = totalCollections ?s"
    using un by (rule impI)
  show ?thesis
    unfolding Let_def using t pos ln sb so rr un' by (intro conjI)
qed

text \<open>
  Claim C9 as stated fails: with one pending collection the mapping has no entry for
  \<open>delivered\<close> (not an entry with zero).
\<close>

theorem C9_missing_status_counterexample:
  "status (exampleCollection oidA ''COL202401070001'' oidB oidD oidC) = Some pending
   \<and> totalCollections
        (getCollectionStats [exampleCollection oidA ''COL202401070001'' oidB oidD oidC] oidB None) = 1
   \<and> statusCounts
        (getCollectionStats [exampleCollection oidA ''COL202401070001'' oidB oidD oidC] oidB None)
        (Some pending) = Some 1
   \<and> statusCounts
        (getCollectionStats [exampleCollection oidA ''COL202401070001'' oidB oidD oidC] oidB None)
        (Some delivered) = None"
  by (simp add: getCollectionStats_def baseFilter_def aggregateMatch_def groupByStatus_def
        exampleCollection_def)

text \<open>The statistics of a store with one pending collection, without filters.\<close>

theorem C9_stats_consistent_witness:
  "totalCollections
        (getCollectionStats [exampleCollection oidA ''COL202401070001'' oidB oidD oidC] oidB None) = 1
   \<and> (\<Sum>k \<in> dom (statusCounts
           (getCollectionStats [exampleCollection oidA ''COL202401070001'' oidB oidD oidC] oidB None)).
         the (statusCounts
           (getCollectionStats [exampleCollection oidA ''COL202401070001'' oidB oidD oidC] oidB None) k))
       = 1
   \<and> statusCounts
        (getCollectionStats [exampleCollection oidA ''COL202401070001'' oidB oidD oidC] oidB None)
        (Some pending) = Some 1
   \<and> length (recentCollections
        (getCollectionStats [exampleCollection oidA ''COL202401070001'' oidB oidD oidC] oidB None)) = 1"
proof -
  let ?c = "exampleCollection oidA ''COL202401070001'' oidB oidD oidC"
  let ?s = "getCollectionStats [?c] oidB None"
  have m: "filter (baseFilter oidB None) [?c] = [?c]"
    by (simp add: baseFilter_def exampleCollection_def)
  have p: "status ?c = Some pending" by (simp add: exampleCollection_def)
  have h0: "case (None :: statsFilters option) of
              None \<Rightarrow> True
            | Some f \<Rightarrow> \<not> givenString (st_clientId f) \<and> \<not> givenString (st_collectedBy f)"
    by simp
  note t = C9_stats_consistent[of "[?c]" oidB None, unfolded Let_def m]
  note t7 = t[THEN conjunct2, THEN conjunct2, THEN conjunct2, THEN conjunct2, THEN conjunct2,
      THEN conjunct2, THEN mp, OF h0]
  have a: "totalCollections ?s = 1"
    using t[THEN conjunct1] by simp
  have "(\<Sum>k \<in> dom (statusCounts ?s). the (statusCounts ?s k)) = totalCollections ?s"
    using t7 by (rule conjunct2)
  with a have b: "(\<Sum>k \<in> dom (statusCounts ?s). the (statusCounts ?s k)) = 1"
    by (simp only:)
  have "statusCounts ?s (Some pending) =
      (if Some pending \<in> status ` set [?c]
       then Some (length (filter (\<lambda>c. status c = Some pending) [?c])) else None)"
    using t7[THEN conjunct1] by (rule spec)
  then have c: "statusCounts ?s (Some pending) = Some 1" by (simp add: p)
  have d: "length (recentCollections ?s) = 1"
    using t[THEN conjunct2, THEN conjunct2, THEN conjunct1] by simp
  from a b c d show ?thesis by (intro conjI)
qed

subsection \<open>The deletion flags\<close>

lemma updateOne_pred:
  assumes "\<forall>d \<in> set xs. Q d" and "\<And>d. d \<in> set xs \<Longrightarrow> p d \<Longrightarrow> Q (f d)"
  shows "\<forall>d \<in> set (updateOne p f xs). Q d"
  using assms by (induction xs) auto

lemma setPath_isDeleted:
  assumes "\<And>v d. isDeleted (f v d) = isDeleted d"
  shows "isDeleted (setPath g f r) = isDeleted r"
  using assms by (simp add: setPath_def split: option.split)

lemma Organization_set_isDeleted: "isDeleted (Organization_set u c) = isDeleted c"
  by (simp add: Organization_set_def setPath_isDeleted)

lemma Client_set_isDeleted: "isDeleted (Client_set u c) = isDeleted c"
  by (simp add: Client_set_def setPath_isDeleted)

lemma assignUpdate_flags: "isDeleted (assignUpdate u c) = isDeleted c"
  by (simp add: assignUpdate_def Let_def split: option.split)

lemma createOrganization_flags:
  assumes "\<forall>d \<in> set db. flagsConsistent d"
  shows "\<forall>d \<in> set (snd (createOrganization isValid db now newId x)). flagsConsistent d"
  using assms
  by (auto simp: createOrganization_def Let_def flagsConsistent_def Organization_setters_document
        split: option.splits)

lemma updateOrganization_flags:
  assumes "\<forall>d \<in> set db. flagsConsistent d"
  shows "\<forall>d \<in> set (snd (updateOrganization isValid db now i x)). flagsConsistent d"
proof -
  have "\<forall>d \<in> set (updateOne (\<lambda>d. x_id d = i \<and> \<not> isDeleted d)
           (\<lambda>_. (Organization_set x c)\<lparr>updatedAt := now\<rparr>) db). flagsConsistent d"
    if "findOne (\<lambda>d. x_id d = i \<and> \<not> isDeleted d) db = Some c" for c
  proof -
    have "\<not> isDeleted c" using findOne_SomeD[OF that] by simp
    with assms show ?thesis
      by (intro updateOne_pred) (simp_all add: flagsConsistent_def Organization_set_isDeleted)
  qed
  then show ?thesis
    using assms by (auto simp: updateOrganization_def Let_def split: option.split)
qed

lemma deleteOrganization_flags:
  assumes "\<forall>d \<in> set db. flagsConsistent d"
  shows "\<forall>d \<in> set (snd (deleteOrganization isValid db now i by)). flagsConsistent d"
proof -
  have "\<forall>d \<in> set (updateOne (\<lambda>d. x_id d = i)
           (\<lambda>d. d\<lparr>isDeleted := True, isActive := False, deletedAt := Some now,
                   deletedBy := Some by, updatedAt := now\<rparr>) db). flagsConsistent d"
    using assms by (rule updateOne_pred) (simp add: flagsConsistent_def)
  then show ?thesis
    using assms by (simp add: deleteOrganization_def split: option.split)
qed

lemma restoreOrganization_flags:
  assumes "\<forall>d \<in> set db. flagsConsistent d"
  shows "\<forall>d \<in> set (snd (restoreOrganization isValid db now i)). flagsConsistent d"
proof -
  have "\<forall>d \<in> set (updateOne (\<lambda>d. x_id d = i \<and> isDeleted d)
           (\<lambda>_. c\<lparr>isDeleted := False, isActive := True, deletedAt := None,
                   deletedBy := None, updatedAt := now\<rparr>) db). flagsConsistent d" for c
    using assms by (rule updateOne_pred) (simp add: flagsConsistent_def)
  then show ?thesis
    using assms by (simp add: restoreOrganization_def Let_def split: option.split)
qed

lemma createClient_flags:
  assumes "\<forall>d \<in> set db. flagsConsistent d"
  shows "\<forall>d \<in> set (snd (createClient isValid db now newId x)). flagsConsistent d"
  using assms
  by (auto simp: createClient_def Let_def flagsConsistent_def Client_setters_document
        split: option.splits)

lemma updateClient_flags:
  assumes "\<forall>d \<in> set db. flagsConsistent d"
  shows "\<forall>d \<in> set (snd (updateClient isValid db now i x org)). flagsConsistent d"
proof -
  have "\<forall>d \<in> set (updateOne (clientQuery i False org)
           (\<lambda>_. (Client_set x c)\<lparr>updatedAt := now\<rparr>) db). flagsConsistent d"
    if "findOne (clientQuery i False org) db = Some c" for c
  proof -
    have "\<not> isDeleted c" using findOne_SomeD[OF that] by (simp add: clientQuery_def)
    with assms show ?thesis
      by (intro updateOne_pred) (simp_all add: flagsConsistent_def Client_set_isDeleted)
  qed
  then show ?thesis
    using assms by (auto simp: updateClient_def Let_def split: option.split)
qed

lemma deleteClient_flags:
  assumes "\<forall>d \<in> set db. flagsConsistent d"
  shows "\<forall>d \<in> set (snd (deleteClient isValid db now i by org)). flagsConsistent d"
proof -
  have "\<forall>d \<in> set (updateOne (\<lambda>d. x_id d = i)
           (\<lambda>_. t\<lparr>isDeleted := True, isActive := False, deletedAt := Some now,
                   deletedBy := Some by, updatedAt := now\<rparr>) db). flagsConsistent d" for t
    using assms by (rule updateOne_pred) (simp add: flagsConsistent_def)
  then show ?thesis
    using assms by (simp add: deleteClient_def Let_def split: option.split)
qed

lemma restoreClient_flags:
  assumes "\<forall>d \<in> set db. flagsConsistent d"
  shows "\<forall>d \<in> set (snd (restoreClient isValid db now i org)). flagsConsistent d"
proof -
  have "\<forall>d \<in> set (updateOne (clientQuery i True org)
           (\<lambda>_. c\<lparr>isDeleted := False, isActive := True, deletedAt := None,
                   deletedBy := None, updatedAt := now\<rparr>) db). flagsConsistent d" for c
    using assms by (rule updateOne_pred) (simp add: flagsConsistent_def)
  then show ?thesis
    using assms by (simp add: restoreClient_def Let_def split: option.split)
qed

lemma createCollection_flags:
  assumes "\<forall>d \<in> set db. flagsConsistent d"
  shows "\<forall>d \<in> set (snd (createCollection db now newId x)). flagsConsistent d"
  using assms
  by (auto simp: createCollection_def Let_def flagsConsistent_def)

lemma updateCollection_flags:
  assumes "\<forall>d \<in> set db. flagsConsistent d"
  shows "\<forall>d \<in> set (snd (updateCollection db now i org x)). flagsConsistent d"
proof -
  have "\<forall>d \<in> set (updateOne (\<lambda>c. x_id c = i \<and> collection.organizationId c = org \<and> \<not> isDeleted c)
           (\<lambda>_. (assignUpdate x c)\<lparr>updatedAt := now\<rparr>) db). flagsConsistent d"
    if "findOne (\<lambda>c. x_id c = i \<and> collection.organizationId c = org \<and> \<not> isDeleted c) db = Some c" for c
  proof -
    have "\<not> isDeleted c" using findOne_SomeD[OF that] by simp
    with assms show ?thesis
      by (intro updateOne_pred) (simp_all add: flagsConsistent_def assignUpdate_flags)
  qed
  then show ?thesis
    using assms by (auto simp: updateCollection_def Let_def split: option.split)
qed

lemma deleteCollection_flags:
  assumes "\<forall>d \<in> set db. flagsConsistent d"
  shows "\<forall>d \<in> set (snd (deleteCollection db now i org by)). flagsConsistent d"
proof -
  have "\<forall>d \<in> set (updateOne (\<lambda>c. x_id c = i \<and> collection.organizationId c = org \<and> \<not> isDeleted c)
           (softDelete now by) db). flagsConsistent d"
    using assms by (rule updateOne_pred) (simp add: flagsConsistent_def softDelete_def)
  then show ?thesis
    using assms by (simp add: deleteCollection_def Let_def split: option.split)
qed

lemma perform_invariant:
  assumes "storeInvariant s"
  shows "storeInvariant (perform isValid s op)"
proof (cases op)
  case (CreateOrganization now newId d)
  then show ?thesis using assms createOrganization_flags[of "db_organizations s" isValid now newId d]
    by (simp add: storeInvariant_def)
next
  case (UpdateOrganization now i d)
  then show ?thesis using assms updateOrganization_flags[of "db_organizations s" isValid now i d]
    by (simp add: storeInvariant_def)
next
  case (DeleteOrganization now i who)
  then show ?thesis using assms deleteOrganization_flags[of "db_organizations s" isValid now i who]
    by (simp add: storeInvariant_def)
next
  case (RestoreOrganization now i)
  then show ?thesis using assms restoreOrganization_flags[of "db_organizations s" isValid now i]
    by (simp add: storeInvariant_def)
next
  case (CreateClient now newId d)
  then show ?thesis using assms createClient_flags[of "db_clients s" isValid now newId d]
    by (simp add: storeInvariant_def)
next
  case (UpdateClient now i d org)
  then show ?thesis using assms updateClient_flags[of "db_clients s" isValid now i d org]
    by (simp add: storeInvariant_def)
next
  case (DeleteClient now i who org)
  then show ?thesis using assms deleteClient_flags[of "db_clients s" isValid now i who org]
    by (simp add: storeInvariant_def)
next
  case (RestoreClient now i org)
  then show ?thesis using assms restoreClient_flags[of "db_clients s" isValid now i org]
    by (simp add: storeInvariant_def)
next
  case (CreateCollection now newId d)
  then show ?thesis using assms createCollection_flags[of "db_collections s" now newId d]
    by (simp add: storeInvariant_def)
next
  case (UpdateCollection now i org d)
  then show ?thesis using assms updateCollection_flags[of "db_collections s" now i org d]
    by (simp add: storeInvariant_def)
next
  case (DeleteCollection now i org who)
  then show ?thesis using assms deleteCollection_flags[of "db_collections s" now i org who]
    by (simp add: storeInvariant_def)
qed

lemma performAll_invariant:
  assumes "storeInvariant s"
  shows "storeInvariant (performAll isValid s ops)"
  using assms unfolding performAll_def
  by (induction ops arbitrary: s) (simp_all add: perform_invariant)

lemma createOrganization_Inr:
  assumes "fst (createOrganization isValid orgs now newId x) = Inr c"
  shows "\<not> isDeleted c \<and> isActive c"
proof (cases "findOne (\<lambda>d. organization.email d = toLowerCase (trim (newOrg_email x))
                        \<and> \<not> isDeleted d) orgs")
  case None
  with assms show ?thesis
    by (simp add: createOrganization_def Let_def split: if_splits)
       (auto simp: Organization_setters_document)
next
  case (Some a)
  with assms show ?thesis by (simp add: createOrganization_def)
qed

lemma createClient_Inr:
  assumes "fst (createClient isValid cls now newId y) = Inr c"
  shows "\<not> isDeleted c \<and> isActive c"
proof (cases "findOne (\<lambda>d. client.email d = toLowerCase (trim (newCl_email y))
                        \<and> client.organizationId d = newCl_organizationId y
                        \<and> \<not> isDeleted d) cls")
  case None
  with assms show ?thesis
    by (simp add: createClient_def Let_def split: if_splits)
       (auto simp: Client_setters_document)
next
  case (Some a)
  with assms show ?thesis by (simp add: createClient_def split: if_splits)
qed

lemma created_not_deleted:
  "(\<forall>c. fst (createOrganization isValid orgs now newId x) = Inr c \<longrightarrow> \<not> isDeleted c \<and> isActive c)
   \<and> (\<forall>c. fst (createClient isValid cls now newId y) = Inr c \<longrightarrow> \<not> isDeleted c \<and> isActive c)
   \<and> (\<forall>c. fst (createCollection cols today newId z) = Inr c \<longrightarrow> \<not> isDeleted c \<and> isActive c)"
  using createOrganization_Inr[of isValid orgs now newId x] createClient_Inr[of isValid cls now newId y]
  by (simp add: createCollection_fails)

lemma updated_not_deleted:
  "(\<forall>c. fst (updateOrganization isValid orgs now i x) = Inr c \<longrightarrow> \<not> isDeleted c)
   \<and> (\<forall>c. fst (updateClient isValid cls now i y scope) = Inr c \<longrightarrow> \<not> isDeleted c)
   \<and> (\<forall>c. fst (updateCollection cols now i org z) = Inr c \<longrightarrow> \<not> isDeleted c)"
proof (intro conjI allI impI)
  fix c assume "fst (updateOrganization isValid orgs now i x) = Inr c"
  then obtain c0 where "findOne (\<lambda>d. x_id d = i \<and> \<not> isDeleted d) orgs = Some c0"
    and "c = (Organization_set x c0)\<lparr>updatedAt := now\<rparr>"
    by (auto simp: updateOrganization_def Let_def split: if_splits option.splits)
  then show "\<not> isDeleted c"
    using findOne_SomeD[of "\<lambda>d. x_id d = i \<and> \<not> isDeleted d" orgs c0]
    by (simp add: Organization_set_isDeleted)
next
  fix c assume "fst (updateClient isValid cls now i y scope) = Inr c"
  then obtain c0 where "findOne (clientQuery i False scope) cls = Some c0"
    and "c = (Client_set y c0)\<lparr>updatedAt := now\<rparr>"
    by (auto simp: updateClient_def Let_def split: if_splits option.splits)
  then show "\<not> isDeleted c"
    using findOne_SomeD[of "clientQuery i False scope" cls c0]
    by (simp add: Client_set_isDeleted clientQuery_def)
next
  fix c assume "fst (updateCollection cols now i org z) = Inr c"
  then obtain c0 where
    "findOne (\<lambda>c. x_id c = i \<and> collection.organizationId c = org \<and> \<not> isDeleted c) cols = Some c0"
    and "c = (assignUpdate z c0)\<lparr>updatedAt := now\<rparr>"
    by (auto simp: updateCollection_def Let_def split: if_splits option.splits)
  then show "\<not> isDeleted c"
    using findOne_SomeD[of "\<lambda>c. x_id c = i \<and> collection.organizationId c = org \<and> \<not> isDeleted c" cols c0]
    by (simp add: assignUpdate_flags)
qed

text \<open>
  Claim C10. No store that the lifecycle operations reach from the empty store holds a
  document with \<open>isDeleted\<close> true and \<open>isActive\<close> true: every operation on
  organizations, clients and collections preserves this. A created document is not
  deleted and active, an updated document is one that is not deleted, the soft delete
  sets \<open>isDeleted\<close> and clears \<open>isActive\<close> in one write, and the restore clears
  \<open>isDeleted\<close> and sets \<open>isActive\<close>.
\<close>

theorem C10_deleted_implies_inactive:
  "storeInvariant emptyDatabase
   \<and> (storeInvariant s \<longrightarrow> storeInvariant (perform isValid s op))
   \<and> storeInvariant (performAll isValid emptyDatabase ops)
   \<and> (\<forall>c. fst (createOrganization isValid orgs now newId x) = Inr c \<longrightarrow> \<not> isDeleted c \<and> isActive c)
   \<and> (\<forall>c. fst (createClient isValid cls now newId y) = Inr c \<longrightarrow> \<not> isDeleted c \<and> isActive c)
   \<and> (\<forall>c. fst (createCollection cols today newId z) = Inr c \<longrightarrow> \<not> isDeleted c \<and> isActive c)
   \<and> (\<forall>c. fst (updateOrganization isValid orgs now i ux) = Inr c \<longrightarrow> \<not> isDeleted c)
   \<and> (\<forall>c. fst (updateClient isValid cls now i uy scope) = Inr c \<longrightarrow> \<not> isDeleted c)
   \<and> (\<forall>c. fst (updateCollection cols now i org uz) = Inr c \<longrightarrow> \<not> isDeleted c)
   \<and> isDeleted (softDelete now who (d :: collection)) \<and> \<not> isActive (softDelete now who d)
   \<and> \<not> isDeleted (restore now d) \<and> isActive (restore now d)"
proof -
  have e: "storeInvariant emptyDatabase"
    by (simp add: storeInvariant_def emptyDatabase_def)
  have p: "storeInvariant s \<longrightarrow> storeInvariant (perform isValid s op)"
    by (simp add: perform_invariant)
  have a: "storeInvariant (performAll isValid emptyDatabase ops)"
    using e by (rule performAll_invariant)
  have m: "isDeleted (softDelete now who d) \<and> \<not> isActive (softDelete now who d)
      \<and> \<not> isDeleted (restore now d) \<and> isActive (restore now d)"
    by (simp add: softDelete_def restore_def)
  from e p a m created_not_deleted[of isValid orgs now newId x cls y cols today z]
    updated_not_deleted[of isValid orgs now i ux cls uy scope cols org uz]
  show ?thesis by blast
qed

text \<open>A client is created and then deleted: the stored document is deleted and not active.\<close>

theorem C10_deleted_implies_inactive_witness:
  "storeInvariant emptyDatabase
   \<and> storeInvariant (perform objectIdPattern emptyDatabase
        (CreateClient 3 oidA (exampleNewClient ''a@x.io'' None oidB)))
   \<and> storeInvariant (performAll objectIdPattern emptyDatabase
        [CreateClient 3 oidA (exampleNewClient ''a@x.io'' None oidB),
         DeleteClient 4 oidA oidC (Some oidB)])
   \<and> map isDeleted (db_clients (performAll objectIdPattern emptyDatabase
        [CreateClient 3 oidA (exampleNewClient ''a@x.io'' None oidB),
         DeleteClient 4 oidA oidC (Some oidB)])) = [True]
   \<and> map isActive (db_clients (performAll objectIdPattern emptyDatabase
        [CreateClient 3 oidA (exampleNewClient ''a@x.io'' None oidB),
         DeleteClient 4 oidA oidC (Some oidB)])) = [False]"
proof -
  let ?ops = "[CreateClient 3 oidA (exampleNewClient ''a@x.io'' None oidB),
         DeleteClient 4 oidA oidC (Some oidB)]"
  have c: "createClient objectIdPattern [] 3 oidA (exampleNewClient ''a@x.io'' None oidB)
      = (Inr (exampleClient oidA ''a@x.io'' None oidB\<lparr>createdAt := 3, updatedAt := 3\<rparr>),
         [exampleClient oidA ''a@x.io'' None oidB\<lparr>createdAt := 3, updatedAt := 3\<rparr>])"
    by (simp add: createClient_def exampleNewClient_def exampleClient_def oid_valid findOne_def
          Client_duplicateKey_def Let_def Client_setters_def Address_trim_def example_strings
          Client_valid_def Address_valid_def maxlength_def required_def emptyOr_def example_regex)
  have d: "deleteClient objectIdPattern
        [exampleClient oidA ''a@x.io'' None oidB\<lparr>createdAt := 3, updatedAt := 3\<rparr>] 4 oidA oidC (Some oidB)
      = (Inr (), [exampleClient oidA ''a@x.io'' None oidB\<lparr>createdAt := 3, updatedAt := 4,
           isDeleted := True, isActive := False, deletedAt := Some 4, deletedBy := Some oidC\<rparr>])"
    by (simp add: deleteClient_def exampleClient_def oid_valid oid_distinct findOne_def
          clientQuery_def invalidOrganization_def Client_duplicateKey_def Let_def)
  have r: "db_clients (performAll objectIdPattern emptyDatabase ?ops)
      = [exampleClient oidA ''a@x.io'' None oidB\<lparr>createdAt := 3, updatedAt := 4,
           isDeleted := True, isActive := False, deletedAt := Some 4, deletedBy := Some oidC\<rparr>]"
    by (simp add: performAll_def emptyDatabase_def c d)
  note t = C10_deleted_implies_inactive[where isValid = objectIdPattern and s = emptyDatabase
      and op = "CreateClient 3 oidA (exampleNewClient ''a@x.io'' None oidB)" and ops = ?ops]
  from t r show ?thesis by simp
qed

end
